theory Spec2Isabelle
  imports Complex_Main "HOL-Library.Monad_Syntax"
begin

section \<open>JavaScript numbers\<close>

text \<open>
  The library of \<^verbatim>\<open>shape-editor.js\<close> computes with JavaScript numbers. A number is
  modelled as a finite real or one of the three IEEE special values. Arithmetic on
  finite values is exact real arithmetic: rounding, overflow to infinity and the sign
  of zero are not represented (a division of a non-zero finite value by zero yields the
  infinity that IEEE gives for a positive zero divisor). The rules for the special
  values are those of IEEE 754.
\<close>

datatype jsnum = Fin real | PInf | NInf | NaN

fun js_neg :: "jsnum \<Rightarrow> jsnum" where
  "js_neg (Fin a) = Fin (- a)"
| "js_neg PInf = NInf"
| "js_neg NInf = PInf"
| "js_neg NaN = NaN"

fun js_add :: "jsnum \<Rightarrow> jsnum \<Rightarrow> jsnum" where
  "js_add (Fin a) (Fin b) = Fin (a + b)"
| "js_add NaN y = NaN"
| "js_add x NaN = NaN"
| "js_add PInf NInf = NaN"
| "js_add NInf PInf = NaN"
| "js_add PInf y = PInf"
| "js_add NInf y = NInf"
| "js_add (Fin a) y = y"

definition js_sub :: "jsnum \<Rightarrow> jsnum \<Rightarrow> jsnum" where
  "js_sub x y = js_add x (js_neg y)"

text \<open>The infinity of the given sign: \<open>True\<close> for a negative result.\<close>

definition inf_of :: "bool \<Rightarrow> jsnum" where
  "inf_of negative = (if negative then NInf else PInf)"

fun js_mul :: "jsnum \<Rightarrow> jsnum \<Rightarrow> jsnum" where
  "js_mul (Fin a) (Fin b) = Fin (a * b)"
| "js_mul NaN y = NaN"
| "js_mul x NaN = NaN"
| "js_mul (Fin a) PInf = (if a = 0 then NaN else inf_of (a < 0))"
| "js_mul (Fin a) NInf = (if a = 0 then NaN else inf_of (0 < a))"
| "js_mul PInf (Fin b) = (if b = 0 then NaN else inf_of (b < 0))"
| "js_mul NInf (Fin b) = (if b = 0 then NaN else inf_of (0 < b))"
| "js_mul PInf PInf = PInf"
| "js_mul PInf NInf = NInf"
| "js_mul NInf PInf = NInf"
| "js_mul NInf NInf = PInf"

fun js_div :: "jsnum \<Rightarrow> jsnum \<Rightarrow> jsnum" where
  "js_div (Fin a) (Fin b) =
     (if b = 0 then (if a = 0 then NaN else inf_of (a < 0)) else Fin (a / b))"
| "js_div NaN y = NaN"
| "js_div x NaN = NaN"
| "js_div (Fin a) PInf = Fin 0"
| "js_div (Fin a) NInf = Fin 0"
| "js_div PInf (Fin b) = inf_of (b < 0)"
| "js_div NInf (Fin b) = inf_of (0 \<le> b)"
| "js_div PInf y = NaN"
| "js_div NInf y = NaN"

text \<open>
  \<^verbatim>\<open>Math.sqrt\<close>, \<^verbatim>\<open>Math.cos\<close>, \<^verbatim>\<open>Math.sin\<close>, \<^verbatim>\<open>Math.tan\<close> and \<^verbatim>\<open>isFinite\<close>.
  The tangent is the quotient of sine and cosine, so that at a pole it is the infinity
  or NaN of that division.
\<close>

fun js_sqrt :: "jsnum \<Rightarrow> jsnum" where
  "js_sqrt (Fin a) = (if a < 0 then NaN else Fin (sqrt a))"
| "js_sqrt PInf = PInf"
| "js_sqrt NInf = NaN"
| "js_sqrt NaN = NaN"

fun js_cos :: "jsnum \<Rightarrow> jsnum" where
  "js_cos (Fin a) = Fin (cos a)"
| "js_cos x = NaN"

fun js_sin :: "jsnum \<Rightarrow> jsnum" where
  "js_sin (Fin a) = Fin (sin a)"
| "js_sin x = NaN"

definition js_tan :: "jsnum \<Rightarrow> jsnum" where
  "js_tan x = js_div (js_sin x) (js_cos x)"

fun isFinite :: "jsnum \<Rightarrow> bool" where
  "isFinite (Fin a) = True"
| "isFinite x = False"

text \<open>The comparison \<^verbatim>\<open>==\<close> (and \<^verbatim>\<open>===\<close>) of two numbers: NaN equals nothing.\<close>

fun js_eq :: "jsnum \<Rightarrow> jsnum \<Rightarrow> bool" where
  "js_eq (Fin a) (Fin b) = (a = b)"
| "js_eq PInf PInf = True"
| "js_eq NInf NInf = True"
| "js_eq x y = False"

section \<open>Values\<close>

text \<open>
  An array element is a number or \<^verbatim>\<open>undefined\<close>. A vector is a plain array of
  elements; a matrix is an array of row arrays whose \<^verbatim>\<open>matrix\<close> property is
  \<^verbatim>\<open>true\<close>. \<open>Vec\<close> stands for an array without the property and \<open>Mat\<close> for an
  array of rows that carries it. The untagged arrays of rows that occur in the library
  (the minors built inside the determinant and inverse routines) are passed as bare
  row lists. Arrays nested in any other way, and elements that are neither a number nor
  \<^verbatim>\<open>undefined\<close>, are outside the model; the parameter types follow the library's
  JSDoc annotations.
\<close>

datatype jsval = Undefined | Number jsnum

datatype lin = Vec (elems: "jsval list") | Mat (rows: "jsval list list")

text \<open>One actual argument of a variadic constructor: a scalar or an array of scalars.\<close>

datatype arg = Scalar jsval | Arr "jsval list"

text \<open>
  What a call produces besides its console output: a returned value, the value
  \<^verbatim>\<open>undefined\<close> of a bare \<^verbatim>\<open>return;\<close>, or a thrown exception (the thrown
  string, or \<open>''TypeError''\<close> for a property read on \<^verbatim>\<open>undefined\<close>).
\<close>

datatype 'a outcome = Returns 'a | ReturnsUndefined | Throws string

text \<open>An effectful call: the messages written with \<^verbatim>\<open>console.error\<close>, then the outcome.\<close>

type_synonym 'a logged = "string list \<times> 'a outcome"

text \<open>ToNumber on an element, as applied by the arithmetic operators.\<close>

fun to_num :: "jsval \<Rightarrow> jsnum" where
  "to_num Undefined = NaN"
| "to_num (Number x) = x"

text \<open>
  ToNumber on an array of elements goes through its string form: the empty array and
  \<^verbatim>\<open>[undefined]\<close> print as the empty string (0), a single number prints as itself,
  and two or more elements print with a comma, which is not a numeral.
\<close>

fun array_to_num :: "jsval list \<Rightarrow> jsnum" where
  "array_to_num [] = Fin 0"
| "array_to_num [Undefined] = Fin 0"
| "array_to_num [Number x] = x"
| "array_to_num (x # y # zs) = NaN"

text \<open>\<^verbatim>\<open>r[j]\<close>: reading past the end of an array gives \<^verbatim>\<open>undefined\<close>.\<close>

definition cell :: "jsval list \<Rightarrow> nat \<Rightarrow> jsval" where
  "cell r j = (if j < length r then r ! j else Undefined)"

text \<open>\<^verbatim>\<open>r[j]\<close> as an operand of arithmetic.\<close>

definition rd :: "jsval list \<Rightarrow> nat \<Rightarrow> jsnum" where
  "rd r j = to_num (cell r j)"

text \<open>
  \<^verbatim>\<open>a[i][j] = v\<close> on the rows of a freshly constructed matrix; the library only
  assigns inside the bounds of the matrix it has just built.
\<close>

definition put_cell :: "jsval list list \<Rightarrow> nat \<Rightarrow> nat \<Rightarrow> jsval \<Rightarrow> jsval list list" where
  "put_cell a i j v = a[i := (a ! i)[j := v]]"

definition put :: "jsval list list \<Rightarrow> nat \<Rightarrow> nat \<Rightarrow> jsnum \<Rightarrow> jsval list list" where
  "put a i j v = put_cell a i j (Number v)"

abbreviation num :: "real \<Rightarrow> jsval" where
  "num x \<equiv> Number (Fin x)"

section \<open>Constructors\<close>

fun spread :: "arg \<Rightarrow> jsval list" where
  "spread (Scalar x) = [x]"
| "spread (Arr xs) = xs"

text \<open>\<^verbatim>\<open>[].concat.apply([], args)\<close>: array arguments are spliced in, one level deep.\<close>

definition objectToArray :: "arg list \<Rightarrow> jsval list" where
  "objectToArray args = concat (map spread args)"

text \<open>The \<^verbatim>\<open>switch\<close> falls through, so a shorter argument list receives more pushes.\<close>

definition vec2 :: "arg list \<Rightarrow> jsval list" where
  "vec2 args =
     (let result = objectToArray args;
          result = (if length result = 0 then result @ [num 0, num 0]
                    else if length result = 1 then result @ [num 0]
                    else result)
      in take 2 result)"

definition vec3 :: "arg list \<Rightarrow> jsval list" where
  "vec3 args =
     (let result = objectToArray args;
          result = (if length result = 0 then result @ [num 0, num 0, num 0]
                    else if length result = 1 then result @ [num 0, num 0]
                    else if length result = 2 then result @ [num 0]
                    else result)
      in take 3 result)"

definition vec4 :: "arg list \<Rightarrow> jsval list" where
  "vec4 args =
     (let result = objectToArray args;
          result = (if length result = 0 then result @ [num 0, num 0, num 0, num 1]
                    else if length result = 1 then result @ [num 0, num 0, num 1]
                    else if length result = 2 then result @ [num 0, num 1]
                    else if length result = 3 then result @ [num 1]
                    else result)
      in take 4 result)"

text \<open>
  With no argument \<^verbatim>\<open>v[0] = 1\<close> is stored first and the one-argument case follows;
  otherwise the rows are cut from the flattened arguments, \<^verbatim>\<open>v.splice\<close> dropping
  what the previous row used.
\<close>

definition mat2 :: "arg list \<Rightarrow> lin" where
  "mat2 args =
     (let v = objectToArray args;
          v = (if length v = 0 then [num 1] else v)
      in if length v = 1
         then Mat [vec2 [Scalar (v ! 0), Scalar (num 0)],
                   vec2 [Scalar (num 0), Scalar (v ! 0)]]
         else Mat [vec2 [Arr v], vec2 [Arr (drop 2 v)]])"

definition mat3 :: "arg list \<Rightarrow> lin" where
  "mat3 args =
     (let v = objectToArray args;
          v = (if length v = 0 then [num 1] else v)
      in if length v = 1
         then Mat [vec3 [Scalar (v ! 0), Scalar (num 0), Scalar (num 0)],
                   vec3 [Scalar (num 0), Scalar (v ! 0), Scalar (num 0)],
                   vec3 [Scalar (num 0), Scalar (num 0), Scalar (v ! 0)]]
         else Mat [vec3 [Arr v], vec3 [Arr (drop 3 v)], vec3 [Arr (drop 6 v)]])"

definition mat4 :: "arg list \<Rightarrow> lin" where
  "mat4 args =
     (let v = objectToArray args;
          v = (if length v = 0 then [num 1] else v)
      in if length v = 1
         then Mat [vec4 [Scalar (v ! 0), Scalar (num 0), Scalar (num 0), Scalar (num 0)],
                   vec4 [Scalar (num 0), Scalar (v ! 0), Scalar (num 0), Scalar (num 0)],
                   vec4 [Scalar (num 0), Scalar (num 0), Scalar (v ! 0), Scalar (num 0)],
                   vec4 [Scalar (num 0), Scalar (num 0), Scalar (num 0), Scalar (v ! 0)]]
         else Mat [vec4 [Arr v], vec4 [Arr (drop 4 v)], vec4 [Arr (drop 8 v)],
                   vec4 [Arr (drop 12 v)]])"

section \<open>Determinants\<close>

text \<open>
  The determinant and inverse routines read \<^verbatim>\<open>m[i][j]\<close>. Reading an element of a
  missing row is a property read on \<^verbatim>\<open>undefined\<close>, which raises TypeError: the
  result \<open>None\<close>. Reading past the end of a row gives \<^verbatim>\<open>undefined\<close>, which the
  arithmetic turns into NaN.
\<close>

fun det2 :: "jsval list list \<Rightarrow> jsnum option" where
  "det2 (r0 # r1 # rest) =
     Some (js_sub (js_mul (rd r0 0) (rd r1 1)) (js_mul (rd r0 1) (rd r1 0)))"
| "det2 m = None"

fun det3 :: "jsval list list \<Rightarrow> jsnum option" where
  "det3 (r0 # r1 # r2 # rest) =
     Some (js_sub (js_sub (js_sub
       (js_add (js_add (js_mul (js_mul (rd r0 0) (rd r1 1)) (rd r2 2))
                       (js_mul (js_mul (rd r0 1) (rd r1 2)) (rd r2 0)))
               (js_mul (js_mul (rd r0 2) (rd r2 1)) (rd r1 0)))
       (js_mul (js_mul (rd r2 0) (rd r1 1)) (rd r0 2)))
       (js_mul (js_mul (rd r1 0) (rd r0 1)) (rd r2 2)))
       (js_mul (js_mul (rd r0 0) (rd r1 2)) (rd r2 1)))"
| "det3 m = None"

text \<open>
  The untagged array \<^verbatim>\<open>[vec2(a[i], a[j]), vec2(b[i], b[j])]\<close> of two rows and two
  columns, and its analogue with three rows and three columns.
\<close>

definition minor2 :: "jsval list \<Rightarrow> jsval list \<Rightarrow> nat \<Rightarrow> nat \<Rightarrow> jsval list list" where
  "minor2 a b i j =
     [vec2 [Scalar (cell a i), Scalar (cell a j)],
      vec2 [Scalar (cell b i), Scalar (cell b j)]]"

definition minor3 ::
  "jsval list \<Rightarrow> jsval list \<Rightarrow> jsval list \<Rightarrow> nat \<Rightarrow> nat \<Rightarrow> nat \<Rightarrow> jsval list list" where
  "minor3 a b c i j k =
     [vec3 [Scalar (cell a i), Scalar (cell a j), Scalar (cell a k)],
      vec3 [Scalar (cell b i), Scalar (cell b j), Scalar (cell b k)],
      vec3 [Scalar (cell c i), Scalar (cell c j), Scalar (cell c k)]]"

fun det4 :: "jsval list list \<Rightarrow> jsnum option" where
  "det4 (r0 # r1 # r2 # r3 # rest) =
     do {
       d0 \<leftarrow> det3 (minor3 r1 r2 r3 1 2 3);
       d1 \<leftarrow> det3 (minor3 r1 r2 r3 0 2 3);
       d2 \<leftarrow> det3 (minor3 r1 r2 r3 0 1 3);
       d3 \<leftarrow> det3 (minor3 r1 r2 r3 0 1 2);
       Some (js_sub (js_add (js_sub (js_mul (rd r0 0) d0) (js_mul (rd r0 1) d1))
                            (js_mul (rd r0 2) d2))
                    (js_mul (rd r0 3) d3))
     }"
| "det4 m = None"

section \<open>Inverses\<close>

fun inverse2 :: "jsval list list \<Rightarrow> lin option" where
  "inverse2 (r0 # r1 # rest) =
     do {
       let a = rows (mat2 []);
       d \<leftarrow> det2 (r0 # r1 # rest);
       let a = put a 0 0 (js_div (rd r1 1) d);
       let a = put a 0 1 (js_div (js_neg (rd r0 1)) d);
       let a = put a 1 0 (js_div (js_neg (rd r1 0)) d);
       let a = put a 1 1 (js_div (rd r0 0) d);
       Some (Mat a)
     }"
| "inverse2 m = None"

fun inverse3 :: "jsval list list \<Rightarrow> lin option" where
  "inverse3 (r0 # r1 # r2 # rest) =
     do {
       let a = rows (mat3 []);
       d \<leftarrow> det3 (r0 # r1 # r2 # rest);
       let a00 = minor2 r1 r2 1 2;
       let a01 = minor2 r1 r2 0 2;
       let a02 = minor2 r1 r2 0 1;
       let a10 = minor2 r0 r2 1 2;
       let a11 = minor2 r0 r2 0 2;
       let a12 = minor2 r0 r2 0 1;
       let a20 = minor2 r0 r1 1 2;
       let a21 = minor2 r0 r1 0 2;
       let a22 = minor2 r0 r1 0 1;
       c00 \<leftarrow> det2 a00; let a = put a 0 0 (js_div c00 d);
       c10 \<leftarrow> det2 a10; let a = put a 0 1 (js_div (js_neg c10) d);
       c20 \<leftarrow> det2 a20; let a = put a 0 2 (js_div c20 d);
       c01 \<leftarrow> det2 a01; let a = put a 1 0 (js_div (js_neg c01) d);
       c11 \<leftarrow> det2 a11; let a = put a 1 1 (js_div c11 d);
       c21 \<leftarrow> det2 a21; let a = put a 1 2 (js_div (js_neg c21) d);
       c02 \<leftarrow> det2 a02; let a = put a 2 0 (js_div c02 d);
       c12 \<leftarrow> det2 a12; let a = put a 2 1 (js_div (js_neg c12) d);
       c22 \<leftarrow> det2 a22; let a = put a 2 2 (js_div c22 d);
       Some (Mat a)
     }"
| "inverse3 m = None"

fun inverse4 :: "jsval list list \<Rightarrow> lin option" where
  "inverse4 (r0 # r1 # r2 # r3 # rest) =
     do {
       let a = rows (mat4 []);
       d \<leftarrow> det4 (r0 # r1 # r2 # r3 # rest);
       let a00 = minor3 r1 r2 r3 1 2 3;
       let a01 = minor3 r1 r2 r3 0 2 3;
       let a02 = minor3 r1 r2 r3 0 1 3;
       let a03 = minor3 r1 r2 r3 0 1 2;
       let a10 = minor3 r0 r2 r3 1 2 3;
       let a11 = minor3 r0 r2 r3 0 2 3;
       let a12 = minor3 r0 r2 r3 0 1 3;
       let a13 = minor3 r0 r2 r3 0 1 2;
       let a20 = minor3 r0 r1 r3 1 2 3;
       let a21 = minor3 r0 r1 r3 0 2 3;
       let a22 = minor3 r0 r1 r3 0 1 3;
       let a23 = minor3 r0 r1 r3 0 1 2;
       let a30 = minor3 r0 r1 r2 1 2 3;
       let a31 = minor3 r0 r1 r2 0 2 3;
       let a32 = minor3 r0 r1 r2 0 1 3;
       let a33 = minor3 r0 r1 r2 0 1 2;
       c00 \<leftarrow> det3 a00; let a = put a 0 0 (js_div c00 d);
       c10 \<leftarrow> det3 a10; let a = put a 0 1 (js_div (js_neg c10) d);
       c20 \<leftarrow> det3 a20; let a = put a 0 2 (js_div c20 d);
       c30 \<leftarrow> det3 a30; let a = put a 0 3 (js_div (js_neg c30) d);
       c01 \<leftarrow> det3 a01; let a = put a 1 0 (js_div (js_neg c01) d);
       c11 \<leftarrow> det3 a11; let a = put a 1 1 (js_div c11 d);
       c21 \<leftarrow> det3 a21; let a = put a 1 2 (js_div (js_neg c21) d);
       c31 \<leftarrow> det3 a31; let a = put a 1 3 (js_div c31 d);
       c02 \<leftarrow> det3 a02; let a = put a 2 0 (js_div c02 d);
       c12 \<leftarrow> det3 a12; let a = put a 2 1 (js_div (js_neg c12) d);
       c22 \<leftarrow> det3 a22; let a = put a 2 2 (js_div c22 d);
       c32 \<leftarrow> det3 a32; let a = put a 2 3 (js_div (js_neg c32) d);
       c03 \<leftarrow> det3 a03; let a = put a 3 0 (js_div (js_neg c03) d);
       c13 \<leftarrow> det3 a13; let a = put a 3 1 (js_div c13 d);
       c23 \<leftarrow> det3 a23; let a = put a 3 2 (js_div (js_neg c23) d);
       c33 \<leftarrow> det3 a33; let a = put a 3 3 (js_div c33 d);
       Some (Mat a)
     }"
| "inverse4 m = None"

text \<open>
  The dispatchers test the tag and the length of any array. Indexing a number gives
  \<^verbatim>\<open>undefined\<close> without an error, so a number element of a vector behaves as a row
  without elements; indexing an \<^verbatim>\<open>undefined\<close> element raises TypeError.
\<close>

fun as_row :: "jsval \<Rightarrow> jsval list option" where
  "as_row Undefined = None"
| "as_row (Number x) = Some []"

fun indexed :: "lin \<Rightarrow> jsval list list option" where
  "indexed (Mat rs) = Some rs"
| "indexed (Vec xs) = those (map as_row xs)"

fun len :: "lin \<Rightarrow> nat" where
  "len (Mat rs) = length rs"
| "len (Vec xs) = length xs"

fun is_matrix :: "lin \<Rightarrow> bool" where
  "is_matrix (Mat rs) = True"
| "is_matrix (Vec xs) = False"

fun thrown :: "'a option \<Rightarrow> 'a outcome" where
  "thrown None = Throws ''TypeError''"
| "thrown (Some x) = Returns x"

definition calculateDeterminant :: "lin \<Rightarrow> jsnum logged" where
  "calculateDeterminant m =
     (let msgs = (if is_matrix m then []
                 else [''WebGL Utilities: calculateDeterminant(): Variable is not a matrix.''])
      in if len m = 2 then (msgs, thrown (indexed m \<bind> det2))
         else if len m = 3 then (msgs, thrown (indexed m \<bind> det3))
         else if len m = 4 then (msgs, thrown (indexed m \<bind> det4))
         else (msgs, ReturnsUndefined))"

definition calculateInverseMatrix :: "lin \<Rightarrow> lin logged" where
  "calculateInverseMatrix m =
     (let msgs = (if is_matrix m then []
                 else [''WebGL Utilities: calculateInverseMatrix(): Variable is not a matrix.''])
      in if len m = 2 then (msgs, thrown (indexed m \<bind> inverse2))
         else if len m = 3 then (msgs, thrown (indexed m \<bind> inverse3))
         else if len m = 4 then (msgs, thrown (indexed m \<bind> inverse4))
         else (msgs, ReturnsUndefined))"

section \<open>Generic operations\<close>

text \<open>The elements of an array as operands: a scalar of a vector, a row of a matrix.\<close>

fun items :: "lin \<Rightarrow> arg list" where
  "items (Vec xs) = map Scalar xs"
| "items (Mat rs) = map Arr rs"

fun arg_to_num :: "arg \<Rightarrow> jsnum" where
  "arg_to_num (Scalar x) = to_num x"
| "arg_to_num (Arr xs) = array_to_num xs"

text \<open>
  Addition checks the outer lengths, then each pair of rows while it builds the result;
  the first mismatch reports and returns \<^verbatim>\<open>undefined\<close>, discarding the rows built
  so far.
\<close>

fun add_rows :: "jsval list list \<Rightarrow> jsval list list \<Rightarrow> jsval list list option" where
  "add_rows (r # rs) (q # qs) =
     (if length r \<noteq> length q then None
      else map_option ((#) (map2 (\<lambda>x y. Number (js_add (to_num x) (to_num y))) r q))
             (add_rows rs qs))"
| "add_rows rs qs = Some []"

definition linearAddition :: "lin \<Rightarrow> lin \<Rightarrow> lin logged" where
  "linearAddition u v =
     (if is_matrix u \<and> is_matrix v then
        (if len u \<noteq> len v
         then ([''WebGL Utilities: linearAddition(): Cannot add matrices of different dimensions.''],
               ReturnsUndefined)
         else (case add_rows (rows u) (rows v) of
                 None \<Rightarrow>
                   ([''WebGL Utilities: linearAddition(): Cannot add matrices of different dimensions.''],
                    ReturnsUndefined)
               | Some result \<Rightarrow> ([], Returns (Mat result))))
      else if (is_matrix u \<and> \<not> is_matrix v) \<or> (\<not> is_matrix u \<and> is_matrix v)
      then ([''WebGL Utilities: linearAddition(): Cannot add matrix and non-matrix variables.''],
            ReturnsUndefined)
      else if len u \<noteq> len v
      then ([''WebGL Utilities: linearAddition(): Cannot add matrices of different dimensions.''],
            ReturnsUndefined)
      else ([], Returns (Vec (map2 (\<lambda>x y. Number (js_add (to_num x) (to_num y)))
                                 (elems u) (elems v)))))"

fun subtract_rows :: "jsval list list \<Rightarrow> jsval list list \<Rightarrow> jsval list list option" where
  "subtract_rows (r # rs) (q # qs) =
     (if length r \<noteq> length q then None
      else map_option ((#) (map2 (\<lambda>x y. Number (js_sub (to_num x) (to_num y))) r q))
             (subtract_rows rs qs))"
| "subtract_rows rs qs = Some []"

definition linearSubtract :: "lin \<Rightarrow> lin \<Rightarrow> lin logged" where
  "linearSubtract u v =
     (if is_matrix u \<and> is_matrix v then
        (if len u \<noteq> len v
         then ([''WebGL Utilities: linearSubtract(): Cannot subtract matrices of different lengths.''],
               ReturnsUndefined)
         else (case subtract_rows (rows u) (rows v) of
                 None \<Rightarrow>
                   ([''WebGL Utilities: linearSubtract(): Cannot subtract matrices of different lengths.''],
                    ReturnsUndefined)
               | Some result \<Rightarrow> ([], Returns (Mat result))))
      else if (is_matrix u \<and> \<not> is_matrix v) \<or> (\<not> is_matrix u \<and> is_matrix v)
      then ([''WebGL Utilities: linearSubtract(): Cannot subtract vector/matrix and non-vector/matrix variables.''],
            ReturnsUndefined)
      else if len u \<noteq> len v
      then ([''WebGL Utilities: linearSubtract(): Cannot subtract vectors/matrices of different lengths.''],
            ReturnsUndefined)
      else ([], Returns (Vec (map2 (\<lambda>x y. Number (js_sub (to_num x) (to_num y)))
                                 (elems u) (elems v)))))"

text \<open>
  \<^verbatim>\<open>sum = 0.0; for (k = 0; k < n; ++k) sum += f(k)\<close>, the accumulation used by the
  products.
\<close>

definition sum_upto :: "nat \<Rightarrow> (nat \<Rightarrow> jsnum) \<Rightarrow> jsnum" where
  "sum_upto n f = foldl (\<lambda>acc k. js_add acc (f k)) (Fin 0) [0..<n]"

text \<open>
  Multiplication of two matrices first checks all row lengths, then builds an
  \<open>n \<times> n\<close> result from the first \<open>n\<close> columns, \<open>n\<close> being the number of rows. A
  matrix and an untagged array of the same length give the matrix-vector product; the
  remaining case multiplies element by element, converting a row to a number.
\<close>

definition linearMultiply :: "lin \<Rightarrow> lin \<Rightarrow> lin logged" where
  "linearMultiply u v =
     (if is_matrix u \<and> is_matrix v then
        (if len u \<noteq> len v
         then ([''WebGL Utilities: linearMultiply(): Cannot multiply vectors/matrices of different dimensions.''],
               ReturnsUndefined)
         else if \<exists>i \<in> set [0..<len u]. length (rows u ! i) \<noteq> length (rows v ! i)
         then ([''WebGL Utilities: linearMultiply(): Cannot multiply vectors/matrices of different dimensions.''],
               ReturnsUndefined)
         else ([], Returns (Mat
                 (map (\<lambda>i. map (\<lambda>j. Number (sum_upto (len u)
                                  (\<lambda>k. js_mul (rd (rows u ! i) k) (rd (rows v ! k) j))))
                             [0..<len v])
                      [0..<len u]))))
      else if is_matrix u \<and> len u = len v then
        ([], Returns (Vec
               (map (\<lambda>i. Number (sum_upto (len v)
                             (\<lambda>j. js_mul (rd (rows u ! i) j) (to_num (elems v ! j)))))
                    [0..<len v])))
      else if len u \<noteq> len v
      then ([''WebGL Utilities: linearMultiply(): Cannot multiply vectors/matrices of different dimensions.''],
            ReturnsUndefined)
      else ([], Returns (Vec (map2 (\<lambda>x y. Number (js_mul (arg_to_num x) (arg_to_num y)))
                                 (items u) (items v)))))"

text \<open>Strict inequality \<^verbatim>\<open>!==\<close> of two array elements.\<close>

fun strict_neq :: "jsval \<Rightarrow> jsval \<Rightarrow> bool" where
  "strict_neq Undefined Undefined = False"
| "strict_neq (Number x) (Number y) = (\<not> js_eq x y)"
| "strict_neq x y = True"

fun rows_differ :: "jsval list list \<Rightarrow> jsval list list \<Rightarrow> bool" where
  "rows_differ (r # rs) (q # qs) =
     (length r \<noteq> length q \<or> list_ex (\<lambda>(x, y). strict_neq x y) (zip r q) \<or> rows_differ rs qs)"
| "rows_differ rs qs = False"

definition linearEquivalence :: "lin \<Rightarrow> lin \<Rightarrow> bool" where
  "linearEquivalence u v =
     (if len u \<noteq> len v then False
      else if is_matrix u \<and> is_matrix v then \<not> rows_differ (rows u) (rows v)
      else if (is_matrix u \<and> \<not> is_matrix v) \<or> (\<not> is_matrix u \<and> is_matrix v) then False
      else \<not> list_ex (\<lambda>(x, y). strict_neq x y) (zip (elems u) (elems v)))"

section \<open>Matrix and vector functions\<close>

text \<open>
  Row \<open>i\<close> of the transpose collects \<^verbatim>\<open>m[j][i]\<close> for \<open>j\<close> below the length of row
  \<open>i\<close>; a row longer than the number of rows makes \<^verbatim>\<open>m[j]\<close> undefined and the
  read raises TypeError.
\<close>

definition transposeMatrix :: "lin \<Rightarrow> lin logged" where
  "transposeMatrix m =
     (if \<not> is_matrix m
      then ([''WebGL Utilities: transposeMatrix(): Cannot transpose a non-matrix.''],
            ReturnsUndefined)
      else if list_ex (\<lambda>r. length (rows m) < length r) (rows m)
      then ([], Throws ''TypeError'')
      else ([], Returns (Mat
              (map (\<lambda>i. map (\<lambda>j. cell (rows m ! j) i) [0..<length (rows m ! i)])
                   [0..<length (rows m)]))))"

text \<open>The length test only reports; the sum runs over the first vector's indices.\<close>

definition dotProduct :: "jsval list \<Rightarrow> jsval list \<Rightarrow> string list \<times> jsnum" where
  "dotProduct u v =
     ((if length u \<noteq> length v
       then [''WebGL Utilities dotProduct(): Vectors are not the same dimension.'']
       else []),
      sum_upto (length u) (\<lambda>i. js_mul (rd u i) (rd v i)))"

definition negateElements :: "jsval list \<Rightarrow> jsval list" where
  "negateElements u = map (\<lambda>x. Number (js_neg (to_num x))) u"

text \<open>
  An argument of \<open>crossProduct\<close> and \<open>normalizeVectors\<close> may be the \<^verbatim>\<open>undefined\<close>
  that a failed call returned: \<open>None\<close>.
\<close>

definition crossProduct :: "jsval list option \<Rightarrow> jsval list option \<Rightarrow> jsval list logged" where
  "crossProduct u v =
     (case u of
        None \<Rightarrow> ([''WebGL Utilities: crossProduct(): First argument is not a vector of minimum size, 3.''],
                 ReturnsUndefined)
      | Some u \<Rightarrow>
          if length u < 3
          then ([''WebGL Utilities: crossProduct(): First argument is not a vector of minimum size, 3.''],
                ReturnsUndefined)
          else (case v of
                  None \<Rightarrow> ([''WebGL Utilities: crossProduct(): Second argument is not a vector of minimum size, 3.''],
                           ReturnsUndefined)
                | Some v \<Rightarrow>
                    if length v < 3
                    then ([''WebGL Utilities: crossProduct(): Second argument is not a vector of minimum size, 3.''],
                          ReturnsUndefined)
                    else ([], Returns
                           [Number (js_sub (js_mul (rd u 1) (rd v 2)) (js_mul (rd u 2) (rd v 1))),
                            Number (js_sub (js_mul (rd u 2) (rd v 0)) (js_mul (rd u 0) (rd v 2))),
                            Number (js_sub (js_mul (rd u 0) (rd v 1)) (js_mul (rd u 1) (rd v 0)))])))"

definition vectorLength :: "jsval list \<Rightarrow> string list \<times> jsnum" where
  "vectorLength u = (case dotProduct u u of (msgs, acc) \<Rightarrow> (msgs, js_sqrt acc))"

text \<open>
  \<open>normalizeVectors\<close> updates its argument in place and returns it; the model returns
  the updated array. \<^verbatim>\<open>u.pop()\<close> on an empty array yields \<^verbatim>\<open>undefined\<close>.
\<close>

definition normalizeVectors :: "jsval list option \<Rightarrow> bool \<Rightarrow> jsval list logged" where
  "normalizeVectors u excludeLastComponent =
     (case u of
        None \<Rightarrow> ([], Throws ''TypeError'')
      | Some u \<Rightarrow>
          (let popped = (if u = [] then Undefined else last u);
               u = (if excludeLastComponent then butlast u else u)
           in case vectorLength u of (msgs, magnitude) \<Rightarrow>
                if \<not> isFinite magnitude
                then (msgs @ [''WebGL Utilities normalizeVectors(): Vector has zero length.''],
                      ReturnsUndefined)
                else (let u = map (\<lambda>x. Number (js_div (to_num x) magnitude)) u;
                          u = (if excludeLastComponent then u @ [popped] else u)
                      in (msgs, Returns u))))"

text \<open>
  The array test of \<open>linearScale\<close> only reports. A number has no length, so the loop
  does not run; reading the length of \<^verbatim>\<open>undefined\<close> raises TypeError. On an array
  each element is multiplied as it stands, a row being converted to a number.
\<close>

definition linearScale :: "jsnum \<Rightarrow> jsval + lin \<Rightarrow> lin logged" where
  "linearScale s u =
     (case u of
        Inl Undefined \<Rightarrow>
          ([''WebGL Utilities: linearScale(): The second parameter must be a vector/matrix.''],
           Throws ''TypeError'')
      | Inl (Number x) \<Rightarrow>
          ([''WebGL Utilities: linearScale(): The second parameter must be a vector/matrix.''],
           Returns (Vec []))
      | Inr u \<Rightarrow> ([], Returns (Vec (map (\<lambda>x. Number (js_mul s (arg_to_num x))) (items u)))))"

text \<open>
  \<open>linearFlatten\<close> fills a \<^verbatim>\<open>Float32Array\<close> of \<open>n\<close> zeros. A store converts the value
  to a 32-bit float, \<open>fround\<close>, which is a parameter of the model; a store past the
  end is dropped. A matrix is transposed first.
\<close>

definition store_all :: "(jsnum \<Rightarrow> jsnum) \<Rightarrow> nat \<Rightarrow> jsval list \<Rightarrow> jsnum list" where
  "store_all fround n xs =
     take n (map (\<lambda>x. fround (to_num x)) xs) @ replicate (n - length xs) (Fin 0)"

definition linearFlatten :: "(jsnum \<Rightarrow> jsnum) \<Rightarrow> lin \<Rightarrow> jsnum list outcome" where
  "linearFlatten fround v =
     (if is_matrix v then
        (case snd (transposeMatrix v) of
           Returns (Mat t) \<Rightarrow>
             (if t = [] then Returns []
              else Returns (store_all fround (length t * length (t ! 0)) (concat t)))
         | Returns (Vec xs) \<Rightarrow> Returns (store_all fround (length xs) xs)
         | ReturnsUndefined \<Rightarrow> Throws ''TypeError''
         | Throws e \<Rightarrow> Throws e)
      else Returns (store_all fround (len v) (elems v)))"

section \<open>Transformation, view and projection builders\<close>

definition degreesToRadians :: "jsnum \<Rightarrow> jsnum" where
  "degreesToRadians degrees = js_div (js_mul degrees (Fin pi)) (Fin 180)"

text \<open>
  The three components of a translation or scaling: three scalar arguments, or one
  array of length three as the first argument.
\<close>

datatype xyz = Components jsval jsval jsval | Triple jsval jsval jsval

fun xyz_x :: "xyz \<Rightarrow> jsval" where
  "xyz_x (Components x y z) = x"
| "xyz_x (Triple x y z) = x"

fun xyz_y :: "xyz \<Rightarrow> jsval" where
  "xyz_y (Components x y z) = y"
| "xyz_y (Triple x y z) = y"

fun xyz_z :: "xyz \<Rightarrow> jsval" where
  "xyz_z (Components x y z) = z"
| "xyz_z (Triple x y z) = z"

definition translateMatrix :: "xyz \<Rightarrow> lin" where
  "translateMatrix p =
     (let result = rows (mat4 []);
          result = put_cell result 0 3 (xyz_x p);
          result = put_cell result 1 3 (xyz_y p);
          result = put_cell result 2 3 (xyz_z p)
      in Mat result)"

definition scalingMatrix :: "xyz \<Rightarrow> lin" where
  "scalingMatrix p =
     (let result = rows (mat4 []);
          result = put_cell result 0 0 (xyz_x p);
          result = put_cell result 1 1 (xyz_y p);
          result = put_cell result 2 2 (xyz_z p)
      in Mat result)"

text \<open>The axis of \<open>rotateMatrix\<close>: an array, or the three arguments after the angle.\<close>

datatype axis_arg = Axis "jsval list" | AxisComponents jsval jsval jsval

fun axis_array :: "axis_arg \<Rightarrow> jsval list" where
  "axis_array (Axis xs) = xs"
| "axis_array (AxisComponents x y z) = [x, y, z]"

definition rotateMatrix :: "jsnum \<Rightarrow> axis_arg \<Rightarrow> lin logged" where
  "rotateMatrix angle axis =
     (case normalizeVectors (Some (axis_array axis)) False of
        (msgs, Returns v) \<Rightarrow>
          (let x = rd v 0; y = rd v 1; z = rd v 2;
               c = js_cos (degreesToRadians angle);
               omc = js_sub (Fin 1) c;
               s = js_sin (degreesToRadians angle)
           in (msgs, Returns (mat4
                [Arr (vec4 [Scalar (Number (js_add (js_mul (js_mul x x) omc) c)),
                            Scalar (Number (js_sub (js_mul (js_mul x y) omc) (js_mul z s))),
                            Scalar (Number (js_add (js_mul (js_mul x z) omc) (js_mul y s))),
                            Scalar (num 0)]),
                 Arr (vec4 [Scalar (Number (js_add (js_mul (js_mul x y) omc) (js_mul z s))),
                            Scalar (Number (js_add (js_mul (js_mul y y) omc) c)),
                            Scalar (Number (js_sub (js_mul (js_mul y z) omc) (js_mul x s))),
                            Scalar (num 0)]),
                 Arr (vec4 [Scalar (Number (js_sub (js_mul (js_mul x z) omc) (js_mul y s))),
                            Scalar (Number (js_add (js_mul (js_mul y z) omc) (js_mul x s))),
                            Scalar (Number (js_add (js_mul (js_mul z z) omc) c)),
                            Scalar (num 0)]),
                 Arr (vec4 [])])))
      | (msgs, ReturnsUndefined) \<Rightarrow> (msgs, Throws ''TypeError'')
      | (msgs, Throws e) \<Rightarrow> (msgs, Throws e))"

definition rotateX :: "jsnum \<Rightarrow> lin" where
  "rotateX theta =
     (let c = js_cos (degreesToRadians theta);
          s = js_sin (degreesToRadians theta)
      in mat4 (map Scalar
           [num 1, num 0, num 0, num 0,
            num 0, Number c, Number (js_neg s), num 0,
            num 0, Number s, Number c, num 0,
            num 0, num 0, num 0, num 1]))"

definition rotateY :: "jsnum \<Rightarrow> lin" where
  "rotateY theta =
     (let c = js_cos (degreesToRadians theta);
          s = js_sin (degreesToRadians theta)
      in mat4 (map Scalar
           [Number c, num 0, Number s, num 0,
            num 0, num 1, num 0, num 0,
            Number (js_neg s), num 0, Number c, num 0,
            num 0, num 0, num 0, num 1]))"

definition rotateZ :: "jsnum \<Rightarrow> lin" where
  "rotateZ theta =
     (let c = js_cos (degreesToRadians theta);
          s = js_sin (degreesToRadians theta)
      in mat4 (map Scalar
           [Number c, Number (js_neg s), num 0, num 0,
            Number s, Number c, num 0, num 0,
            num 0, num 0, num 1, num 0,
            num 0, num 0, num 0, num 1]))"

text \<open>The three length-three tests of \<open>viewMatrixAt\<close>, on an argument of any kind.\<close>

fun is_vec3 :: "arg \<Rightarrow> bool" where
  "is_vec3 (Scalar x) = False"
| "is_vec3 (Arr xs) = (length xs = 3)"

text \<open>
  Once a normalisation has failed, \<^verbatim>\<open>undefined\<close> reaches \<open>crossProduct\<close>, which
  reports and returns \<^verbatim>\<open>undefined\<close>, and then \<open>normalizeVectors\<close> or
  \<open>dotProduct\<close>, which read its length: TypeError. \<open>handed\<close> turns an outcome into
  the argument of the next call.
\<close>

fun handed :: "'a outcome \<Rightarrow> 'a option" where
  "handed (Returns x) = Some x"
| "handed y = None"

fun is_throw :: "'a outcome \<Rightarrow> bool" where
  "is_throw (Throws e) = True"
| "is_throw y = False"

definition viewMatrixAt :: "arg \<Rightarrow> arg \<Rightarrow> arg \<Rightarrow> lin logged" where
  "viewMatrixAt eye at_arg up =
     (if \<not> is_vec3 eye
      then ([''WebGL Utilities: viewMatrixAt(): First parameter [eye] must be in the form of a vec3.''],
            ReturnsUndefined)
      else if \<not> is_vec3 at_arg
      then ([''WebGL Utilities: viewMatrixAt(): First parameter [at] must be in the form of a vec3.''],
            ReturnsUndefined)
      else if \<not> is_vec3 up
      then ([''WebGL Utilities: viewMatrixAt(): First parameter [up] must be in the form of a vec3.''],
            ReturnsUndefined)
      else if linearEquivalence (Vec (spread eye)) (Vec (spread at_arg))
      then ([], Returns (mat4 []))
      else
        (case linearSubtract (Vec (spread at_arg)) (Vec (spread eye)) of (m0, d) \<Rightarrow>
         case normalizeVectors (map_option elems (handed d)) False of (m1, v) \<Rightarrow>
         case crossProduct (handed v) (Some (spread up)) of (m2, nv) \<Rightarrow>
         case normalizeVectors (handed nv) False of (m3, n) \<Rightarrow>
         if is_throw n then (m0 @ m1 @ m2 @ m3, Throws ''TypeError'')
         else
         case crossProduct (handed n) (handed v) of (m4, uv) \<Rightarrow>
         case normalizeVectors (handed uv) False of (m5, u) \<Rightarrow>
         if is_throw u then (m0 @ m1 @ m2 @ m3 @ m4 @ m5, Throws ''TypeError'')
         else
         case (handed n, handed u, handed v) of
           (Some n, Some u, Some v) \<Rightarrow>
             (let v = negateElements v;
                  (m6, dn) = dotProduct n (spread eye);
                  (m7, du) = dotProduct u (spread eye);
                  (m8, dv) = dotProduct v (spread eye)
              in (m0 @ m1 @ m2 @ m3 @ m4 @ m5 @ m6 @ m7 @ m8,
                  Returns (mat4 [Arr (vec4 [Arr n, Scalar (Number (js_neg dn))]),
                                 Arr (vec4 [Arr u, Scalar (Number (js_neg du))]),
                                 Arr (vec4 [Arr v, Scalar (Number (js_neg dv))]),
                                 Arr (vec4 [])])))
         | other \<Rightarrow> (m0 @ m1 @ m2 @ m3 @ m4 @ m5, Throws ''TypeError'')))"

definition buildOrthographicMatrix ::
  "jsnum \<Rightarrow> jsnum \<Rightarrow> jsnum \<Rightarrow> jsnum \<Rightarrow> jsnum \<Rightarrow> jsnum \<Rightarrow> lin outcome" where
  "buildOrthographicMatrix left right bottom top' near far =
     (if js_eq left right then Throws ''ortho(): left and right are equal''
      else if js_eq bottom top' then Throws ''ortho(): bottom and top are equal''
      else if js_eq near far then Throws ''ortho(): near and far are equal''
      else
        (let w = js_sub right left;
             h = js_sub top' bottom;
             d = js_sub far near;
             result = rows (mat4 []);
             result = put result 0 0 (js_div (Fin 2) w);
             result = put result 1 1 (js_div (Fin 2) h);
             result = put result 2 2 (js_div (Fin (- 2)) d);
             result = put result 0 3 (js_div (js_neg (js_add left right)) w);
             result = put result 1 3 (js_div (js_neg (js_add top' bottom)) h);
             result = put result 2 3 (js_div (js_neg (js_add near far)) d)
         in Returns (Mat result)))"

definition buildPerspectiveMatrix :: "jsnum \<Rightarrow> jsnum \<Rightarrow> jsnum \<Rightarrow> jsnum \<Rightarrow> lin" where
  "buildPerspectiveMatrix fovY aspect near far =
     (let f = js_div (Fin 1) (js_tan (js_div (degreesToRadians fovY) (Fin 2)));
          d = js_sub far near;
          result = rows (mat4 []);
          result = put result 0 0 (js_div f aspect);
          result = put result 1 1 f;
          result = put result 2 2 (js_div (js_neg (js_add near far)) d);
          result = put result 2 3 (js_div (js_mul (js_mul (Fin (- 2)) near) far) d);
          result = put result 3 2 (Fin (- 1));
          result = put result 3 3 (Fin 0)
      in Mat result)"

text \<open>
  The normal matrix: the inverse of the transpose, of which the flag keeps the upper
  left three rows and columns, copied element by element into a fresh \<^verbatim>\<open>mat3()\<close>.
  The copy reads \<^verbatim>\<open>a[i][j]\<close> for \<open>i, j < 3\<close>, so an inverse with fewer than three
  rows, or no inverse at all, raises TypeError (\<open>calculateInverseMatrix\<close> returns
  tagged matrices only).
\<close>

definition normalizeMatrix :: "lin \<Rightarrow> bool \<Rightarrow> lin logged" where
  "normalizeMatrix m flag =
     (case transposeMatrix m of
        (m1, Throws e) \<Rightarrow> (m1, Throws e)
      | (m1, ReturnsUndefined) \<Rightarrow> (m1, Throws ''TypeError'')
      | (m1, Returns t) \<Rightarrow>
          (case calculateInverseMatrix t of (m2, a) \<Rightarrow>
             if \<not> flag then (m1 @ m2, a)
             else (case a of
                     Returns (Mat ar) \<Rightarrow>
                       if length ar < 3 then (m1 @ m2, Throws ''TypeError'')
                       else (m1 @ m2, Returns (Mat
                              (foldl (\<lambda>b i. foldl (\<lambda>b j. put_cell b i j (cell (ar ! i) j))
                                                  b [0..<3])
                                     (rows (mat3 [])) [0..<3])))
                   | other \<Rightarrow> (m1 @ m2, Throws ''TypeError''))))"

section \<open>Arithmetic rounded to double precision\<close>

text \<open>
  Every arithmetic operator of JavaScript rounds its exact result to a double. The
  operations of this section take the rounding as a parameter \<open>rnd\<close>, which they apply
  to the exact result of an operation on two finite values; on the special values, and
  for a division by zero, they are the operations of the first section. With \<open>Fin\<close> for
  \<open>rnd\<close> nothing is rounded; with \<open>round_double\<close> the operations are those of IEEE 754
  binary64 in the mode of JavaScript, round to nearest with ties to even, up to the sign
  of zero, which a number of this theory does not carry.
\<close>

text \<open>The exponent \<open>k\<close> with \<open>2 ^ k \<le> \<bar>x\<bar> < 2 ^ (k + 1)\<close>, for \<open>x\<close> other than zero.\<close>

definition binade :: "real \<Rightarrow> int" where
  "binade x = \<lfloor>log 2 \<bar>x\<bar>\<rfloor>"

text \<open>The nearest integer, the even one of the two when they are equally near.\<close>

definition rne :: "real \<Rightarrow> int" where
  "rne y =
     (if y - of_int \<lfloor>y\<rfloor> < 1 / 2 then \<lfloor>y\<rfloor>
      else if 1 / 2 < y - of_int \<lfloor>y\<rfloor> then \<lfloor>y\<rfloor> + 1
      else if even \<lfloor>y\<rfloor> then \<lfloor>y\<rfloor> else \<lfloor>y\<rfloor> + 1)"

text \<open>
  The double nearest to a real. A double has 53 significant bits, so in the binade of
  exponent \<open>k\<close> the doubles are the multiples of \<open>2 ^ (k - 52)\<close>; below \<open>2 ^ - 1022\<close> they
  are the multiples of \<open>2 ^ - 1074\<close>; and a result whose rounded magnitude reaches
  \<open>2 ^ 1024\<close> overflows to the infinity of its sign.
\<close>

definition round_double :: "real \<Rightarrow> jsnum" where
  "round_double x =
     (if x = 0 then Fin 0
      else (let quantum = 2 powi (max (binade x) (- 1022) - 52);
                y = of_int (rne (x / quantum)) * quantum
            in if 2 powi 1024 \<le> \<bar>y\<bar> then inf_of (x < 0) else Fin y))"

text \<open>The operators \<^verbatim>\<open>+\<close>, \<^verbatim>\<open>-\<close>, \<^verbatim>\<open>*\<close> and \<^verbatim>\<open>/\<close> with their results rounded.\<close>

fun r_add :: "(real \<Rightarrow> jsnum) \<Rightarrow> jsnum \<Rightarrow> jsnum \<Rightarrow> jsnum" where
  "r_add rnd (Fin a) (Fin b) = rnd (a + b)"
| "r_add rnd x y = js_add x y"

definition r_sub :: "(real \<Rightarrow> jsnum) \<Rightarrow> jsnum \<Rightarrow> jsnum \<Rightarrow> jsnum" where
  "r_sub rnd x y = r_add rnd x (js_neg y)"

fun r_mul :: "(real \<Rightarrow> jsnum) \<Rightarrow> jsnum \<Rightarrow> jsnum \<Rightarrow> jsnum" where
  "r_mul rnd (Fin a) (Fin b) = rnd (a * b)"
| "r_mul rnd x y = js_mul x y"

fun r_div :: "(real \<Rightarrow> jsnum) \<Rightarrow> jsnum \<Rightarrow> jsnum \<Rightarrow> jsnum" where
  "r_div rnd (Fin a) (Fin b) = (if b = 0 then js_div (Fin a) (Fin b) else rnd (a / b))"
| "r_div rnd x y = js_div x y"

text \<open>
  \<open>det2\<close>, \<open>det3\<close>, \<open>det4\<close>, \<open>inverse2\<close>, \<open>inverse3\<close>, \<open>inverse4\<close>, the two dispatchers
  and \<open>linearMultiply\<close> once more, operation by operation as in the sections above, with
  the result of every operator rounded.
\<close>

fun det2_r :: "(real \<Rightarrow> jsnum) \<Rightarrow> jsval list list \<Rightarrow> jsnum option" where
  "det2_r rnd (r0 # r1 # rest) =
     Some (r_sub rnd (r_mul rnd (rd r0 0) (rd r1 1)) (r_mul rnd (rd r0 1) (rd r1 0)))"
| "det2_r rnd m = None"

fun det3_r :: "(real \<Rightarrow> jsnum) \<Rightarrow> jsval list list \<Rightarrow> jsnum option" where
  "det3_r rnd (r0 # r1 # r2 # rest) =
     Some (r_sub rnd (r_sub rnd (r_sub rnd
       (r_add rnd (r_add rnd (r_mul rnd (r_mul rnd (rd r0 0) (rd r1 1)) (rd r2 2))
                             (r_mul rnd (r_mul rnd (rd r0 1) (rd r1 2)) (rd r2 0)))
                  (r_mul rnd (r_mul rnd (rd r0 2) (rd r2 1)) (rd r1 0)))
       (r_mul rnd (r_mul rnd (rd r2 0) (rd r1 1)) (rd r0 2)))
       (r_mul rnd (r_mul rnd (rd r1 0) (rd r0 1)) (rd r2 2)))
       (r_mul rnd (r_mul rnd (rd r0 0) (rd r1 2)) (rd r2 1)))"
| "det3_r rnd m = None"

fun det4_r :: "(real \<Rightarrow> jsnum) \<Rightarrow> jsval list list \<Rightarrow> jsnum option" where
  "det4_r rnd (r0 # r1 # r2 # r3 # rest) =
     do {
       d0 \<leftarrow> det3_r rnd (minor3 r1 r2 r3 1 2 3);
       d1 \<leftarrow> det3_r rnd (minor3 r1 r2 r3 0 2 3);
       d2 \<leftarrow> det3_r rnd (minor3 r1 r2 r3 0 1 3);
       d3 \<leftarrow> det3_r rnd (minor3 r1 r2 r3 0 1 2);
       Some (r_sub rnd (r_add rnd (r_sub rnd (r_mul rnd (rd r0 0) d0) (r_mul rnd (rd r0 1) d1))
                                  (r_mul rnd (rd r0 2) d2))
                       (r_mul rnd (rd r0 3) d3))
     }"
| "det4_r rnd m = None"

fun inverse2_r :: "(real \<Rightarrow> jsnum) \<Rightarrow> jsval list list \<Rightarrow> lin option" where
  "inverse2_r rnd (r0 # r1 # rest) =
     do {
       let a = rows (mat2 []);
       d \<leftarrow> det2_r rnd (r0 # r1 # rest);
       let a = put a 0 0 (r_div rnd (rd r1 1) d);
       let a = put a 0 1 (r_div rnd (js_neg (rd r0 1)) d);
       let a = put a 1 0 (r_div rnd (js_neg (rd r1 0)) d);
       let a = put a 1 1 (r_div rnd (rd r0 0) d);
       Some (Mat a)
     }"
| "inverse2_r rnd m = None"

fun inverse3_r :: "(real \<Rightarrow> jsnum) \<Rightarrow> jsval list list \<Rightarrow> lin option" where
  "inverse3_r rnd (r0 # r1 # r2 # rest) =
     do {
       let a = rows (mat3 []);
       d \<leftarrow> det3_r rnd (r0 # r1 # r2 # rest);
       let a00 = minor2 r1 r2 1 2;
       let a01 = minor2 r1 r2 0 2;
       let a02 = minor2 r1 r2 0 1;
       let a10 = minor2 r0 r2 1 2;
       let a11 = minor2 r0 r2 0 2;
       let a12 = minor2 r0 r2 0 1;
       let a20 = minor2 r0 r1 1 2;
       let a21 = minor2 r0 r1 0 2;
       let a22 = minor2 r0 r1 0 1;
       c00 \<leftarrow> det2_r rnd a00; let a = put a 0 0 (r_div rnd c00 d);
       c10 \<leftarrow> det2_r rnd a10; let a = put a 0 1 (r_div rnd (js_neg c10) d);
       c20 \<leftarrow> det2_r rnd a20; let a = put a 0 2 (r_div rnd c20 d);
       c01 \<leftarrow> det2_r rnd a01; let a = put a 1 0 (r_div rnd (js_neg c01) d);
       c11 \<leftarrow> det2_r rnd a11; let a = put a 1 1 (r_div rnd c11 d);
       c21 \<leftarrow> det2_r rnd a21; let a = put a 1 2 (r_div rnd (js_neg c21) d);
       c02 \<leftarrow> det2_r rnd a02; let a = put a 2 0 (r_div rnd c02 d);
       c12 \<leftarrow> det2_r rnd a12; let a = put a 2 1 (r_div rnd (js_neg c12) d);
       c22 \<leftarrow> det2_r rnd a22; let a = put a 2 2 (r_div rnd c22 d);
       Some (Mat a)
     }"
| "inverse3_r rnd m = None"

fun inverse4_r :: "(real \<Rightarrow> jsnum) \<Rightarrow> jsval list list \<Rightarrow> lin option" where
  "inverse4_r rnd (r0 # r1 # r2 # r3 # rest) =
     do {
       let a = rows (mat4 []);
       d \<leftarrow> det4_r rnd (r0 # r1 # r2 # r3 # rest);
       let a00 = minor3 r1 r2 r3 1 2 3;
       let a01 = minor3 r1 r2 r3 0 2 3;
       let a02 = minor3 r1 r2 r3 0 1 3;
       let a03 = minor3 r1 r2 r3 0 1 2;
       let a10 = minor3 r0 r2 r3 1 2 3;
       let a11 = minor3 r0 r2 r3 0 2 3;
       let a12 = minor3 r0 r2 r3 0 1 3;
       let a13 = minor3 r0 r2 r3 0 1 2;
       let a20 = minor3 r0 r1 r3 1 2 3;
       let a21 = minor3 r0 r1 r3 0 2 3;
       let a22 = minor3 r0 r1 r3 0 1 3;
       let a23 = minor3 r0 r1 r3 0 1 2;
       let a30 = minor3 r0 r1 r2 1 2 3;
       let a31 = minor3 r0 r1 r2 0 2 3;
       let a32 = minor3 r0 r1 r2 0 1 3;
       let a33 = minor3 r0 r1 r2 0 1 2;
       c00 \<leftarrow> det3_r rnd a00; let a = put a 0 0 (r_div rnd c00 d);
       c10 \<leftarrow> det3_r rnd a10; let a = put a 0 1 (r_div rnd (js_neg c10) d);
       c20 \<leftarrow> det3_r rnd a20; let a = put a 0 2 (r_div rnd c20 d);
       c30 \<leftarrow> det3_r rnd a30; let a = put a 0 3 (r_div rnd (js_neg c30) d);
       c01 \<leftarrow> det3_r rnd a01; let a = put a 1 0 (r_div rnd (js_neg c01) d);
       c11 \<leftarrow> det3_r rnd a11; let a = put a 1 1 (r_div rnd c11 d);
       c21 \<leftarrow> det3_r rnd a21; let a = put a 1 2 (r_div rnd (js_neg c21) d);
       c31 \<leftarrow> det3_r rnd a31; let a = put a 1 3 (r_div rnd c31 d);
       c02 \<leftarrow> det3_r rnd a02; let a = put a 2 0 (r_div rnd c02 d);
       c12 \<leftarrow> det3_r rnd a12; let a = put a 2 1 (r_div rnd (js_neg c12) d);
       c22 \<leftarrow> det3_r rnd a22; let a = put a 2 2 (r_div rnd c22 d);
       c32 \<leftarrow> det3_r rnd a32; let a = put a 2 3 (r_div rnd (js_neg c32) d);
       c03 \<leftarrow> det3_r rnd a03; let a = put a 3 0 (r_div rnd (js_neg c03) d);
       c13 \<leftarrow> det3_r rnd a13; let a = put a 3 1 (r_div rnd c13 d);
       c23 \<leftarrow> det3_r rnd a23; let a = put a 3 2 (r_div rnd (js_neg c23) d);
       c33 \<leftarrow> det3_r rnd a33; let a = put a 3 3 (r_div rnd c33 d);
       Some (Mat a)
     }"
| "inverse4_r rnd m = None"

definition calculateDeterminant_r :: "(real \<Rightarrow> jsnum) \<Rightarrow> lin \<Rightarrow> jsnum logged" where
  "calculateDeterminant_r rnd m =
     (let msgs = (if is_matrix m then []
                 else [''WebGL Utilities: calculateDeterminant(): Variable is not a matrix.''])
      in if len m = 2 then (msgs, thrown (indexed m \<bind> det2_r rnd))
         else if len m = 3 then (msgs, thrown (indexed m \<bind> det3_r rnd))
         else if len m = 4 then (msgs, thrown (indexed m \<bind> det4_r rnd))
         else (msgs, ReturnsUndefined))"

definition calculateInverseMatrix_r :: "(real \<Rightarrow> jsnum) \<Rightarrow> lin \<Rightarrow> lin logged" where
  "calculateInverseMatrix_r rnd m =
     (let msgs = (if is_matrix m then []
                 else [''WebGL Utilities: calculateInverseMatrix(): Variable is not a matrix.''])
      in if len m = 2 then (msgs, thrown (indexed m \<bind> inverse2_r rnd))
         else if len m = 3 then (msgs, thrown (indexed m \<bind> inverse3_r rnd))
         else if len m = 4 then (msgs, thrown (indexed m \<bind> inverse4_r rnd))
         else (msgs, ReturnsUndefined))"

definition sum_upto_r :: "(real \<Rightarrow> jsnum) \<Rightarrow> nat \<Rightarrow> (nat \<Rightarrow> jsnum) \<Rightarrow> jsnum" where
  "sum_upto_r rnd n f = foldl (\<lambda>acc k. r_add rnd acc (f k)) (Fin 0) [0..<n]"

definition linearMultiply_r :: "(real \<Rightarrow> jsnum) \<Rightarrow> lin \<Rightarrow> lin \<Rightarrow> lin logged" where
  "linearMultiply_r rnd u v =
     (if is_matrix u \<and> is_matrix v then
        (if len u \<noteq> len v
         then ([''WebGL Utilities: linearMultiply(): Cannot multiply vectors/matrices of different dimensions.''],
               ReturnsUndefined)
         else if \<exists>i \<in> set [0..<len u]. length (rows u ! i) \<noteq> length (rows v ! i)
         then ([''WebGL Utilities: linearMultiply(): Cannot multiply vectors/matrices of different dimensions.''],
               ReturnsUndefined)
         else ([], Returns (Mat
                 (map (\<lambda>i. map (\<lambda>j. Number (sum_upto_r rnd (len u)
                                  (\<lambda>k. r_mul rnd (rd (rows u ! i) k) (rd (rows v ! k) j))))
                             [0..<len v])
                      [0..<len u]))))
      else if is_matrix u \<and> len u = len v then
        ([], Returns (Vec
               (map (\<lambda>i. Number (sum_upto_r rnd (len v)
                             (\<lambda>j. r_mul rnd (rd (rows u ! i) j) (to_num (elems v ! j)))))
                    [0..<len v])))
      else if len u \<noteq> len v
      then ([''WebGL Utilities: linearMultiply(): Cannot multiply vectors/matrices of different dimensions.''],
            ReturnsUndefined)
      else ([], Returns (Vec (map2 (\<lambda>x y. Number (r_mul rnd (arg_to_num x) (arg_to_num y)))
                                 (items u) (items v)))))"

section \<open>Notions used in the statements\<close>

text \<open>
  Shapes and tags as the statements below speak of them, the adjugate as the
  specification words it, and the real polynomials that the determinant routines compute
  on finite entries.
\<close>

text \<open>\<open>d\<close> rows of \<open>d\<close> elements each.\<close>

definition square :: "nat \<Rightarrow> jsval list list \<Rightarrow> bool" where
  "square d rs = (length rs = d \<and> list_all (\<lambda>r. length r = d) rs)"

text \<open>The shape of an operand: the length of a vector, the row lengths of a matrix.\<close>

fun shape :: "lin \<Rightarrow> nat + nat list" where
  "shape (Vec xs) = Inl (length xs)"
| "shape (Mat rs) = Inr (map length rs)"

text \<open>A \<open>d \<times> d\<close> array of rows all of whose elements are finite numbers.\<close>

definition finite_matrix :: "nat \<Rightarrow> jsval list list \<Rightarrow> bool" where
  "finite_matrix d rs = (square d rs \<and> list_all (list_all (\<lambda>c. isFinite (to_num c))) rs)"

text \<open>
  The determinants of real matrices of dimension two, three and four, written as
  \<open>det2\<close>, \<open>det3\<close> and \<open>det4\<close> expand them.
\<close>

definition det2x2 :: "real \<Rightarrow> real \<Rightarrow> real \<Rightarrow> real \<Rightarrow> real" where
  "det2x2 a0 a1 b0 b1 = a0 * b1 - a1 * b0"

definition sarrus ::
  "real \<Rightarrow> real \<Rightarrow> real \<Rightarrow> real \<Rightarrow> real \<Rightarrow> real \<Rightarrow> real \<Rightarrow> real \<Rightarrow> real \<Rightarrow> real" where
  "sarrus a0 a1 a2 b0 b1 b2 c0 c1 c2 =
     a0 * b1 * c2 + a1 * b2 * c0 + a2 * c1 * b0 - c0 * b1 * a2 - b0 * a1 * c2 - a0 * b2 * c1"

definition laplace ::
  "real \<Rightarrow> real \<Rightarrow> real \<Rightarrow> real \<Rightarrow> real \<Rightarrow> real \<Rightarrow> real \<Rightarrow> real \<Rightarrow>
   real \<Rightarrow> real \<Rightarrow> real \<Rightarrow> real \<Rightarrow> real \<Rightarrow> real \<Rightarrow> real \<Rightarrow> real \<Rightarrow> real" where
  "laplace a0 a1 a2 a3 b0 b1 b2 b3 c0 c1 c2 c3 d0 d1 d2 d3 =
     a0 * sarrus b1 b2 b3 c1 c2 c3 d1 d2 d3 - a1 * sarrus b0 b2 b3 c0 c2 c3 d0 d2 d3
     + a2 * sarrus b0 b1 b3 c0 c1 c3 d0 d1 d3 - a3 * sarrus b0 b1 b2 c0 c1 c2 d0 d1 d2"

text \<open>
  The specification's inverse: entry \<open>(i, j)\<close> of the adjugate is the signed cofactor of
  \<open>(j, i)\<close>, the determinant of the matrix without row \<open>j\<close> and column \<open>i\<close> (of
  dimension one lower, computed by the library's own routine; a single element is its
  own determinant), and every entry is divided by the determinant.
\<close>

definition remove_nth :: "nat \<Rightarrow> 'a list \<Rightarrow> 'a list" where
  "remove_nth i xs = take i xs @ drop (Suc i) xs"

definition submatrix :: "jsval list list \<Rightarrow> nat \<Rightarrow> nat \<Rightarrow> jsval list list" where
  "submatrix m i j = map (remove_nth j) (remove_nth i m)"

definition lower_det :: "jsval list list \<Rightarrow> jsnum" where
  "lower_det m =
     (if length m = 1 then rd (m ! 0) 0
      else if length m = 2 then (case det2 m of Some x \<Rightarrow> x | None \<Rightarrow> NaN)
      else (case det3 m of Some x \<Rightarrow> x | None \<Rightarrow> NaN))"

definition signed :: "nat \<Rightarrow> jsnum \<Rightarrow> jsnum" where
  "signed k x = (if even k then x else js_neg x)"

definition adjugate_over_det :: "nat \<Rightarrow> jsval list list \<Rightarrow> jsnum \<Rightarrow> jsval list list" where
  "adjugate_over_det d m dt =
     map (\<lambda>i. map (\<lambda>j. Number (js_div (signed (i + j) (lower_det (submatrix m j i))) dt))
                [0..<d])
         [0..<d]"

text \<open>The rows of the \<open>d \<times> d\<close> identity matrix.\<close>

definition identity_rows :: "nat \<Rightarrow> jsval list list" where
  "identity_rows d = map (\<lambda>i. map (\<lambda>j. if i = j then num 1 else num 0) [0..<d]) [0..<d]"


text \<open>The adjugate over the determinant, computed with rounded operations.\<close>

definition lower_det_r :: "(real \<Rightarrow> jsnum) \<Rightarrow> jsval list list \<Rightarrow> jsnum" where
  "lower_det_r rnd m =
     (if length m = 1 then rd (m ! 0) 0
      else if length m = 2 then (case det2_r rnd m of Some x \<Rightarrow> x | None \<Rightarrow> NaN)
      else (case det3_r rnd m of Some x \<Rightarrow> x | None \<Rightarrow> NaN))"

definition adjugate_over_det_r ::
  "(real \<Rightarrow> jsnum) \<Rightarrow> nat \<Rightarrow> jsval list list \<Rightarrow> jsnum \<Rightarrow> jsval list list" where
  "adjugate_over_det_r rnd d m dt =
     map (\<lambda>i. map (\<lambda>j. Number (r_div rnd (signed (i + j) (lower_det_r rnd (submatrix m j i))) dt))
                [0..<d])
         [0..<d]"

text \<open>A value that carries the matrix tag and has \<open>d\<close> rows of length \<open>d\<close>.\<close>

fun tagged :: "nat \<Rightarrow> lin \<Rightarrow> bool" where
  "tagged d (Mat rs) = square d rs"
| "tagged d (Vec xs) = False"

section \<open>Evaluation of reads, constructors and updates\<close>

lemma cell_simps [simp]:
  "cell (c # r) 0 = c"
  "cell (c # r) (Suc n) = cell r n"
  "cell (c # r) (numeral k) = cell r (pred_numeral k)"
  "cell [] n = Undefined"
  by (simp_all add: cell_def numeral_eq_Suc)

lemma rd_simps [simp]:
  "rd (c # r) 0 = to_num c"
  "rd (c # r) (Suc n) = rd r n"
  "rd (c # r) (numeral k) = rd r (pred_numeral k)"
  "rd [] n = NaN"
  by (simp_all add: rd_def)

lemma vec2_two [simp]: "vec2 [Scalar a, Scalar b] = [a, b]"
  by (simp add: vec2_def objectToArray_def)

lemma vec3_three [simp]: "vec3 [Scalar a, Scalar b, Scalar c] = [a, b, c]"
  by (simp add: vec3_def objectToArray_def)

lemma vec4_four [simp]: "vec4 [Scalar a, Scalar b, Scalar c, Scalar d] = [a, b, c, d]"
  by (simp add: vec4_def objectToArray_def)

lemma vec4_empty [simp]: "vec4 [] = [num 0, num 0, num 0, num 1]"
  by (simp add: vec4_def objectToArray_def)

lemma mat2_empty: "mat2 [] = Mat [[num 1, num 0], [num 0, num 1]]"
  by (simp add: mat2_def objectToArray_def)

lemma mat3_empty: "mat3 [] = Mat [[num 1, num 0, num 0], [num 0, num 1, num 0], [num 0, num 0, num 1]]"
  by (simp add: mat3_def objectToArray_def)

lemma mat4_empty: "mat4 [] = Mat [[num 1, num 0, num 0, num 0], [num 0, num 1, num 0, num 0],
   [num 0, num 0, num 1, num 0], [num 0, num 0, num 0, num 1]]"
  by (simp add: mat4_def objectToArray_def)

lemma put_cell_simps [simp]:
  "put_cell (r # rs) 0 j v = r[j := v] # rs"
  "put_cell (r # rs) (Suc i) j v = r # put_cell rs i j v"
  "put_cell (r # rs) (numeral k) j v = r # put_cell rs (pred_numeral k) j v"
  by (simp_all add: put_cell_def numeral_eq_Suc)

lemma list_update_numeral [simp]:
  "(x # xs)[numeral k := v] = x # xs[pred_numeral k := v]"
  by (simp add: numeral_eq_Suc)

section \<open>The orthographic builder\<close>

text \<open>
  \<^bold>\<open>C3\<close>. \<open>buildOrthographicMatrix\<close> throws exactly when \<^verbatim>\<open>left == right\<close>, or
  \<^verbatim>\<open>bottom == top\<close>, or \<^verbatim>\<open>near == far\<close>; when none of the three comparisons holds it
  returns a tagged matrix of four rows and four columns.
\<close>

theorem ortho_throws_iff_equal_bounds:
  "(is_throw (buildOrthographicMatrix l r b t n f) \<longleftrightarrow> js_eq l r \<or> js_eq b t \<or> js_eq n f) \<and>
   (\<not> js_eq l r \<and> \<not> js_eq b t \<and> \<not> js_eq n f \<longrightarrow>
      (\<exists>m. buildOrthographicMatrix l r b t n f = Returns (Mat m) \<and> square 4 m))"
  by (simp add: buildOrthographicMatrix_def Let_def mat4_empty put_def square_def)

theorem ortho_throws_iff_equal_bounds_witness:
  "is_throw (buildOrthographicMatrix (Fin 1) (Fin 1) (Fin 0) (Fin 2) (Fin 0) (Fin 3)) \<and>
   \<not> is_throw (buildOrthographicMatrix (Fin 0) (Fin 1) (Fin 0) (Fin 2) (Fin 0) (Fin 3)) \<and>
   (\<exists>m. buildOrthographicMatrix (Fin 0) (Fin 1) (Fin 0) (Fin 2) (Fin 0) (Fin 3) = Returns (Mat m) \<and> square 4 m)"
  using ortho_throws_iff_equal_bounds [of "Fin 1" "Fin 1" "Fin 0" "Fin 2" "Fin 0" "Fin 3"]
    ortho_throws_iff_equal_bounds [of "Fin 0" "Fin 1" "Fin 0" "Fin 2" "Fin 0" "Fin 3"]
  by simp

section \<open>Addition and subtraction of mismatched shapes\<close>

lemma add_rows_None:
  "length a = length b \<Longrightarrow> add_rows a b = None \<longleftrightarrow> map length a \<noteq> map length b"
  by (induction a b rule: add_rows.induct) auto

lemma subtract_rows_None:
  "length a = length b \<Longrightarrow> subtract_rows a b = None \<longleftrightarrow> map length a \<noteq> map length b"
  by (induction a b rule: subtract_rows.induct) auto

lemma map_length_neq: "length a \<noteq> length b \<Longrightarrow> map length a \<noteq> map length b"
  by (metis length_map)

text \<open>
  \<^bold>\<open>C6\<close>. When the shapes of the two operands differ (two vectors of different
  lengths, two tagged matrices that differ in the number or the lengths of their rows, or
  a tagged matrix with a vector), \<open>linearAddition\<close> and \<open>linearSubtract\<close> each write
  one diagnostic and return \<^verbatim>\<open>undefined\<close>.
\<close>

theorem mismatched_shapes_report:
  assumes "shape u \<noteq> shape v"
  shows "(\<exists>msg. linearAddition u v = ([msg], ReturnsUndefined)) \<and>
         (\<exists>msg. linearSubtract u v = ([msg], ReturnsUndefined))"
proof (cases u)
  case (Vec xs)
  note u = this
  show ?thesis
  proof (cases v)
    case (Vec ys)
    with u assms show ?thesis
      by (simp add: linearAddition_def linearSubtract_def)
  next
    case (Mat qs)
    with u show ?thesis
      by (simp add: linearAddition_def linearSubtract_def)
  qed
next
  case (Mat rs)
  note u = this
  show ?thesis
  proof (cases v)
    case (Vec ys)
    with u show ?thesis
      by (simp add: linearAddition_def linearSubtract_def)
  next
    case (Mat qs)
    show ?thesis
    proof (cases "length rs = length qs")
      case True
      with u Mat assms have "add_rows rs qs = None" "subtract_rows rs qs = None"
        by (simp_all add: add_rows_None subtract_rows_None)
      with u Mat True show ?thesis
        by (simp add: linearAddition_def linearSubtract_def)
    next
      case False
      with u Mat show ?thesis
        by (simp add: linearAddition_def linearSubtract_def)
    qed
  qed
qed

theorem mismatched_shapes_report_witness:
  "(\<exists>msg. linearAddition (Vec [num 1, num 2, num 3]) (Vec [num 1, num 2, num 3, num 4]) = ([msg], ReturnsUndefined)) \<and>
   (\<exists>msg. linearSubtract (Vec [num 1, num 2, num 3]) (Vec [num 1, num 2, num 3, num 4]) = ([msg], ReturnsUndefined)) \<and>
   (\<exists>msg. linearAddition (mat2 []) (mat3 []) = ([msg], ReturnsUndefined)) \<and>
   (\<exists>msg. linearSubtract (mat2 []) (mat3 []) = ([msg], ReturnsUndefined)) \<and>
   (\<exists>msg. linearAddition (mat2 []) (Vec [num 1, num 2]) = ([msg], ReturnsUndefined)) \<and>
   (\<exists>msg. linearSubtract (Vec [num 1, num 2]) (mat2 []) = ([msg], ReturnsUndefined))"
  using mismatched_shapes_report [of "Vec [num 1, num 2, num 3]" "Vec [num 1, num 2, num 3, num 4]"]
    mismatched_shapes_report [of "mat2 []" "mat3 []"]
    mismatched_shapes_report [of "mat2 []" "Vec [num 1, num 2]"]
    mismatched_shapes_report [of "Vec [num 1, num 2]" "mat2 []"]
  by (simp add: mat2_empty mat3_empty)

section \<open>Matrices with finite entries\<close>

lemma list2: "length xs = 2 \<Longrightarrow> \<exists>a b. xs = [a, b]"
  by (auto simp: numeral_eq_Suc length_Suc_conv)

lemma list3: "length xs = 3 \<Longrightarrow> \<exists>a b c. xs = [a, b, c]"
  by (auto simp: numeral_eq_Suc length_Suc_conv)

lemma list4: "length xs = 4 \<Longrightarrow> \<exists>a b c d. xs = [a, b, c, d]"
  by (auto simp: numeral_eq_Suc length_Suc_conv)

lemma finite_cell: "isFinite (to_num c) \<Longrightarrow> \<exists>x. c = num x"
  by (cases c; cases "to_num c") auto

lemma finite_row2:
  "length r = 2 \<Longrightarrow> list_all (\<lambda>c. isFinite (to_num c)) r \<Longrightarrow> \<exists>a b. r = [num a, num b]"
  using list2 [of r] finite_cell by fastforce

lemma finite_row3:
  "length r = 3 \<Longrightarrow> list_all (\<lambda>c. isFinite (to_num c)) r \<Longrightarrow> \<exists>a b c. r = [num a, num b, num c]"
  using list3 [of r] finite_cell by fastforce

lemma finite_row4:
  "length r = 4 \<Longrightarrow> list_all (\<lambda>c. isFinite (to_num c)) r \<Longrightarrow>
     \<exists>a b c d. r = [num a, num b, num c, num d]"
  using list4 [of r] finite_cell by fastforce

lemma finite_matrix2:
  assumes "finite_matrix 2 m"
  shows "\<exists>a0 a1 b0 b1. m = [[num a0, num a1], [num b0, num b1]]"
proof -
  from assms obtain r0 r1 where m: "m = [r0, r1]"
    using list2 [of m] by (auto simp: finite_matrix_def square_def)
  with assms show ?thesis
    using finite_row2 [of r0] finite_row2 [of r1]
    by (fastforce simp: finite_matrix_def square_def)
qed

lemma finite_matrix3:
  assumes "finite_matrix 3 m"
  shows "\<exists>a0 a1 a2 b0 b1 b2 c0 c1 c2.
           m = [[num a0, num a1, num a2], [num b0, num b1, num b2], [num c0, num c1, num c2]]"
proof -
  from assms obtain r0 r1 r2 where m: "m = [r0, r1, r2]"
    using list3 [of m] by (auto simp: finite_matrix_def square_def)
  with assms show ?thesis
    using finite_row3 [of r0] finite_row3 [of r1] finite_row3 [of r2]
    by (fastforce simp: finite_matrix_def square_def)
qed

lemma finite_matrix4:
  assumes "finite_matrix 4 m"
  shows "\<exists>a0 a1 a2 a3 b0 b1 b2 b3 c0 c1 c2 c3 d0 d1 d2 d3.
           m = [[num a0, num a1, num a2, num a3], [num b0, num b1, num b2, num b3],
                [num c0, num c1, num c2, num c3], [num d0, num d1, num d2, num d3]]"
proof -
  from assms obtain r0 r1 r2 r3 where m: "m = [r0, r1, r2, r3]"
    using list4 [of m] by (auto simp: finite_matrix_def square_def)
  with assms have "\<exists>a0 a1 a2 a3. r0 = [num a0, num a1, num a2, num a3]"
    "\<exists>b0 b1 b2 b3. r1 = [num b0, num b1, num b2, num b3]"
    "\<exists>c0 c1 c2 c3. r2 = [num c0, num c1, num c2, num c3]"
    "\<exists>d0 d1 d2 d3. r3 = [num d0, num d1, num d2, num d3]"
    using finite_row4 [of r0] finite_row4 [of r1] finite_row4 [of r2] finite_row4 [of r3]
    by (simp_all add: finite_matrix_def square_def)
  with m show ?thesis by blast
qed

lemma multiply_identity2:
  "linearMultiply (mat2 []) (Mat [[num a0, num a1], [num b0, num b1]]) =
     ([], Returns (Mat [[num a0, num a1], [num b0, num b1]]))"
  by (simp add: linearMultiply_def mat2_empty sum_upto_def)

lemma multiply_identity3:
  "linearMultiply (mat3 [])
     (Mat [[num a0, num a1, num a2], [num b0, num b1, num b2], [num c0, num c1, num c2]]) =
     ([], Returns (Mat [[num a0, num a1, num a2], [num b0, num b1, num b2], [num c0, num c1, num c2]]))"
  by (simp add: linearMultiply_def mat3_empty sum_upto_def)

lemma multiply_identity4:
  "linearMultiply (mat4 [])
     (Mat [[num a0, num a1, num a2, num a3], [num b0, num b1, num b2, num b3],
           [num c0, num c1, num c2, num c3], [num d0, num d1, num d2, num d3]]) =
     ([], Returns (Mat [[num a0, num a1, num a2, num a3], [num b0, num b1, num b2, num b3],
           [num c0, num c1, num c2, num c3], [num d0, num d1, num d2, num d3]]))"
  by (simp add: linearMultiply_def mat4_empty sum_upto_def)

section \<open>Cofactor expansions over the reals\<close>

lemma row_div2:
  fixes D :: real
  shows "D \<noteq> 0 \<Longrightarrow> a * x + b * y = k * D \<Longrightarrow> a * (x / D) + b * (y / D) = k"
  by (simp add: field_simps)

lemma row_div3:
  fixes D :: real
  shows "D \<noteq> 0 \<Longrightarrow> a * x + b * y + c * z = k * D \<Longrightarrow> a * (x / D) + b * (y / D) + c * (z / D) = k"
  by (simp add: field_simps)

lemma row_div4:
  fixes D :: real
  shows "D \<noteq> 0 \<Longrightarrow> a * x + b * y + c * z + d * w = k * D \<Longrightarrow> a * (x / D) + b * (y / D) + c * (z / D) + d * (w / D) = k"
  by (simp add: field_simps)

lemma expand2_00:
  "a0 * b1 + a1 * (- b0) = 1 * (det2x2 a0 a1 b0 b1)"
  unfolding det2x2_def sarrus_def laplace_def by (simp add: algebra_simps)

lemma expand2_01:
  "a0 * (- a1) + a1 * a0 = 0 * (det2x2 a0 a1 b0 b1)"
  unfolding det2x2_def sarrus_def laplace_def by (simp add: algebra_simps)

lemma expand2_10:
  "b0 * b1 + b1 * (- b0) = 0 * (det2x2 a0 a1 b0 b1)"
  unfolding det2x2_def sarrus_def laplace_def by (simp add: algebra_simps)

lemma expand2_11:
  "b0 * (- a1) + b1 * a0 = 1 * (det2x2 a0 a1 b0 b1)"
  unfolding det2x2_def sarrus_def laplace_def by (simp add: algebra_simps)

lemma expand3_00:
  "a0 * (det2x2 b1 b2 c1 c2) + a1 * (- det2x2 b0 b2 c0 c2) + a2 * (det2x2 b0 b1 c0 c1) = 1 * (sarrus a0 a1 a2 b0 b1 b2 c0 c1 c2)"
  unfolding det2x2_def sarrus_def laplace_def by (simp add: algebra_simps)

lemma expand3_01:
  "a0 * (- det2x2 a1 a2 c1 c2) + a1 * (det2x2 a0 a2 c0 c2) + a2 * (- det2x2 a0 a1 c0 c1) = 0 * (sarrus a0 a1 a2 b0 b1 b2 c0 c1 c2)"
  unfolding det2x2_def sarrus_def laplace_def by (simp add: algebra_simps)

lemma expand3_02:
  "a0 * (det2x2 a1 a2 b1 b2) + a1 * (- det2x2 a0 a2 b0 b2) + a2 * (det2x2 a0 a1 b0 b1) = 0 * (sarrus a0 a1 a2 b0 b1 b2 c0 c1 c2)"
  unfolding det2x2_def sarrus_def laplace_def by (simp add: algebra_simps)

lemma expand3_10:
  "b0 * (det2x2 b1 b2 c1 c2) + b1 * (- det2x2 b0 b2 c0 c2) + b2 * (det2x2 b0 b1 c0 c1) = 0 * (sarrus a0 a1 a2 b0 b1 b2 c0 c1 c2)"
  unfolding det2x2_def sarrus_def laplace_def by (simp add: algebra_simps)

lemma expand3_11:
  "b0 * (- det2x2 a1 a2 c1 c2) + b1 * (det2x2 a0 a2 c0 c2) + b2 * (- det2x2 a0 a1 c0 c1) = 1 * (sarrus a0 a1 a2 b0 b1 b2 c0 c1 c2)"
  unfolding det2x2_def sarrus_def laplace_def by (simp add: algebra_simps)

lemma expand3_12:
  "b0 * (det2x2 a1 a2 b1 b2) + b1 * (- det2x2 a0 a2 b0 b2) + b2 * (det2x2 a0 a1 b0 b1) = 0 * (sarrus a0 a1 a2 b0 b1 b2 c0 c1 c2)"
  unfolding det2x2_def sarrus_def laplace_def by (simp add: algebra_simps)

lemma expand3_20:
  "c0 * (det2x2 b1 b2 c1 c2) + c1 * (- det2x2 b0 b2 c0 c2) + c2 * (det2x2 b0 b1 c0 c1) = 0 * (sarrus a0 a1 a2 b0 b1 b2 c0 c1 c2)"
  unfolding det2x2_def sarrus_def laplace_def by (simp add: algebra_simps)

lemma expand3_21:
  "c0 * (- det2x2 a1 a2 c1 c2) + c1 * (det2x2 a0 a2 c0 c2) + c2 * (- det2x2 a0 a1 c0 c1) = 0 * (sarrus a0 a1 a2 b0 b1 b2 c0 c1 c2)"
  unfolding det2x2_def sarrus_def laplace_def by (simp add: algebra_simps)

lemma expand3_22:
  "c0 * (det2x2 a1 a2 b1 b2) + c1 * (- det2x2 a0 a2 b0 b2) + c2 * (det2x2 a0 a1 b0 b1) = 1 * (sarrus a0 a1 a2 b0 b1 b2 c0 c1 c2)"
  unfolding det2x2_def sarrus_def laplace_def by (simp add: algebra_simps)

lemma expand4_00:
  "a0 * (sarrus b1 b2 b3 c1 c2 c3 d1 d2 d3) + a1 * (- sarrus b0 b2 b3 c0 c2 c3 d0 d2 d3) + a2 * (sarrus b0 b1 b3 c0 c1 c3 d0 d1 d3) + a3 * (- sarrus b0 b1 b2 c0 c1 c2 d0 d1 d2) = 1 * (laplace a0 a1 a2 a3 b0 b1 b2 b3 c0 c1 c2 c3 d0 d1 d2 d3)"
  unfolding det2x2_def sarrus_def laplace_def by (simp add: algebra_simps)

lemma expand4_01:
  "a0 * (- sarrus a1 a2 a3 c1 c2 c3 d1 d2 d3) + a1 * (sarrus a0 a2 a3 c0 c2 c3 d0 d2 d3) + a2 * (- sarrus a0 a1 a3 c0 c1 c3 d0 d1 d3) + a3 * (sarrus a0 a1 a2 c0 c1 c2 d0 d1 d2) = 0 * (laplace a0 a1 a2 a3 b0 b1 b2 b3 c0 c1 c2 c3 d0 d1 d2 d3)"
  unfolding det2x2_def sarrus_def laplace_def by (simp add: algebra_simps)

lemma expand4_02:
  "a0 * (sarrus a1 a2 a3 b1 b2 b3 d1 d2 d3) + a1 * (- sarrus a0 a2 a3 b0 b2 b3 d0 d2 d3) + a2 * (sarrus a0 a1 a3 b0 b1 b3 d0 d1 d3) + a3 * (- sarrus a0 a1 a2 b0 b1 b2 d0 d1 d2) = 0 * (laplace a0 a1 a2 a3 b0 b1 b2 b3 c0 c1 c2 c3 d0 d1 d2 d3)"
  unfolding det2x2_def sarrus_def laplace_def by (simp add: algebra_simps)

lemma expand4_03:
  "a0 * (- sarrus a1 a2 a3 b1 b2 b3 c1 c2 c3) + a1 * (sarrus a0 a2 a3 b0 b2 b3 c0 c2 c3) + a2 * (- sarrus a0 a1 a3 b0 b1 b3 c0 c1 c3) + a3 * (sarrus a0 a1 a2 b0 b1 b2 c0 c1 c2) = 0 * (laplace a0 a1 a2 a3 b0 b1 b2 b3 c0 c1 c2 c3 d0 d1 d2 d3)"
  unfolding det2x2_def sarrus_def laplace_def by (simp add: algebra_simps)

lemma expand4_10:
  "b0 * (sarrus b1 b2 b3 c1 c2 c3 d1 d2 d3) + b1 * (- sarrus b0 b2 b3 c0 c2 c3 d0 d2 d3) + b2 * (sarrus b0 b1 b3 c0 c1 c3 d0 d1 d3) + b3 * (- sarrus b0 b1 b2 c0 c1 c2 d0 d1 d2) = 0 * (laplace a0 a1 a2 a3 b0 b1 b2 b3 c0 c1 c2 c3 d0 d1 d2 d3)"
  unfolding det2x2_def sarrus_def laplace_def by (simp add: algebra_simps)

lemma expand4_11:
  "b0 * (- sarrus a1 a2 a3 c1 c2 c3 d1 d2 d3) + b1 * (sarrus a0 a2 a3 c0 c2 c3 d0 d2 d3) + b2 * (- sarrus a0 a1 a3 c0 c1 c3 d0 d1 d3) + b3 * (sarrus a0 a1 a2 c0 c1 c2 d0 d1 d2) = 1 * (laplace a0 a1 a2 a3 b0 b1 b2 b3 c0 c1 c2 c3 d0 d1 d2 d3)"
  unfolding det2x2_def sarrus_def laplace_def by (simp add: algebra_simps)

lemma expand4_12:
  "b0 * (sarrus a1 a2 a3 b1 b2 b3 d1 d2 d3) + b1 * (- sarrus a0 a2 a3 b0 b2 b3 d0 d2 d3) + b2 * (sarrus a0 a1 a3 b0 b1 b3 d0 d1 d3) + b3 * (- sarrus a0 a1 a2 b0 b1 b2 d0 d1 d2) = 0 * (laplace a0 a1 a2 a3 b0 b1 b2 b3 c0 c1 c2 c3 d0 d1 d2 d3)"
  unfolding det2x2_def sarrus_def laplace_def by (simp add: algebra_simps)

lemma expand4_13:
  "b0 * (- sarrus a1 a2 a3 b1 b2 b3 c1 c2 c3) + b1 * (sarrus a0 a2 a3 b0 b2 b3 c0 c2 c3) + b2 * (- sarrus a0 a1 a3 b0 b1 b3 c0 c1 c3) + b3 * (sarrus a0 a1 a2 b0 b1 b2 c0 c1 c2) = 0 * (laplace a0 a1 a2 a3 b0 b1 b2 b3 c0 c1 c2 c3 d0 d1 d2 d3)"
  unfolding det2x2_def sarrus_def laplace_def by (simp add: algebra_simps)

lemma expand4_20:
  "c0 * (sarrus b1 b2 b3 c1 c2 c3 d1 d2 d3) + c1 * (- sarrus b0 b2 b3 c0 c2 c3 d0 d2 d3) + c2 * (sarrus b0 b1 b3 c0 c1 c3 d0 d1 d3) + c3 * (- sarrus b0 b1 b2 c0 c1 c2 d0 d1 d2) = 0 * (laplace a0 a1 a2 a3 b0 b1 b2 b3 c0 c1 c2 c3 d0 d1 d2 d3)"
  unfolding det2x2_def sarrus_def laplace_def by (simp add: algebra_simps)

lemma expand4_21:
  "c0 * (- sarrus a1 a2 a3 c1 c2 c3 d1 d2 d3) + c1 * (sarrus a0 a2 a3 c0 c2 c3 d0 d2 d3) + c2 * (- sarrus a0 a1 a3 c0 c1 c3 d0 d1 d3) + c3 * (sarrus a0 a1 a2 c0 c1 c2 d0 d1 d2) = 0 * (laplace a0 a1 a2 a3 b0 b1 b2 b3 c0 c1 c2 c3 d0 d1 d2 d3)"
  unfolding det2x2_def sarrus_def laplace_def by (simp add: algebra_simps)

lemma expand4_22:
  "c0 * (sarrus a1 a2 a3 b1 b2 b3 d1 d2 d3) + c1 * (- sarrus a0 a2 a3 b0 b2 b3 d0 d2 d3) + c2 * (sarrus a0 a1 a3 b0 b1 b3 d0 d1 d3) + c3 * (- sarrus a0 a1 a2 b0 b1 b2 d0 d1 d2) = 1 * (laplace a0 a1 a2 a3 b0 b1 b2 b3 c0 c1 c2 c3 d0 d1 d2 d3)"
  unfolding det2x2_def sarrus_def laplace_def by (simp add: algebra_simps)

lemma expand4_23:
  "c0 * (- sarrus a1 a2 a3 b1 b2 b3 c1 c2 c3) + c1 * (sarrus a0 a2 a3 b0 b2 b3 c0 c2 c3) + c2 * (- sarrus a0 a1 a3 b0 b1 b3 c0 c1 c3) + c3 * (sarrus a0 a1 a2 b0 b1 b2 c0 c1 c2) = 0 * (laplace a0 a1 a2 a3 b0 b1 b2 b3 c0 c1 c2 c3 d0 d1 d2 d3)"
  unfolding det2x2_def sarrus_def laplace_def by (simp add: algebra_simps)

lemma expand4_30:
  "d0 * (sarrus b1 b2 b3 c1 c2 c3 d1 d2 d3) + d1 * (- sarrus b0 b2 b3 c0 c2 c3 d0 d2 d3) + d2 * (sarrus b0 b1 b3 c0 c1 c3 d0 d1 d3) + d3 * (- sarrus b0 b1 b2 c0 c1 c2 d0 d1 d2) = 0 * (laplace a0 a1 a2 a3 b0 b1 b2 b3 c0 c1 c2 c3 d0 d1 d2 d3)"
  unfolding det2x2_def sarrus_def laplace_def by (simp add: algebra_simps)

lemma expand4_31:
  "d0 * (- sarrus a1 a2 a3 c1 c2 c3 d1 d2 d3) + d1 * (sarrus a0 a2 a3 c0 c2 c3 d0 d2 d3) + d2 * (- sarrus a0 a1 a3 c0 c1 c3 d0 d1 d3) + d3 * (sarrus a0 a1 a2 c0 c1 c2 d0 d1 d2) = 0 * (laplace a0 a1 a2 a3 b0 b1 b2 b3 c0 c1 c2 c3 d0 d1 d2 d3)"
  unfolding det2x2_def sarrus_def laplace_def by (simp add: algebra_simps)

lemma expand4_32:
  "d0 * (sarrus a1 a2 a3 b1 b2 b3 d1 d2 d3) + d1 * (- sarrus a0 a2 a3 b0 b2 b3 d0 d2 d3) + d2 * (sarrus a0 a1 a3 b0 b1 b3 d0 d1 d3) + d3 * (- sarrus a0 a1 a2 b0 b1 b2 d0 d1 d2) = 0 * (laplace a0 a1 a2 a3 b0 b1 b2 b3 c0 c1 c2 c3 d0 d1 d2 d3)"
  unfolding det2x2_def sarrus_def laplace_def by (simp add: algebra_simps)

lemma expand4_33:
  "d0 * (- sarrus a1 a2 a3 b1 b2 b3 c1 c2 c3) + d1 * (sarrus a0 a2 a3 b0 b2 b3 c0 c2 c3) + d2 * (- sarrus a0 a1 a3 b0 b1 b3 c0 c1 c3) + d3 * (sarrus a0 a1 a2 b0 b1 b2 c0 c1 c2) = 1 * (laplace a0 a1 a2 a3 b0 b1 b2 b3 c0 c1 c2 c3 d0 d1 d2 d3)"
  unfolding det2x2_def sarrus_def laplace_def by (simp add: algebra_simps)

section \<open>Determinant, inverse and product on finite entries\<close>

lemma det2_num:
  "det2 [[num a0, num a1],
      [num b0, num b1]] =
     Some (Fin (det2x2 a0 a1 b0 b1))"
  by (simp add: det2x2_def js_sub_def)

lemma det3_num:
  "det3 [[num a0, num a1, num a2],
      [num b0, num b1, num b2],
      [num c0, num c1, num c2]] =
     Some (Fin (sarrus a0 a1 a2 b0 b1 b2 c0 c1 c2))"
  by (simp add: sarrus_def js_sub_def)

lemma det4_num:
  "det4 [[num a0, num a1, num a2, num a3],
      [num b0, num b1, num b2, num b3],
      [num c0, num c1, num c2, num c3],
      [num d0, num d1, num d2, num d3]] =
     Some (Fin (laplace a0 a1 a2 a3 b0 b1 b2 b3 c0 c1 c2 c3 d0 d1 d2 d3))"
  by (simp add: laplace_def js_sub_def minor3_def det3_num del: det3.simps)

lemma multiply2_num:
  "linearMultiply (Mat [[num a0, num a1],
      [num b0, num b1]])
     (Mat [[num x00, num x01],
      [num x10, num x11]]) =
   ([], Returns (Mat [[num (a0 * x00 + a1 * x10), num (a0 * x01 + a1 * x11)],
      [num (b0 * x00 + b1 * x10), num (b0 * x01 + b1 * x11)]]))"
  by (simp add: linearMultiply_def sum_upto_def)

lemma multiply3_num:
  "linearMultiply (Mat [[num a0, num a1, num a2],
      [num b0, num b1, num b2],
      [num c0, num c1, num c2]])
     (Mat [[num x00, num x01, num x02],
      [num x10, num x11, num x12],
      [num x20, num x21, num x22]]) =
   ([], Returns (Mat [[num (a0 * x00 + a1 * x10 + a2 * x20), num (a0 * x01 + a1 * x11 + a2 * x21), num (a0 * x02 + a1 * x12 + a2 * x22)],
      [num (b0 * x00 + b1 * x10 + b2 * x20), num (b0 * x01 + b1 * x11 + b2 * x21), num (b0 * x02 + b1 * x12 + b2 * x22)],
      [num (c0 * x00 + c1 * x10 + c2 * x20), num (c0 * x01 + c1 * x11 + c2 * x21), num (c0 * x02 + c1 * x12 + c2 * x22)]]))"
  by (simp add: linearMultiply_def sum_upto_def)

lemma multiply4_num:
  "linearMultiply (Mat [[num a0, num a1, num a2, num a3],
      [num b0, num b1, num b2, num b3],
      [num c0, num c1, num c2, num c3],
      [num d0, num d1, num d2, num d3]])
     (Mat [[num x00, num x01, num x02, num x03],
      [num x10, num x11, num x12, num x13],
      [num x20, num x21, num x22, num x23],
      [num x30, num x31, num x32, num x33]]) =
   ([], Returns (Mat [[num (a0 * x00 + a1 * x10 + a2 * x20 + a3 * x30), num (a0 * x01 + a1 * x11 + a2 * x21 + a3 * x31), num (a0 * x02 + a1 * x12 + a2 * x22 + a3 * x32), num (a0 * x03 + a1 * x13 + a2 * x23 + a3 * x33)],
      [num (b0 * x00 + b1 * x10 + b2 * x20 + b3 * x30), num (b0 * x01 + b1 * x11 + b2 * x21 + b3 * x31), num (b0 * x02 + b1 * x12 + b2 * x22 + b3 * x32), num (b0 * x03 + b1 * x13 + b2 * x23 + b3 * x33)],
      [num (c0 * x00 + c1 * x10 + c2 * x20 + c3 * x30), num (c0 * x01 + c1 * x11 + c2 * x21 + c3 * x31), num (c0 * x02 + c1 * x12 + c2 * x22 + c3 * x32), num (c0 * x03 + c1 * x13 + c2 * x23 + c3 * x33)],
      [num (d0 * x00 + d1 * x10 + d2 * x20 + d3 * x30), num (d0 * x01 + d1 * x11 + d2 * x21 + d3 * x31), num (d0 * x02 + d1 * x12 + d2 * x22 + d3 * x32), num (d0 * x03 + d1 * x13 + d2 * x23 + d3 * x33)]]))"
  by (simp add: linearMultiply_def sum_upto_def)

lemma inverse2_num:
  assumes "det2x2 a0 a1 b0 b1 \<noteq> 0"
  shows "inverse2 [[num a0, num a1],
      [num b0, num b1]] =
     Some (Mat [[num (b1 / (det2x2 a0 a1 b0 b1)), num ((- a1) / (det2x2 a0 a1 b0 b1))],
      [num ((- b0) / (det2x2 a0 a1 b0 b1)), num (a0 / (det2x2 a0 a1 b0 b1))]])"
  using assms by (simp add: det2_num mat2_empty put_def del: det2.simps)

lemma inverse2_product:
  assumes D: "det2x2 a0 a1 b0 b1 \<noteq> 0"
  shows "linearMultiply (Mat [[num a0, num a1],
      [num b0, num b1]])
     (Mat [[num (b1 / (det2x2 a0 a1 b0 b1)), num ((- a1) / (det2x2 a0 a1 b0 b1))],
      [num ((- b0) / (det2x2 a0 a1 b0 b1)), num (a0 / (det2x2 a0 a1 b0 b1))]]) =
   ([], Returns (mat2 []))"
proof -
  have e00: "a0 * (b1 / (det2x2 a0 a1 b0 b1)) + a1 * ((- b0) / (det2x2 a0 a1 b0 b1)) = 1"
    by (rule row_div2 [OF D expand2_00])
  have e01: "a0 * ((- a1) / (det2x2 a0 a1 b0 b1)) + a1 * (a0 / (det2x2 a0 a1 b0 b1)) = 0"
    by (rule row_div2 [OF D expand2_01])
  have e10: "b0 * (b1 / (det2x2 a0 a1 b0 b1)) + b1 * ((- b0) / (det2x2 a0 a1 b0 b1)) = 0"
    by (rule row_div2 [OF D expand2_10])
  have e11: "b0 * ((- a1) / (det2x2 a0 a1 b0 b1)) + b1 * (a0 / (det2x2 a0 a1 b0 b1)) = 1"
    by (rule row_div2 [OF D expand2_11])
  show ?thesis
    unfolding multiply2_num mat2_empty by (simp only: e00 e01 e10 e11)
qed

lemma inverse2_num_product:
  assumes "det2x2 a0 a1 b0 b1 \<noteq> 0"
  shows "\<exists>inv. inverse2 [[num a0, num a1],
      [num b0, num b1]] = Some (Mat inv) \<and>
     linearMultiply (Mat [[num a0, num a1],
      [num b0, num b1]]) (Mat inv) =
       ([], Returns (mat2 []))"
  using inverse2_num [OF assms] inverse2_product [OF assms] by simp

lemma inverse3_num:
  assumes "sarrus a0 a1 a2 b0 b1 b2 c0 c1 c2 \<noteq> 0"
  shows "inverse3 [[num a0, num a1, num a2],
      [num b0, num b1, num b2],
      [num c0, num c1, num c2]] =
     Some (Mat [[num ((det2x2 b1 b2 c1 c2) / (sarrus a0 a1 a2 b0 b1 b2 c0 c1 c2)), num ((- det2x2 a1 a2 c1 c2) / (sarrus a0 a1 a2 b0 b1 b2 c0 c1 c2)), num ((det2x2 a1 a2 b1 b2) / (sarrus a0 a1 a2 b0 b1 b2 c0 c1 c2))],
      [num ((- det2x2 b0 b2 c0 c2) / (sarrus a0 a1 a2 b0 b1 b2 c0 c1 c2)), num ((det2x2 a0 a2 c0 c2) / (sarrus a0 a1 a2 b0 b1 b2 c0 c1 c2)), num ((- det2x2 a0 a2 b0 b2) / (sarrus a0 a1 a2 b0 b1 b2 c0 c1 c2))],
      [num ((det2x2 b0 b1 c0 c1) / (sarrus a0 a1 a2 b0 b1 b2 c0 c1 c2)), num ((- det2x2 a0 a1 c0 c1) / (sarrus a0 a1 a2 b0 b1 b2 c0 c1 c2)), num ((det2x2 a0 a1 b0 b1) / (sarrus a0 a1 a2 b0 b1 b2 c0 c1 c2))]])"
  using assms by (simp add: det3_num det2_num minor2_def mat3_empty put_def del: det3.simps det2.simps)

lemma inverse3_product:
  assumes D: "sarrus a0 a1 a2 b0 b1 b2 c0 c1 c2 \<noteq> 0"
  shows "linearMultiply (Mat [[num a0, num a1, num a2],
      [num b0, num b1, num b2],
      [num c0, num c1, num c2]])
     (Mat [[num ((det2x2 b1 b2 c1 c2) / (sarrus a0 a1 a2 b0 b1 b2 c0 c1 c2)), num ((- det2x2 a1 a2 c1 c2) / (sarrus a0 a1 a2 b0 b1 b2 c0 c1 c2)), num ((det2x2 a1 a2 b1 b2) / (sarrus a0 a1 a2 b0 b1 b2 c0 c1 c2))],
      [num ((- det2x2 b0 b2 c0 c2) / (sarrus a0 a1 a2 b0 b1 b2 c0 c1 c2)), num ((det2x2 a0 a2 c0 c2) / (sarrus a0 a1 a2 b0 b1 b2 c0 c1 c2)), num ((- det2x2 a0 a2 b0 b2) / (sarrus a0 a1 a2 b0 b1 b2 c0 c1 c2))],
      [num ((det2x2 b0 b1 c0 c1) / (sarrus a0 a1 a2 b0 b1 b2 c0 c1 c2)), num ((- det2x2 a0 a1 c0 c1) / (sarrus a0 a1 a2 b0 b1 b2 c0 c1 c2)), num ((det2x2 a0 a1 b0 b1) / (sarrus a0 a1 a2 b0 b1 b2 c0 c1 c2))]]) =
   ([], Returns (mat3 []))"
proof -
  have e00: "a0 * ((det2x2 b1 b2 c1 c2) / (sarrus a0 a1 a2 b0 b1 b2 c0 c1 c2)) + a1 * ((- det2x2 b0 b2 c0 c2) / (sarrus a0 a1 a2 b0 b1 b2 c0 c1 c2)) + a2 * ((det2x2 b0 b1 c0 c1) / (sarrus a0 a1 a2 b0 b1 b2 c0 c1 c2)) = 1"
    by (rule row_div3 [OF D expand3_00])
  have e01: "a0 * ((- det2x2 a1 a2 c1 c2) / (sarrus a0 a1 a2 b0 b1 b2 c0 c1 c2)) + a1 * ((det2x2 a0 a2 c0 c2) / (sarrus a0 a1 a2 b0 b1 b2 c0 c1 c2)) + a2 * ((- det2x2 a0 a1 c0 c1) / (sarrus a0 a1 a2 b0 b1 b2 c0 c1 c2)) = 0"
    by (rule row_div3 [OF D expand3_01])
  have e02: "a0 * ((det2x2 a1 a2 b1 b2) / (sarrus a0 a1 a2 b0 b1 b2 c0 c1 c2)) + a1 * ((- det2x2 a0 a2 b0 b2) / (sarrus a0 a1 a2 b0 b1 b2 c0 c1 c2)) + a2 * ((det2x2 a0 a1 b0 b1) / (sarrus a0 a1 a2 b0 b1 b2 c0 c1 c2)) = 0"
    by (rule row_div3 [OF D expand3_02])
  have e10: "b0 * ((det2x2 b1 b2 c1 c2) / (sarrus a0 a1 a2 b0 b1 b2 c0 c1 c2)) + b1 * ((- det2x2 b0 b2 c0 c2) / (sarrus a0 a1 a2 b0 b1 b2 c0 c1 c2)) + b2 * ((det2x2 b0 b1 c0 c1) / (sarrus a0 a1 a2 b0 b1 b2 c0 c1 c2)) = 0"
    by (rule row_div3 [OF D expand3_10])
  have e11: "b0 * ((- det2x2 a1 a2 c1 c2) / (sarrus a0 a1 a2 b0 b1 b2 c0 c1 c2)) + b1 * ((det2x2 a0 a2 c0 c2) / (sarrus a0 a1 a2 b0 b1 b2 c0 c1 c2)) + b2 * ((- det2x2 a0 a1 c0 c1) / (sarrus a0 a1 a2 b0 b1 b2 c0 c1 c2)) = 1"
    by (rule row_div3 [OF D expand3_11])
  have e12: "b0 * ((det2x2 a1 a2 b1 b2) / (sarrus a0 a1 a2 b0 b1 b2 c0 c1 c2)) + b1 * ((- det2x2 a0 a2 b0 b2) / (sarrus a0 a1 a2 b0 b1 b2 c0 c1 c2)) + b2 * ((det2x2 a0 a1 b0 b1) / (sarrus a0 a1 a2 b0 b1 b2 c0 c1 c2)) = 0"
    by (rule row_div3 [OF D expand3_12])
  have e20: "c0 * ((det2x2 b1 b2 c1 c2) / (sarrus a0 a1 a2 b0 b1 b2 c0 c1 c2)) + c1 * ((- det2x2 b0 b2 c0 c2) / (sarrus a0 a1 a2 b0 b1 b2 c0 c1 c2)) + c2 * ((det2x2 b0 b1 c0 c1) / (sarrus a0 a1 a2 b0 b1 b2 c0 c1 c2)) = 0"
    by (rule row_div3 [OF D expand3_20])
  have e21: "c0 * ((- det2x2 a1 a2 c1 c2) / (sarrus a0 a1 a2 b0 b1 b2 c0 c1 c2)) + c1 * ((det2x2 a0 a2 c0 c2) / (sarrus a0 a1 a2 b0 b1 b2 c0 c1 c2)) + c2 * ((- det2x2 a0 a1 c0 c1) / (sarrus a0 a1 a2 b0 b1 b2 c0 c1 c2)) = 0"
    by (rule row_div3 [OF D expand3_21])
  have e22: "c0 * ((det2x2 a1 a2 b1 b2) / (sarrus a0 a1 a2 b0 b1 b2 c0 c1 c2)) + c1 * ((- det2x2 a0 a2 b0 b2) / (sarrus a0 a1 a2 b0 b1 b2 c0 c1 c2)) + c2 * ((det2x2 a0 a1 b0 b1) / (sarrus a0 a1 a2 b0 b1 b2 c0 c1 c2)) = 1"
    by (rule row_div3 [OF D expand3_22])
  show ?thesis
    unfolding multiply3_num mat3_empty by (simp only: e00 e01 e02 e10 e11 e12 e20 e21 e22)
qed

lemma inverse3_num_product:
  assumes "sarrus a0 a1 a2 b0 b1 b2 c0 c1 c2 \<noteq> 0"
  shows "\<exists>inv. inverse3 [[num a0, num a1, num a2],
      [num b0, num b1, num b2],
      [num c0, num c1, num c2]] = Some (Mat inv) \<and>
     linearMultiply (Mat [[num a0, num a1, num a2],
      [num b0, num b1, num b2],
      [num c0, num c1, num c2]]) (Mat inv) =
       ([], Returns (mat3 []))"
  using inverse3_num [OF assms] inverse3_product [OF assms] by simp

lemma inverse4_num:
  assumes "laplace a0 a1 a2 a3 b0 b1 b2 b3 c0 c1 c2 c3 d0 d1 d2 d3 \<noteq> 0"
  shows "inverse4 [[num a0, num a1, num a2, num a3],
      [num b0, num b1, num b2, num b3],
      [num c0, num c1, num c2, num c3],
      [num d0, num d1, num d2, num d3]] =
     Some (Mat [[num ((sarrus b1 b2 b3 c1 c2 c3 d1 d2 d3) / (laplace a0 a1 a2 a3 b0 b1 b2 b3 c0 c1 c2 c3 d0 d1 d2 d3)), num ((- sarrus a1 a2 a3 c1 c2 c3 d1 d2 d3) / (laplace a0 a1 a2 a3 b0 b1 b2 b3 c0 c1 c2 c3 d0 d1 d2 d3)), num ((sarrus a1 a2 a3 b1 b2 b3 d1 d2 d3) / (laplace a0 a1 a2 a3 b0 b1 b2 b3 c0 c1 c2 c3 d0 d1 d2 d3)), num ((- sarrus a1 a2 a3 b1 b2 b3 c1 c2 c3) / (laplace a0 a1 a2 a3 b0 b1 b2 b3 c0 c1 c2 c3 d0 d1 d2 d3))],
      [num ((- sarrus b0 b2 b3 c0 c2 c3 d0 d2 d3) / (laplace a0 a1 a2 a3 b0 b1 b2 b3 c0 c1 c2 c3 d0 d1 d2 d3)), num ((sarrus a0 a2 a3 c0 c2 c3 d0 d2 d3) / (laplace a0 a1 a2 a3 b0 b1 b2 b3 c0 c1 c2 c3 d0 d1 d2 d3)), num ((- sarrus a0 a2 a3 b0 b2 b3 d0 d2 d3) / (laplace a0 a1 a2 a3 b0 b1 b2 b3 c0 c1 c2 c3 d0 d1 d2 d3)), num ((sarrus a0 a2 a3 b0 b2 b3 c0 c2 c3) / (laplace a0 a1 a2 a3 b0 b1 b2 b3 c0 c1 c2 c3 d0 d1 d2 d3))],
      [num ((sarrus b0 b1 b3 c0 c1 c3 d0 d1 d3) / (laplace a0 a1 a2 a3 b0 b1 b2 b3 c0 c1 c2 c3 d0 d1 d2 d3)), num ((- sarrus a0 a1 a3 c0 c1 c3 d0 d1 d3) / (laplace a0 a1 a2 a3 b0 b1 b2 b3 c0 c1 c2 c3 d0 d1 d2 d3)), num ((sarrus a0 a1 a3 b0 b1 b3 d0 d1 d3) / (laplace a0 a1 a2 a3 b0 b1 b2 b3 c0 c1 c2 c3 d0 d1 d2 d3)), num ((- sarrus a0 a1 a3 b0 b1 b3 c0 c1 c3) / (laplace a0 a1 a2 a3 b0 b1 b2 b3 c0 c1 c2 c3 d0 d1 d2 d3))],
      [num ((- sarrus b0 b1 b2 c0 c1 c2 d0 d1 d2) / (laplace a0 a1 a2 a3 b0 b1 b2 b3 c0 c1 c2 c3 d0 d1 d2 d3)), num ((sarrus a0 a1 a2 c0 c1 c2 d0 d1 d2) / (laplace a0 a1 a2 a3 b0 b1 b2 b3 c0 c1 c2 c3 d0 d1 d2 d3)), num ((- sarrus a0 a1 a2 b0 b1 b2 d0 d1 d2) / (laplace a0 a1 a2 a3 b0 b1 b2 b3 c0 c1 c2 c3 d0 d1 d2 d3)), num ((sarrus a0 a1 a2 b0 b1 b2 c0 c1 c2) / (laplace a0 a1 a2 a3 b0 b1 b2 b3 c0 c1 c2 c3 d0 d1 d2 d3))]])"
  using assms by (simp add: det4_num det3_num minor3_def mat4_empty put_def del: det4.simps det3.simps)

lemma inverse4_product:
  assumes D: "laplace a0 a1 a2 a3 b0 b1 b2 b3 c0 c1 c2 c3 d0 d1 d2 d3 \<noteq> 0"
  shows "linearMultiply (Mat [[num a0, num a1, num a2, num a3],
      [num b0, num b1, num b2, num b3],
      [num c0, num c1, num c2, num c3],
      [num d0, num d1, num d2, num d3]])
     (Mat [[num ((sarrus b1 b2 b3 c1 c2 c3 d1 d2 d3) / (laplace a0 a1 a2 a3 b0 b1 b2 b3 c0 c1 c2 c3 d0 d1 d2 d3)), num ((- sarrus a1 a2 a3 c1 c2 c3 d1 d2 d3) / (laplace a0 a1 a2 a3 b0 b1 b2 b3 c0 c1 c2 c3 d0 d1 d2 d3)), num ((sarrus a1 a2 a3 b1 b2 b3 d1 d2 d3) / (laplace a0 a1 a2 a3 b0 b1 b2 b3 c0 c1 c2 c3 d0 d1 d2 d3)), num ((- sarrus a1 a2 a3 b1 b2 b3 c1 c2 c3) / (laplace a0 a1 a2 a3 b0 b1 b2 b3 c0 c1 c2 c3 d0 d1 d2 d3))],
      [num ((- sarrus b0 b2 b3 c0 c2 c3 d0 d2 d3) / (laplace a0 a1 a2 a3 b0 b1 b2 b3 c0 c1 c2 c3 d0 d1 d2 d3)), num ((sarrus a0 a2 a3 c0 c2 c3 d0 d2 d3) / (laplace a0 a1 a2 a3 b0 b1 b2 b3 c0 c1 c2 c3 d0 d1 d2 d3)), num ((- sarrus a0 a2 a3 b0 b2 b3 d0 d2 d3) / (laplace a0 a1 a2 a3 b0 b1 b2 b3 c0 c1 c2 c3 d0 d1 d2 d3)), num ((sarrus a0 a2 a3 b0 b2 b3 c0 c2 c3) / (laplace a0 a1 a2 a3 b0 b1 b2 b3 c0 c1 c2 c3 d0 d1 d2 d3))],
      [num ((sarrus b0 b1 b3 c0 c1 c3 d0 d1 d3) / (laplace a0 a1 a2 a3 b0 b1 b2 b3 c0 c1 c2 c3 d0 d1 d2 d3)), num ((- sarrus a0 a1 a3 c0 c1 c3 d0 d1 d3) / (laplace a0 a1 a2 a3 b0 b1 b2 b3 c0 c1 c2 c3 d0 d1 d2 d3)), num ((sarrus a0 a1 a3 b0 b1 b3 d0 d1 d3) / (laplace a0 a1 a2 a3 b0 b1 b2 b3 c0 c1 c2 c3 d0 d1 d2 d3)), num ((- sarrus a0 a1 a3 b0 b1 b3 c0 c1 c3) / (laplace a0 a1 a2 a3 b0 b1 b2 b3 c0 c1 c2 c3 d0 d1 d2 d3))],
      [num ((- sarrus b0 b1 b2 c0 c1 c2 d0 d1 d2) / (laplace a0 a1 a2 a3 b0 b1 b2 b3 c0 c1 c2 c3 d0 d1 d2 d3)), num ((sarrus a0 a1 a2 c0 c1 c2 d0 d1 d2) / (laplace a0 a1 a2 a3 b0 b1 b2 b3 c0 c1 c2 c3 d0 d1 d2 d3)), num ((- sarrus a0 a1 a2 b0 b1 b2 d0 d1 d2) / (laplace a0 a1 a2 a3 b0 b1 b2 b3 c0 c1 c2 c3 d0 d1 d2 d3)), num ((sarrus a0 a1 a2 b0 b1 b2 c0 c1 c2) / (laplace a0 a1 a2 a3 b0 b1 b2 b3 c0 c1 c2 c3 d0 d1 d2 d3))]]) =
   ([], Returns (mat4 []))"
proof -
  have e00: "a0 * ((sarrus b1 b2 b3 c1 c2 c3 d1 d2 d3) / (laplace a0 a1 a2 a3 b0 b1 b2 b3 c0 c1 c2 c3 d0 d1 d2 d3)) + a1 * ((- sarrus b0 b2 b3 c0 c2 c3 d0 d2 d3) / (laplace a0 a1 a2 a3 b0 b1 b2 b3 c0 c1 c2 c3 d0 d1 d2 d3)) + a2 * ((sarrus b0 b1 b3 c0 c1 c3 d0 d1 d3) / (laplace a0 a1 a2 a3 b0 b1 b2 b3 c0 c1 c2 c3 d0 d1 d2 d3)) + a3 * ((- sarrus b0 b1 b2 c0 c1 c2 d0 d1 d2) / (laplace a0 a1 a2 a3 b0 b1 b2 b3 c0 c1 c2 c3 d0 d1 d2 d3)) = 1"
    by (rule row_div4 [OF D expand4_00])
  have e01: "a0 * ((- sarrus a1 a2 a3 c1 c2 c3 d1 d2 d3) / (laplace a0 a1 a2 a3 b0 b1 b2 b3 c0 c1 c2 c3 d0 d1 d2 d3)) + a1 * ((sarrus a0 a2 a3 c0 c2 c3 d0 d2 d3) / (laplace a0 a1 a2 a3 b0 b1 b2 b3 c0 c1 c2 c3 d0 d1 d2 d3)) + a2 * ((- sarrus a0 a1 a3 c0 c1 c3 d0 d1 d3) / (laplace a0 a1 a2 a3 b0 b1 b2 b3 c0 c1 c2 c3 d0 d1 d2 d3)) + a3 * ((sarrus a0 a1 a2 c0 c1 c2 d0 d1 d2) / (laplace a0 a1 a2 a3 b0 b1 b2 b3 c0 c1 c2 c3 d0 d1 d2 d3)) = 0"
    by (rule row_div4 [OF D expand4_01])
  have e02: "a0 * ((sarrus a1 a2 a3 b1 b2 b3 d1 d2 d3) / (laplace a0 a1 a2 a3 b0 b1 b2 b3 c0 c1 c2 c3 d0 d1 d2 d3)) + a1 * ((- sarrus a0 a2 a3 b0 b2 b3 d0 d2 d3) / (laplace a0 a1 a2 a3 b0 b1 b2 b3 c0 c1 c2 c3 d0 d1 d2 d3)) + a2 * ((sarrus a0 a1 a3 b0 b1 b3 d0 d1 d3) / (laplace a0 a1 a2 a3 b0 b1 b2 b3 c0 c1 c2 c3 d0 d1 d2 d3)) + a3 * ((- sarrus a0 a1 a2 b0 b1 b2 d0 d1 d2) / (laplace a0 a1 a2 a3 b0 b1 b2 b3 c0 c1 c2 c3 d0 d1 d2 d3)) = 0"
    by (rule row_div4 [OF D expand4_02])
  have e03: "a0 * ((- sarrus a1 a2 a3 b1 b2 b3 c1 c2 c3) / (laplace a0 a1 a2 a3 b0 b1 b2 b3 c0 c1 c2 c3 d0 d1 d2 d3)) + a1 * ((sarrus a0 a2 a3 b0 b2 b3 c0 c2 c3) / (laplace a0 a1 a2 a3 b0 b1 b2 b3 c0 c1 c2 c3 d0 d1 d2 d3)) + a2 * ((- sarrus a0 a1 a3 b0 b1 b3 c0 c1 c3) / (laplace a0 a1 a2 a3 b0 b1 b2 b3 c0 c1 c2 c3 d0 d1 d2 d3)) + a3 * ((sarrus a0 a1 a2 b0 b1 b2 c0 c1 c2) / (laplace a0 a1 a2 a3 b0 b1 b2 b3 c0 c1 c2 c3 d0 d1 d2 d3)) = 0"
    by (rule row_div4 [OF D expand4_03])
  have e10: "b0 * ((sarrus b1 b2 b3 c1 c2 c3 d1 d2 d3) / (laplace a0 a1 a2 a3 b0 b1 b2 b3 c0 c1 c2 c3 d0 d1 d2 d3)) + b1 * ((- sarrus b0 b2 b3 c0 c2 c3 d0 d2 d3) / (laplace a0 a1 a2 a3 b0 b1 b2 b3 c0 c1 c2 c3 d0 d1 d2 d3)) + b2 * ((sarrus b0 b1 b3 c0 c1 c3 d0 d1 d3) / (laplace a0 a1 a2 a3 b0 b1 b2 b3 c0 c1 c2 c3 d0 d1 d2 d3)) + b3 * ((- sarrus b0 b1 b2 c0 c1 c2 d0 d1 d2) / (laplace a0 a1 a2 a3 b0 b1 b2 b3 c0 c1 c2 c3 d0 d1 d2 d3)) = 0"
    by (rule row_div4 [OF D expand4_10])
  have e11: "b0 * ((- sarrus a1 a2 a3 c1 c2 c3 d1 d2 d3) / (laplace a0 a1 a2 a3 b0 b1 b2 b3 c0 c1 c2 c3 d0 d1 d2 d3)) + b1 * ((sarrus a0 a2 a3 c0 c2 c3 d0 d2 d3) / (laplace a0 a1 a2 a3 b0 b1 b2 b3 c0 c1 c2 c3 d0 d1 d2 d3)) + b2 * ((- sarrus a0 a1 a3 c0 c1 c3 d0 d1 d3) / (laplace a0 a1 a2 a3 b0 b1 b2 b3 c0 c1 c2 c3 d0 d1 d2 d3)) + b3 * ((sarrus a0 a1 a2 c0 c1 c2 d0 d1 d2) / (laplace a0 a1 a2 a3 b0 b1 b2 b3 c0 c1 c2 c3 d0 d1 d2 d3)) = 1"
    by (rule row_div4 [OF D expand4_11])
  have e12: "b0 * ((sarrus a1 a2 a3 b1 b2 b3 d1 d2 d3) / (laplace a0 a1 a2 a3 b0 b1 b2 b3 c0 c1 c2 c3 d0 d1 d2 d3)) + b1 * ((- sarrus a0 a2 a3 b0 b2 b3 d0 d2 d3) / (laplace a0 a1 a2 a3 b0 b1 b2 b3 c0 c1 c2 c3 d0 d1 d2 d3)) + b2 * ((sarrus a0 a1 a3 b0 b1 b3 d0 d1 d3) / (laplace a0 a1 a2 a3 b0 b1 b2 b3 c0 c1 c2 c3 d0 d1 d2 d3)) + b3 * ((- sarrus a0 a1 a2 b0 b1 b2 d0 d1 d2) / (laplace a0 a1 a2 a3 b0 b1 b2 b3 c0 c1 c2 c3 d0 d1 d2 d3)) = 0"
    by (rule row_div4 [OF D expand4_12])
  have e13: "b0 * ((- sarrus a1 a2 a3 b1 b2 b3 c1 c2 c3) / (laplace a0 a1 a2 a3 b0 b1 b2 b3 c0 c1 c2 c3 d0 d1 d2 d3)) + b1 * ((sarrus a0 a2 a3 b0 b2 b3 c0 c2 c3) / (laplace a0 a1 a2 a3 b0 b1 b2 b3 c0 c1 c2 c3 d0 d1 d2 d3)) + b2 * ((- sarrus a0 a1 a3 b0 b1 b3 c0 c1 c3) / (laplace a0 a1 a2 a3 b0 b1 b2 b3 c0 c1 c2 c3 d0 d1 d2 d3)) + b3 * ((sarrus a0 a1 a2 b0 b1 b2 c0 c1 c2) / (laplace a0 a1 a2 a3 b0 b1 b2 b3 c0 c1 c2 c3 d0 d1 d2 d3)) = 0"
    by (rule row_div4 [OF D expand4_13])
  have e20: "c0 * ((sarrus b1 b2 b3 c1 c2 c3 d1 d2 d3) / (laplace a0 a1 a2 a3 b0 b1 b2 b3 c0 c1 c2 c3 d0 d1 d2 d3)) + c1 * ((- sarrus b0 b2 b3 c0 c2 c3 d0 d2 d3) / (laplace a0 a1 a2 a3 b0 b1 b2 b3 c0 c1 c2 c3 d0 d1 d2 d3)) + c2 * ((sarrus b0 b1 b3 c0 c1 c3 d0 d1 d3) / (laplace a0 a1 a2 a3 b0 b1 b2 b3 c0 c1 c2 c3 d0 d1 d2 d3)) + c3 * ((- sarrus b0 b1 b2 c0 c1 c2 d0 d1 d2) / (laplace a0 a1 a2 a3 b0 b1 b2 b3 c0 c1 c2 c3 d0 d1 d2 d3)) = 0"
    by (rule row_div4 [OF D expand4_20])
  have e21: "c0 * ((- sarrus a1 a2 a3 c1 c2 c3 d1 d2 d3) / (laplace a0 a1 a2 a3 b0 b1 b2 b3 c0 c1 c2 c3 d0 d1 d2 d3)) + c1 * ((sarrus a0 a2 a3 c0 c2 c3 d0 d2 d3) / (laplace a0 a1 a2 a3 b0 b1 b2 b3 c0 c1 c2 c3 d0 d1 d2 d3)) + c2 * ((- sarrus a0 a1 a3 c0 c1 c3 d0 d1 d3) / (laplace a0 a1 a2 a3 b0 b1 b2 b3 c0 c1 c2 c3 d0 d1 d2 d3)) + c3 * ((sarrus a0 a1 a2 c0 c1 c2 d0 d1 d2) / (laplace a0 a1 a2 a3 b0 b1 b2 b3 c0 c1 c2 c3 d0 d1 d2 d3)) = 0"
    by (rule row_div4 [OF D expand4_21])
  have e22: "c0 * ((sarrus a1 a2 a3 b1 b2 b3 d1 d2 d3) / (laplace a0 a1 a2 a3 b0 b1 b2 b3 c0 c1 c2 c3 d0 d1 d2 d3)) + c1 * ((- sarrus a0 a2 a3 b0 b2 b3 d0 d2 d3) / (laplace a0 a1 a2 a3 b0 b1 b2 b3 c0 c1 c2 c3 d0 d1 d2 d3)) + c2 * ((sarrus a0 a1 a3 b0 b1 b3 d0 d1 d3) / (laplace a0 a1 a2 a3 b0 b1 b2 b3 c0 c1 c2 c3 d0 d1 d2 d3)) + c3 * ((- sarrus a0 a1 a2 b0 b1 b2 d0 d1 d2) / (laplace a0 a1 a2 a3 b0 b1 b2 b3 c0 c1 c2 c3 d0 d1 d2 d3)) = 1"
    by (rule row_div4 [OF D expand4_22])
  have e23: "c0 * ((- sarrus a1 a2 a3 b1 b2 b3 c1 c2 c3) / (laplace a0 a1 a2 a3 b0 b1 b2 b3 c0 c1 c2 c3 d0 d1 d2 d3)) + c1 * ((sarrus a0 a2 a3 b0 b2 b3 c0 c2 c3) / (laplace a0 a1 a2 a3 b0 b1 b2 b3 c0 c1 c2 c3 d0 d1 d2 d3)) + c2 * ((- sarrus a0 a1 a3 b0 b1 b3 c0 c1 c3) / (laplace a0 a1 a2 a3 b0 b1 b2 b3 c0 c1 c2 c3 d0 d1 d2 d3)) + c3 * ((sarrus a0 a1 a2 b0 b1 b2 c0 c1 c2) / (laplace a0 a1 a2 a3 b0 b1 b2 b3 c0 c1 c2 c3 d0 d1 d2 d3)) = 0"
    by (rule row_div4 [OF D expand4_23])
  have e30: "d0 * ((sarrus b1 b2 b3 c1 c2 c3 d1 d2 d3) / (laplace a0 a1 a2 a3 b0 b1 b2 b3 c0 c1 c2 c3 d0 d1 d2 d3)) + d1 * ((- sarrus b0 b2 b3 c0 c2 c3 d0 d2 d3) / (laplace a0 a1 a2 a3 b0 b1 b2 b3 c0 c1 c2 c3 d0 d1 d2 d3)) + d2 * ((sarrus b0 b1 b3 c0 c1 c3 d0 d1 d3) / (laplace a0 a1 a2 a3 b0 b1 b2 b3 c0 c1 c2 c3 d0 d1 d2 d3)) + d3 * ((- sarrus b0 b1 b2 c0 c1 c2 d0 d1 d2) / (laplace a0 a1 a2 a3 b0 b1 b2 b3 c0 c1 c2 c3 d0 d1 d2 d3)) = 0"
    by (rule row_div4 [OF D expand4_30])
  have e31: "d0 * ((- sarrus a1 a2 a3 c1 c2 c3 d1 d2 d3) / (laplace a0 a1 a2 a3 b0 b1 b2 b3 c0 c1 c2 c3 d0 d1 d2 d3)) + d1 * ((sarrus a0 a2 a3 c0 c2 c3 d0 d2 d3) / (laplace a0 a1 a2 a3 b0 b1 b2 b3 c0 c1 c2 c3 d0 d1 d2 d3)) + d2 * ((- sarrus a0 a1 a3 c0 c1 c3 d0 d1 d3) / (laplace a0 a1 a2 a3 b0 b1 b2 b3 c0 c1 c2 c3 d0 d1 d2 d3)) + d3 * ((sarrus a0 a1 a2 c0 c1 c2 d0 d1 d2) / (laplace a0 a1 a2 a3 b0 b1 b2 b3 c0 c1 c2 c3 d0 d1 d2 d3)) = 0"
    by (rule row_div4 [OF D expand4_31])
  have e32: "d0 * ((sarrus a1 a2 a3 b1 b2 b3 d1 d2 d3) / (laplace a0 a1 a2 a3 b0 b1 b2 b3 c0 c1 c2 c3 d0 d1 d2 d3)) + d1 * ((- sarrus a0 a2 a3 b0 b2 b3 d0 d2 d3) / (laplace a0 a1 a2 a3 b0 b1 b2 b3 c0 c1 c2 c3 d0 d1 d2 d3)) + d2 * ((sarrus a0 a1 a3 b0 b1 b3 d0 d1 d3) / (laplace a0 a1 a2 a3 b0 b1 b2 b3 c0 c1 c2 c3 d0 d1 d2 d3)) + d3 * ((- sarrus a0 a1 a2 b0 b1 b2 d0 d1 d2) / (laplace a0 a1 a2 a3 b0 b1 b2 b3 c0 c1 c2 c3 d0 d1 d2 d3)) = 0"
    by (rule row_div4 [OF D expand4_32])
  have e33: "d0 * ((- sarrus a1 a2 a3 b1 b2 b3 c1 c2 c3) / (laplace a0 a1 a2 a3 b0 b1 b2 b3 c0 c1 c2 c3 d0 d1 d2 d3)) + d1 * ((sarrus a0 a2 a3 b0 b2 b3 c0 c2 c3) / (laplace a0 a1 a2 a3 b0 b1 b2 b3 c0 c1 c2 c3 d0 d1 d2 d3)) + d2 * ((- sarrus a0 a1 a3 b0 b1 b3 c0 c1 c3) / (laplace a0 a1 a2 a3 b0 b1 b2 b3 c0 c1 c2 c3 d0 d1 d2 d3)) + d3 * ((sarrus a0 a1 a2 b0 b1 b2 c0 c1 c2) / (laplace a0 a1 a2 a3 b0 b1 b2 b3 c0 c1 c2 c3 d0 d1 d2 d3)) = 1"
    by (rule row_div4 [OF D expand4_33])
  show ?thesis
    unfolding multiply4_num mat4_empty by (simp only: e00 e01 e02 e03 e10 e11 e12 e13 e20 e21 e22 e23 e30 e31 e32 e33)
qed

lemma inverse4_num_product:
  assumes "laplace a0 a1 a2 a3 b0 b1 b2 b3 c0 c1 c2 c3 d0 d1 d2 d3 \<noteq> 0"
  shows "\<exists>inv. inverse4 [[num a0, num a1, num a2, num a3],
      [num b0, num b1, num b2, num b3],
      [num c0, num c1, num c2, num c3],
      [num d0, num d1, num d2, num d3]] = Some (Mat inv) \<and>
     linearMultiply (Mat [[num a0, num a1, num a2, num a3],
      [num b0, num b1, num b2, num b3],
      [num c0, num c1, num c2, num c3],
      [num d0, num d1, num d2, num d3]]) (Mat inv) =
       ([], Returns (mat4 []))"
  using inverse4_num [OF assms] inverse4_product [OF assms] by simp

section \<open>The inverse is the adjugate over the determinant\<close>

lemma square2: "square 2 m \<Longrightarrow> \<exists>a0 a1 b0 b1. m = [[a0, a1], [b0, b1]]"
  unfolding square_def
  by (auto simp: numeral_eq_Suc length_Suc_conv)

lemma square3:
  "square 3 m \<Longrightarrow> \<exists>a0 a1 a2 b0 b1 b2 c0 c1 c2. m = [[a0, a1, a2], [b0, b1, b2], [c0, c1, c2]]"
  unfolding square_def
  by (auto simp: numeral_eq_Suc length_Suc_conv)

lemma square4:
  assumes "square 4 m"
  shows "\<exists>a0 a1 a2 a3 b0 b1 b2 b3 c0 c1 c2 c3 d0 d1 d2 d3.
           m = [[a0, a1, a2, a3], [b0, b1, b2, b3], [c0, c1, c2, c3], [d0, d1, d2, d3]]"
proof -
  from assms obtain r0 r1 r2 r3 where m: "m = [r0, r1, r2, r3]"
    using list4 [of m] by (auto simp: square_def)
  with assms have "\<exists>a0 a1 a2 a3. r0 = [a0, a1, a2, a3]"
    "\<exists>b0 b1 b2 b3. r1 = [b0, b1, b2, b3]"
    "\<exists>c0 c1 c2 c3. r2 = [c0, c1, c2, c3]"
    "\<exists>d0 d1 d2 d3. r3 = [d0, d1, d2, d3]"
    using list4 [of r0] list4 [of r1] list4 [of r2] list4 [of r3]
    by (simp_all add: square_def)
  with m show ?thesis by blast
qed

lemma upt_small: "[0..<2] = [0, 1]" "[0..<3] = [0, 1, 2]" "[0..<4] = [0, 1, 2, 3]"
  by (simp_all add: upt_rec)

lemma inverse2_adjugate:
  "inverse2 [[a0, a1], [b0, b1]] =
     map_option (\<lambda>dt. Mat (adjugate_over_det 2 [[a0, a1], [b0, b1]] dt)) (det2 [[a0, a1], [b0, b1]])"
  apply (simp only: adjugate_over_det_def upt_small list.map)
  apply (simp add: submatrix_def remove_nth_def lower_det_def signed_def mat2_empty put_def)
  done

lemma inverse3_adjugate:
  "inverse3 [[a0, a1, a2], [b0, b1, b2], [c0, c1, c2]] =
     map_option (\<lambda>dt. Mat (adjugate_over_det 3 [[a0, a1, a2], [b0, b1, b2], [c0, c1, c2]] dt))
       (det3 [[a0, a1, a2], [b0, b1, b2], [c0, c1, c2]])"
  apply (simp only: adjugate_over_det_def upt_small list.map)
  apply (simp add: submatrix_def remove_nth_def lower_det_def signed_def
      mat3_empty put_def minor2_def)
  done

lemma inverse4_adjugate:
  "inverse4 [[a0, a1, a2, a3], [b0, b1, b2, b3], [c0, c1, c2, c3], [d0, d1, d2, d3]] =
     map_option (\<lambda>dt. Mat (adjugate_over_det 4
         [[a0, a1, a2, a3], [b0, b1, b2, b3], [c0, c1, c2, c3], [d0, d1, d2, d3]] dt))
       (det4 [[a0, a1, a2, a3], [b0, b1, b2, b3], [c0, c1, c2, c3], [d0, d1, d2, d3]])"
  apply (simp only: adjugate_over_det_def upt_small list.map)
  apply (simp add: submatrix_def remove_nth_def lower_det_def signed_def
      mat4_empty put_def minor3_def)
  done

section \<open>A finite determinant has finite entries\<close>

lemma isFinite_neg [simp]: "isFinite (js_neg x) = isFinite x"
  by (cases x) simp_all

lemma isFinite_inf_of [simp]: "\<not> isFinite (inf_of b)"
  by (simp add: inf_of_def)

lemma isFinite_add [simp]: "isFinite (js_add x y) = (isFinite x \<and> isFinite y)"
  by (cases x; cases y) simp_all

lemma isFinite_sub [simp]: "isFinite (js_sub x y) = (isFinite x \<and> isFinite y)"
  by (simp add: js_sub_def)

lemma isFinite_mul [simp]: "isFinite (js_mul x y) = (isFinite x \<and> isFinite y)"
  by (cases x; cases y) simp_all

lemma isFinite_Fin_eq: "x = Fin r \<Longrightarrow> isFinite x"
  by simp

lemma thrown_Returns [simp]: "thrown v = Returns x \<longleftrightarrow> v = Some x"
  by (cases v) simp_all

lemma det2_finite:
  assumes "det2 [[a0, a1], [b0, b1]] = Some (Fin r)"
  shows "finite_matrix 2 [[a0, a1], [b0, b1]]"
proof -
  from assms have "isFinite (js_sub (js_mul (to_num a0) (to_num b1)) (js_mul (to_num a1) (to_num b0)))"
    by simp
  then show ?thesis
    by (simp add: finite_matrix_def square_def)
qed

lemma det3_finite:
  assumes "det3 [[a0, a1, a2], [b0, b1, b2], [c0, c1, c2]] = Some (Fin r)"
  shows "finite_matrix 3 [[a0, a1, a2], [b0, b1, b2], [c0, c1, c2]]"
proof -
  have "isFinite (Fin r)" by simp
  with assms [symmetric] show ?thesis
    by (simp add: finite_matrix_def square_def)
qed

lemma det4_finite:
  assumes "det4 [[a0, a1, a2, a3], [b0, b1, b2, b3], [c0, c1, c2, c3], [d0, d1, d2, d3]] = Some (Fin r)"
  shows "finite_matrix 4 [[a0, a1, a2, a3], [b0, b1, b2, b3], [c0, c1, c2, c3], [d0, d1, d2, d3]]"
proof -
  have "isFinite (Fin r)" by simp
  with assms [symmetric] show ?thesis
    by (simp add: finite_matrix_def square_def minor3_def)
qed

lemma identity_rows_small:
  "Mat (identity_rows 2) = mat2 []" "Mat (identity_rows 3) = mat3 []" "Mat (identity_rows 4) = mat4 []"
  by (simp_all only: identity_rows_def upt_small list.map mat2_empty mat3_empty mat4_empty)
     simp_all

lemma inverse_identity2:
  assumes sq: "square 2 m" and dt: "det2 m = Some (Fin r)" and nz: "r \<noteq> 0"
  shows "inverse2 m = Some (Mat (adjugate_over_det 2 m (Fin r))) \<and>
         linearMultiply (Mat m) (Mat (adjugate_over_det 2 m (Fin r))) = ([], Returns (mat2 []))"
proof -
  from square2 [OF sq] obtain x0 x1 y0 y1
    where m: "m = [[x0, x1], [y0, y1]]"
    by (elim exE) (rule that)
  from dt have fm: "finite_matrix 2 m"
    unfolding m by (rule det2_finite)
  from finite_matrix2 [OF fm] obtain a0 a1 b0 b1
    where n: "m = [[num a0, num a1], [num b0, num b1]]"
    by (elim exE) (rule that)
  from dt have r: "r = det2x2 a0 a1 b0 b1"
    unfolding n det2_num by simp
  with nz have D: "det2x2 a0 a1 b0 b1 \<noteq> 0" by simp
  have adj: "inverse2 m = Some (Mat (adjugate_over_det 2 m (Fin r)))"
    using dt unfolding m inverse2_adjugate by simp
  from inverse2_num_product [OF D] obtain inv
    where inv: "inverse2 m = Some (Mat inv)"
      and prod: "linearMultiply (Mat m) (Mat inv) = ([], Returns (mat2 []))"
    unfolding n by blast
  from adj inv have "inv = adjugate_over_det 2 m (Fin r)" by simp
  with adj prod show ?thesis by simp
qed

lemma inverse_identity3:
  assumes sq: "square 3 m" and dt: "det3 m = Some (Fin r)" and nz: "r \<noteq> 0"
  shows "inverse3 m = Some (Mat (adjugate_over_det 3 m (Fin r))) \<and>
         linearMultiply (Mat m) (Mat (adjugate_over_det 3 m (Fin r))) = ([], Returns (mat3 []))"
proof -
  from square3 [OF sq] obtain x0 x1 x2 y0 y1 y2 z0 z1 z2
    where m: "m = [[x0, x1, x2], [y0, y1, y2], [z0, z1, z2]]"
    by (elim exE) (rule that)
  from dt have fm: "finite_matrix 3 m"
    unfolding m by (rule det3_finite)
  from finite_matrix3 [OF fm] obtain a0 a1 a2 b0 b1 b2 c0 c1 c2
    where n: "m = [[num a0, num a1, num a2], [num b0, num b1, num b2], [num c0, num c1, num c2]]"
    by (elim exE) (rule that)
  from dt have r: "r = sarrus a0 a1 a2 b0 b1 b2 c0 c1 c2"
    unfolding n det3_num by simp
  with nz have D: "sarrus a0 a1 a2 b0 b1 b2 c0 c1 c2 \<noteq> 0" by simp
  have adj: "inverse3 m = Some (Mat (adjugate_over_det 3 m (Fin r)))"
    using dt unfolding m inverse3_adjugate by simp
  from inverse3_num_product [OF D] obtain inv
    where inv: "inverse3 m = Some (Mat inv)"
      and prod: "linearMultiply (Mat m) (Mat inv) = ([], Returns (mat3 []))"
    unfolding n by blast
  from adj inv have "inv = adjugate_over_det 3 m (Fin r)" by simp
  with adj prod show ?thesis by simp
qed

lemma inverse_identity4:
  assumes sq: "square 4 m" and dt: "det4 m = Some (Fin r)" and nz: "r \<noteq> 0"
  shows "inverse4 m = Some (Mat (adjugate_over_det 4 m (Fin r))) \<and>
         linearMultiply (Mat m) (Mat (adjugate_over_det 4 m (Fin r))) = ([], Returns (mat4 []))"
proof -
  from square4 [OF sq] obtain x0 x1 x2 x3 y0 y1 y2 y3 z0 z1 z2 z3 w0 w1 w2 w3
    where m: "m = [[x0, x1, x2, x3], [y0, y1, y2, y3], [z0, z1, z2, z3], [w0, w1, w2, w3]]"
    by (elim exE) (rule that)
  from dt have fm: "finite_matrix 4 m"
    unfolding m by (rule det4_finite)
  from finite_matrix4 [OF fm] obtain a0 a1 a2 a3 b0 b1 b2 b3 c0 c1 c2 c3 d0 d1 d2 d3
    where n: "m = [[num a0, num a1, num a2, num a3], [num b0, num b1, num b2, num b3], [num c0, num c1, num c2, num c3], [num d0, num d1, num d2, num d3]]"
    by (elim exE) (rule that)
  from dt have r: "r = laplace a0 a1 a2 a3 b0 b1 b2 b3 c0 c1 c2 c3 d0 d1 d2 d3"
    unfolding n det4_num by simp
  with nz have D: "laplace a0 a1 a2 a3 b0 b1 b2 b3 c0 c1 c2 c3 d0 d1 d2 d3 \<noteq> 0" by simp
  have adj: "inverse4 m = Some (Mat (adjugate_over_det 4 m (Fin r)))"
    using dt unfolding m inverse4_adjugate by simp
  from inverse4_num_product [OF D] obtain inv
    where inv: "inverse4 m = Some (Mat inv)"
      and prod: "linearMultiply (Mat m) (Mat inv) = ([], Returns (mat4 []))"
    unfolding n by blast
  from adj inv have "inv = adjugate_over_det 4 m (Fin r)" by simp
  with adj prod show ?thesis by simp
qed

section \<open>Inversion through the dispatcher\<close>

lemma calculateDeterminant_Mat:
  "calculateDeterminant (Mat m) =
     (if length m = 2 then ([], thrown (det2 m))
      else if length m = 3 then ([], thrown (det3 m))
      else if length m = 4 then ([], thrown (det4 m))
      else ([], ReturnsUndefined))"
  by (simp add: calculateDeterminant_def)

lemma calculateInverseMatrix_Mat:
  "calculateInverseMatrix (Mat m) =
     (if length m = 2 then ([], thrown (inverse2 m))
      else if length m = 3 then ([], thrown (inverse3 m))
      else if length m = 4 then ([], thrown (inverse4 m))
      else ([], ReturnsUndefined))"
  by (simp add: calculateInverseMatrix_def)


lemma square_length: "square d m \<Longrightarrow> length m = d"
  by (simp add: square_def)

section \<open>Inversion of a singular matrix\<close>

lemma js_div_zero [simp]: "\<not> isFinite (js_div x (Fin 0))"
  by (cases x) simp_all




section \<open>Without rounding the routines are those of exact arithmetic\<close>

lemma r_add_exact [simp]: "r_add Fin x y = js_add x y"
  by (cases x; cases y) simp_all

lemma r_sub_exact [simp]: "r_sub Fin x y = js_sub x y"
  by (simp add: r_sub_def js_sub_def)

lemma r_mul_exact [simp]: "r_mul Fin x y = js_mul x y"
  by (cases x; cases y) simp_all

lemma r_div_exact [simp]: "r_div Fin x y = js_div x y"
  by (cases x; cases y) simp_all

lemma det2_r_exact [simp]: "det2_r Fin m = det2 m"
  by (induction m rule: det2.induct) simp_all

lemma det3_r_exact [simp]: "det3_r Fin m = det3 m"
  by (induction m rule: det3.induct) simp_all

lemma det4_r_exact [simp]: "det4_r Fin m = det4 m"
  by (induction m rule: det4.induct) simp_all

lemma inverse2_r_exact [simp]: "inverse2_r Fin m = inverse2 m"
  by (induction m rule: inverse2.induct) (simp_all del: det2.simps det2_r.simps)

lemma inverse3_r_exact [simp]: "inverse3_r Fin m = inverse3 m"
  by (induction m rule: inverse3.induct)
     (simp_all del: det2.simps det2_r.simps det3.simps det3_r.simps)

lemma inverse4_r_exact [simp]: "inverse4_r Fin m = inverse4 m"
  by (induction m rule: inverse4.induct)
     (simp_all del: det4.simps det4_r.simps det3.simps det3_r.simps)

lemma routines_exact:
  "det2_r Fin = det2" "det3_r Fin = det3" "det4_r Fin = det4"
  "inverse2_r Fin = inverse2" "inverse3_r Fin = inverse3" "inverse4_r Fin = inverse4"
  by (rule ext, simp)+

lemma calculateDeterminant_r_exact: "calculateDeterminant_r Fin m = calculateDeterminant m"
  by (simp add: calculateDeterminant_r_def calculateDeterminant_def routines_exact)

lemma calculateInverseMatrix_r_exact: "calculateInverseMatrix_r Fin m = calculateInverseMatrix m"
  by (simp add: calculateInverseMatrix_r_def calculateInverseMatrix_def routines_exact)

lemma sum_upto_r_exact [simp]: "sum_upto_r Fin n f = sum_upto n f"
  by (simp add: sum_upto_r_def sum_upto_def)

lemma linearMultiply_r_exact: "linearMultiply_r Fin u v = linearMultiply u v"
  by (simp add: linearMultiply_r_def linearMultiply_def)

lemma lower_det_r_exact [simp]: "lower_det_r Fin m = lower_det m"
  by (simp add: lower_det_r_def lower_det_def)

lemma adjugate_over_det_r_exact: "adjugate_over_det_r Fin d m dt = adjugate_over_det d m dt"
  by (simp add: adjugate_over_det_r_def adjugate_over_det_def)

section \<open>Evaluation of the rounding to a double\<close>

lemma binade_eq:
  assumes "2 powi k \<le> \<bar>x\<bar>" and "\<bar>x\<bar> < 2 powi (k + 1)"
  shows "binade x = k"
proof -
  have "(0::real) < 2 powi k" by simp
  with assms(1) have pos: "0 < \<bar>x\<bar>" by linarith
  have p: "(2::real) powr of_int j = 2 powi j" for j
    by (rule powr_real_of_int') simp_all
  have "of_int k \<le> log 2 \<bar>x\<bar>"
    using assms(1) pos by (simp add: le_log_iff p)
  moreover have "log 2 \<bar>x\<bar> < of_int k + 1"
  proof -
    have "log 2 \<bar>x\<bar> < of_int (k + 1)"
      using assms(2) pos by (simp only: log_less_iff [of 2, simplified] p)
    then show ?thesis by simp
  qed
  ultimately show ?thesis
    unfolding binade_def by (rule floor_unique)
qed

lemma rne_bounds: "\<lfloor>y\<rfloor> \<le> rne y \<and> rne y \<le> \<lfloor>y\<rfloor> + 1"
  by (simp add: rne_def)

lemma round_doubleI:
  assumes lo: "2 powi k \<le> \<bar>x\<bar>" and hi: "\<bar>x\<bar> < 2 powi (k + 1)"
    and k: "- 1022 \<le> k" "k < 1023"
    and n: "rne (x / 2 powi (k - 52)) = n"
    and y: "y = of_int n * 2 powi (k - 52)"
  shows "round_double x = Fin y"
proof -
  have "(0::real) < 2 powi k" by simp
  with lo have "0 < \<bar>x\<bar>" by linarith
  then have x0: "x \<noteq> 0" by simp
  have b: "binade x = k"
    using lo hi by (rule binade_eq)
  define q :: real where "q = 2 powi (k - 52)"
  have q0: "0 < q" by (simp add: q_def)
  have "\<bar>x\<bar> / q < 2 powi (k + 1) / q"
    using hi q0 by (simp add: divide_strict_right_mono)
  also have "2 powi (k + 1) / q = (2::real) powi 53"
    by (simp add: q_def power_int_diff [symmetric])
  finally have xq: "\<bar>x / q\<bar> < 2 ^ 53"
    using q0 by simp
  then have "x / q < 2 ^ 53 \<and> - (x / q) < 2 ^ 53"
    by (simp only: abs_less_iff)
  then have "- (2 ^ 53) < x / q" "x / q < 2 ^ 53"
    by linarith+
  then have "- (2 ^ 53) \<le> \<lfloor>x / q\<rfloor>" "\<lfloor>x / q\<rfloor> < 2 ^ 53"
    by (simp_all add: le_floor_iff floor_less_iff)
  with rne_bounds [of "x / q"] have "\<bar>rne (x / q)\<bar> \<le> 2 ^ 53"
    by linarith
  then have "\<bar>of_int (rne (x / q)) :: real\<bar> \<le> 2 ^ 53"
    by (metis of_int_abs of_int_le_iff of_int_numeral of_int_power)
  then have "\<bar>of_int (rne (x / q)) * q\<bar> \<le> 2 ^ 53 * q"
    using q0 by (simp add: abs_mult mult_right_mono)
  also have "2 ^ 53 * q = 2 powi (k + 1)"
    by (simp add: q_def power_int_diff power_int_add)
  also have "\<dots> < 2 powi 1024"
    using k by (intro power_int_strict_increasing) simp_all
  finally have small: "\<not> 2 powi 1024 \<le> \<bar>of_int (rne (x / q)) * q\<bar>"
    by simp
  from k have "max k (- 1022) = k" by simp
  with x0 b small n y show ?thesis
    by (simp add: round_double_def Let_def q_def)
qed

text \<open>
  Four results as JavaScript computes them: \<^verbatim>\<open>0.1\<close> is the double
  \<open>3602879701896397 / 2 ^ 55\<close>; \<^verbatim>\<open>0.1 + 0.2\<close> is \<^verbatim>\<open>0.30000000000000004\<close>, a tie that goes
  to the even significand; \<^verbatim>\<open>2 ** 1023 * 2\<close> overflows to \<open>Infinity\<close>; and
  \<^verbatim>\<open>2 ** -1074 / 2\<close> underflows to zero.
\<close>

lemma round_double_tenth:
  "round_double (1 / 10) = Fin (3602879701896397 / 36028797018963968)"
  by (rule round_doubleI [where k = "- 4" and n = "7205759403792794"]) (simp_all add: rne_def)

lemma round_double_tie_to_even:
  "r_add round_double (Fin (3602879701896397 / 36028797018963968))
     (Fin (3602879701896397 / 18014398509481984)) = Fin (1351079888211149 / 4503599627370496)"
proof -
  have "round_double (3602879701896397 / 36028797018963968 + 3602879701896397 / 18014398509481984) =
      Fin (1351079888211149 / 4503599627370496)"
    by (rule round_doubleI [where k = "- 2" and n = "5404319552844596"]) (simp_all add: rne_def)
  then show ?thesis
    by simp
qed

lemma round_double_overflow:
  "r_mul round_double (Fin (2 ^ 1023)) (Fin 2) = PInf"
proof -
  have b: "binade (2 ^ 1023 * 2) = 1024"
    by (rule binade_eq) simp_all
  have "round_double (2 ^ 1023 * 2) = PInf"
    unfolding round_double_def b
    by (simp add: rne_def Let_def inf_of_def)
  then show ?thesis
    by simp
qed

lemma round_double_underflow:
  "r_div round_double (Fin (1 / 2 ^ 1074)) (Fin 2) = Fin 0"
proof -
  have b: "binade (1 / 2 ^ 1074 / 2) = - 1075"
    by (rule binade_eq) (simp_all add: power_int_minus field_simps)
  have "round_double (1 / 2 ^ 1074 / 2) = Fin 0"
    unfolding round_double_def b
    by (simp add: rne_def Let_def power_int_minus field_simps)
  then show ?thesis
    by simp
qed

section \<open>An ill-conditioned matrix in double precision\<close>

lemma ill_conditioned_0:
  "r_mul round_double (Fin 1) (Fin 354321274837) = Fin 354321274837"
proof -
  have "round_double (1 * 354321274837) = Fin 354321274837"
    by (rule round_doubleI [where k = "38" and n = "5805199766929408"]) (simp_all add: rne_def)
  then show ?thesis
    by (simp add: r_sub_def)
qed

lemma ill_conditioned_1:
  "r_mul round_double (Fin 469876) (Fin 754074) = Fin 354321274824"
proof -
  have "round_double (469876 * 754074) = Fin 354321274824"
    by (rule round_doubleI [where k = "38" and n = "5805199766716416"]) (simp_all add: rne_def)
  then show ?thesis
    by (simp add: r_sub_def)
qed

lemma ill_conditioned_2:
  "r_sub round_double (Fin 354321274837) (Fin 354321274824) = Fin 13"
proof -
  have "round_double (354321274837 - 354321274824) = Fin 13"
    by (rule round_doubleI [where k = "3" and n = "7318349394477056"]) (simp_all add: rne_def)
  then show ?thesis
    by (simp add: r_sub_def)
qed

lemma ill_conditioned_3:
  "r_div round_double (Fin 354321274837) (Fin 13) = Fin (7144861251605425 / 262144)"
proof -
  have "round_double (354321274837 / 13) = Fin (7144861251605425 / 262144)"
    by (rule round_doubleI [where k = "34" and n = "7144861251605425"]) (simp_all add: rne_def)
  then show ?thesis
    by (simp add: r_sub_def)
qed

lemma ill_conditioned_4:
  "r_div round_double (Fin (- 469876)) (Fin 13) = Fin (- (4967635823200729 / 137438953472))"
proof -
  have "round_double ((- 469876) / 13) = Fin (- (4967635823200729 / 137438953472))"
    by (rule round_doubleI [where k = "15" and n = "- 4967635823200729"]) (simp_all add: rne_def)
  then show ?thesis
    by (simp add: r_sub_def)
qed

lemma ill_conditioned_5:
  "r_div round_double (Fin (- 754074)) (Fin 13) = Fin (- (7972241646188071 / 137438953472))"
proof -
  have "round_double ((- 754074) / 13) = Fin (- (7972241646188071 / 137438953472))"
    by (rule round_doubleI [where k = "15" and n = "- 7972241646188071"]) (simp_all add: rne_def)
  then show ?thesis
    by (simp add: r_sub_def)
qed

lemma ill_conditioned_6:
  "r_div round_double (Fin 1) (Fin 13) = Fin (1385722962267845 / 18014398509481984)"
proof -
  have "round_double (1 / 13) = Fin (1385722962267845 / 18014398509481984)"
    by (rule round_doubleI [where k = "- 4" and n = "5542891849071380"]) (simp_all add: rne_def)
  then show ?thesis
    by (simp add: r_sub_def)
qed

lemma ill_conditioned_7:
  "r_mul round_double (Fin 1) (Fin (7144861251605425 / 262144)) = Fin (7144861251605425 / 262144)"
proof -
  have "round_double (1 * (7144861251605425 / 262144)) = Fin (7144861251605425 / 262144)"
    by (rule round_doubleI [where k = "34" and n = "7144861251605425"]) (simp_all add: rne_def)
  then show ?thesis
    by (simp add: r_sub_def)
qed

lemma ill_conditioned_8:
  "r_add round_double (Fin 0) (Fin (7144861251605425 / 262144)) = Fin (7144861251605425 / 262144)"
proof -
  have "round_double (0 + (7144861251605425 / 262144)) = Fin (7144861251605425 / 262144)"
    by (rule round_doubleI [where k = "34" and n = "7144861251605425"]) (simp_all add: rne_def)
  then show ?thesis
    by (simp add: r_sub_def)
qed

lemma ill_conditioned_9:
  "r_mul round_double (Fin 469876) (Fin (- (7972241646188071 / 137438953472))) = Fin (- (7144861251343281 / 262144))"
proof -
  have "round_double (469876 * (- (7972241646188071 / 137438953472))) = Fin (- (7144861251343281 / 262144))"
    by (rule round_doubleI [where k = "34" and n = "- 7144861251343281"]) (simp_all add: rne_def)
  then show ?thesis
    by (simp add: r_sub_def)
qed

lemma ill_conditioned_10:
  "r_add round_double (Fin (7144861251605425 / 262144)) (Fin (- (7144861251343281 / 262144))) = Fin 1"
proof -
  have "round_double ((7144861251605425 / 262144) + (- (7144861251343281 / 262144))) = Fin 1"
    by (rule round_doubleI [where k = "0" and n = "4503599627370496"]) (simp_all add: rne_def)
  then show ?thesis
    by (simp add: r_sub_def)
qed

lemma ill_conditioned_11:
  "r_mul round_double (Fin 1) (Fin (- (4967635823200729 / 137438953472))) = Fin (- (4967635823200729 / 137438953472))"
proof -
  have "round_double (1 * (- (4967635823200729 / 137438953472))) = Fin (- (4967635823200729 / 137438953472))"
    by (rule round_doubleI [where k = "15" and n = "- 4967635823200729"]) (simp_all add: rne_def)
  then show ?thesis
    by (simp add: r_sub_def)
qed

lemma ill_conditioned_12:
  "r_add round_double (Fin 0) (Fin (- (4967635823200729 / 137438953472))) = Fin (- (4967635823200729 / 137438953472))"
proof -
  have "round_double (0 + (- (4967635823200729 / 137438953472))) = Fin (- (4967635823200729 / 137438953472))"
    by (rule round_doubleI [where k = "15" and n = "- 4967635823200729"]) (simp_all add: rne_def)
  then show ?thesis
    by (simp add: r_sub_def)
qed

lemma ill_conditioned_13:
  "r_mul round_double (Fin 469876) (Fin (1385722962267845 / 18014398509481984)) = Fin (4967635823200729 / 137438953472)"
proof -
  have "round_double (469876 * (1385722962267845 / 18014398509481984)) = Fin (4967635823200729 / 137438953472)"
    by (rule round_doubleI [where k = "15" and n = "4967635823200729"]) (simp_all add: rne_def)
  then show ?thesis
    by (simp add: r_sub_def)
qed

lemma ill_conditioned_14:
  "r_add round_double (Fin (- (4967635823200729 / 137438953472))) (Fin (4967635823200729 / 137438953472)) = Fin 0"
  by (simp add: round_double_def r_sub_def)

lemma ill_conditioned_15:
  "r_mul round_double (Fin 754074) (Fin (7144861251605425 / 262144)) = Fin 20552650846264304"
proof -
  have "round_double (754074 * (7144861251605425 / 262144)) = Fin 20552650846264304"
    by (rule round_doubleI [where k = "54" and n = "5138162711566076"]) (simp_all add: rne_def)
  then show ?thesis
    by (simp add: r_sub_def)
qed

lemma ill_conditioned_16:
  "r_add round_double (Fin 0) (Fin 20552650846264304) = Fin 20552650846264304"
proof -
  have "round_double (0 + 20552650846264304) = Fin 20552650846264304"
    by (rule round_doubleI [where k = "54" and n = "5138162711566076"]) (simp_all add: rne_def)
  then show ?thesis
    by (simp add: r_sub_def)
qed

lemma ill_conditioned_17:
  "r_mul round_double (Fin 354321274837) (Fin (- (7972241646188071 / 137438953472))) = Fin (- 20552650846264300)"
proof -
  have "round_double (354321274837 * (- (7972241646188071 / 137438953472))) = Fin (- 20552650846264300)"
    by (rule round_doubleI [where k = "54" and n = "- 5138162711566075"]) (simp_all add: rne_def)
  then show ?thesis
    by (simp add: r_sub_def)
qed

lemma ill_conditioned_18:
  "r_add round_double (Fin 20552650846264304) (Fin (- 20552650846264300)) = Fin 4"
proof -
  have "round_double (20552650846264304 + (- 20552650846264300)) = Fin 4"
    by (rule round_doubleI [where k = "2" and n = "4503599627370496"]) (simp_all add: rne_def)
  then show ?thesis
    by (simp add: r_sub_def)
qed

lemma ill_conditioned_19:
  "r_mul round_double (Fin 754074) (Fin (- (4967635823200729 / 137438953472))) = Fin (- (3572430625671641 / 131072))"
proof -
  have "round_double (754074 * (- (4967635823200729 / 137438953472))) = Fin (- (3572430625671641 / 131072))"
    by (rule round_doubleI [where k = "34" and n = "- 7144861251343282"]) (simp_all add: rne_def)
  then show ?thesis
    by (simp add: r_sub_def)
qed

lemma ill_conditioned_20:
  "r_add round_double (Fin 0) (Fin (- (3572430625671641 / 131072))) = Fin (- (3572430625671641 / 131072))"
proof -
  have "round_double (0 + (- (3572430625671641 / 131072))) = Fin (- (3572430625671641 / 131072))"
    by (rule round_doubleI [where k = "34" and n = "- 7144861251343282"]) (simp_all add: rne_def)
  then show ?thesis
    by (simp add: r_sub_def)
qed

lemma ill_conditioned_21:
  "r_mul round_double (Fin 354321274837) (Fin (1385722962267845 / 18014398509481984)) = Fin (3572430625802713 / 131072)"
proof -
  have "round_double (354321274837 * (1385722962267845 / 18014398509481984)) = Fin (3572430625802713 / 131072)"
    by (rule round_doubleI [where k = "34" and n = "7144861251605426"]) (simp_all add: rne_def)
  then show ?thesis
    by (simp add: r_sub_def)
qed

lemma ill_conditioned_22:
  "r_add round_double (Fin (- (3572430625671641 / 131072))) (Fin (3572430625802713 / 131072)) = Fin 1"
proof -
  have "round_double ((- (3572430625671641 / 131072)) + (3572430625802713 / 131072)) = Fin 1"
    by (rule round_doubleI [where k = "0" and n = "4503599627370496"]) (simp_all add: rne_def)
  then show ?thesis
    by (simp add: r_sub_def)
qed

lemma ill_conditioned_inverse:
  "inverse2_r round_double [[num 1, num 469876], [num 754074, num 354321274837]] =
     Some (Mat [[num (7144861251605425 / 262144), num (- (4967635823200729 / 137438953472))],
                [num (- (7972241646188071 / 137438953472)), num (1385722962267845 / 18014398509481984)]])"
  by (simp add: mat2_empty put_def ill_conditioned_0 ill_conditioned_1 ill_conditioned_2 ill_conditioned_3 ill_conditioned_4 ill_conditioned_5 ill_conditioned_6 ill_conditioned_7 ill_conditioned_8 ill_conditioned_9 ill_conditioned_10 ill_conditioned_11 ill_conditioned_12 ill_conditioned_13 ill_conditioned_14 ill_conditioned_15 ill_conditioned_16 ill_conditioned_17 ill_conditioned_18 ill_conditioned_19 ill_conditioned_20 ill_conditioned_21 ill_conditioned_22
      del: r_add.simps r_mul.simps r_div.simps)

section \<open>The inverse under rounding\<close>

lemma calculateDeterminant_r_Mat:
  "calculateDeterminant_r rnd (Mat m) =
     (if length m = 2 then ([], thrown (det2_r rnd m))
      else if length m = 3 then ([], thrown (det3_r rnd m))
      else if length m = 4 then ([], thrown (det4_r rnd m))
      else ([], ReturnsUndefined))"
  by (simp add: calculateDeterminant_r_def)

lemma calculateInverseMatrix_r_Mat:
  "calculateInverseMatrix_r rnd (Mat m) =
     (if length m = 2 then ([], thrown (inverse2_r rnd m))
      else if length m = 3 then ([], thrown (inverse3_r rnd m))
      else if length m = 4 then ([], thrown (inverse4_r rnd m))
      else ([], ReturnsUndefined))"
  by (simp add: calculateInverseMatrix_r_def)

lemma inverse2_r_adjugate:
  "inverse2_r rnd [[a0, a1], [b0, b1]] =
     map_option (\<lambda>dt. Mat (adjugate_over_det_r rnd 2 [[a0, a1], [b0, b1]] dt))
       (det2_r rnd [[a0, a1], [b0, b1]])"
  apply (simp only: adjugate_over_det_r_def upt_small list.map)
  apply (simp add: submatrix_def remove_nth_def lower_det_r_def signed_def mat2_empty put_def)
  done

lemma inverse3_r_adjugate:
  "inverse3_r rnd [[a0, a1, a2], [b0, b1, b2], [c0, c1, c2]] =
     map_option (\<lambda>dt. Mat (adjugate_over_det_r rnd 3 [[a0, a1, a2], [b0, b1, b2], [c0, c1, c2]] dt))
       (det3_r rnd [[a0, a1, a2], [b0, b1, b2], [c0, c1, c2]])"
  apply (simp only: adjugate_over_det_r_def upt_small list.map)
  apply (simp add: submatrix_def remove_nth_def lower_det_r_def signed_def
      mat3_empty put_def minor2_def)
  done

lemma inverse4_r_adjugate:
  "inverse4_r rnd [[a0, a1, a2, a3], [b0, b1, b2, b3], [c0, c1, c2, c3], [d0, d1, d2, d3]] =
     map_option (\<lambda>dt. Mat (adjugate_over_det_r rnd 4
         [[a0, a1, a2, a3], [b0, b1, b2, b3], [c0, c1, c2, c3], [d0, d1, d2, d3]] dt))
       (det4_r rnd [[a0, a1, a2, a3], [b0, b1, b2, b3], [c0, c1, c2, c3], [d0, d1, d2, d3]])"
  apply (simp only: adjugate_over_det_r_def upt_small list.map)
  apply (simp add: submatrix_def remove_nth_def lower_det_r_def signed_def
      mat4_empty put_def minor3_def)
  done

lemma inverse_r_adjugate:
  assumes "d = 2 \<or> d = 3 \<or> d = 4" and "square d m"
    and "calculateDeterminant_r rnd (Mat m) = ([], Returns dt)"
  shows "calculateInverseMatrix_r rnd (Mat m) =
           ([], Returns (Mat (adjugate_over_det_r rnd d m dt)))"
proof -
  consider "d = 2" | "d = 3" | "d = 4" using assms(1) by blast
  then show ?thesis
  proof cases
    case 1
    with assms(2) obtain x0 x1 y0 y1 where m: "m = [[x0, x1], [y0, y1]]"
      using square2 by blast
    with assms(3) have "det2_r rnd m = Some dt"
      by (simp add: calculateDeterminant_r_Mat)
    with 1 show ?thesis
      unfolding m calculateInverseMatrix_r_Mat inverse2_r_adjugate by simp
  next
    case 2
    with assms(2) have "square 3 m" by simp
    from square3 [OF this] obtain x0 x1 x2 y0 y1 y2 z0 z1 z2
      where m: "m = [[x0, x1, x2], [y0, y1, y2], [z0, z1, z2]]"
      by (elim exE) (rule that)
    with assms(3) have "det3_r rnd m = Some dt"
      by (simp add: calculateDeterminant_r_Mat del: det3_r.simps)
    with 2 show ?thesis
      unfolding m calculateInverseMatrix_r_Mat inverse3_r_adjugate by simp
  next
    case 3
    with assms(2) have "square 4 m" by simp
    from square4 [OF this] obtain x0 x1 x2 x3 y0 y1 y2 y3 z0 z1 z2 z3 w0 w1 w2 w3
      where m: "m = [[x0, x1, x2, x3], [y0, y1, y2, y3], [z0, z1, z2, z3], [w0, w1, w2, w3]]"
      by (elim exE) (rule that)
    with assms(3) have "det4_r rnd m = Some dt"
      by (simp add: calculateDeterminant_r_Mat del: det4_r.simps)
    with 3 show ?thesis
      unfolding m calculateInverseMatrix_r_Mat inverse4_r_adjugate by simp
  qed
qed

lemma unrounded_right_inverse:
  assumes "d = 2 \<or> d = 3 \<or> d = 4" and "square d m"
    and "calculateDeterminant (Mat m) = ([], Returns (Fin r))" and "r \<noteq> 0"
  shows "linearMultiply (Mat m) (Mat (adjugate_over_det d m (Fin r))) =
           ([], Returns (Mat (identity_rows d)))"
proof -
  consider "d = 2" | "d = 3" | "d = 4" using assms(1) by blast
  then show ?thesis
  proof cases
    case 1
    with assms have "square 2 m" "det2 m = Some (Fin r)"
      by (simp_all add: calculateDeterminant_Mat square_length)
    from inverse_identity2 [OF this assms(4)] 1 show ?thesis
      by (simp add: identity_rows_small)
  next
    case 2
    with assms have "square 3 m" "det3 m = Some (Fin r)"
      by (simp_all add: calculateDeterminant_Mat square_length)
    from inverse_identity3 [OF this assms(4)] 2 show ?thesis
      by (simp add: identity_rows_small)
  next
    case 3
    with assms have "square 4 m" "det4 m = Some (Fin r)"
      by (simp_all add: calculateDeterminant_Mat square_length)
    from inverse_identity4 [OF this assms(4)] 3 show ?thesis
      by (simp add: identity_rows_small)
  qed
qed

text \<open>
  \<^bold>\<open>C1\<close>. For a tagged matrix of \<open>d\<close> rows and \<open>d\<close> columns, \<open>d\<close> being 2, 3 or 4,
  and whatever the rounding of the arithmetic: when \<open>calculateDeterminant\<close> returns a
  determinant other than zero, \<open>calculateInverseMatrix\<close> returns, with no diagnostic, the
  adjugate (the matrix of signed cofactor determinants, computed with the same rounded
  operations) divided by that determinant. When no operation rounds and the determinant
  is a finite number other than zero, \<open>linearMultiply\<close> of the matrix with that inverse
  is exactly the identity matrix of dimension \<open>d\<close>. For the arithmetic of doubles no
  tolerance is proved, and none near \<open>1e-6\<close> holds, as the matrix after the instances
  shows.
\<close>

theorem inverse_is_rounded_adjugate_and_unrounded_right_inverse:
  assumes "d = 2 \<or> d = 3 \<or> d = 4" and "square d m"
  shows "(calculateDeterminant_r rnd (Mat m) = ([], Returns dt) \<and> dt \<noteq> Fin 0 \<longrightarrow>
            calculateInverseMatrix_r rnd (Mat m) =
              ([], Returns (Mat (adjugate_over_det_r rnd d m dt)))) \<and>
         (calculateDeterminant_r Fin (Mat m) = ([], Returns (Fin r)) \<and> r \<noteq> 0 \<longrightarrow>
            calculateInverseMatrix_r Fin (Mat m) =
              ([], Returns (Mat (adjugate_over_det_r Fin d m (Fin r)))) \<and>
            linearMultiply_r Fin (Mat m) (Mat (adjugate_over_det_r Fin d m (Fin r))) =
              ([], Returns (Mat (identity_rows d))))"
proof (intro conjI impI)
  assume "calculateDeterminant_r rnd (Mat m) = ([], Returns dt) \<and> dt \<noteq> Fin 0"
  then show "calculateInverseMatrix_r rnd (Mat m) =
      ([], Returns (Mat (adjugate_over_det_r rnd d m dt)))"
    using inverse_r_adjugate [OF assms] by blast
next
  assume "calculateDeterminant_r Fin (Mat m) = ([], Returns (Fin r)) \<and> r \<noteq> 0"
  then show "calculateInverseMatrix_r Fin (Mat m) =
      ([], Returns (Mat (adjugate_over_det_r Fin d m (Fin r))))"
    using inverse_r_adjugate [OF assms] by blast
next
  assume "calculateDeterminant_r Fin (Mat m) = ([], Returns (Fin r)) \<and> r \<noteq> 0"
  then have "calculateDeterminant (Mat m) = ([], Returns (Fin r))" and "r \<noteq> 0"
    by (simp_all add: calculateDeterminant_r_exact)
  from unrounded_right_inverse [OF assms this]
  show "linearMultiply_r Fin (Mat m) (Mat (adjugate_over_det_r Fin d m (Fin r))) =
      ([], Returns (Mat (identity_rows d)))"
    by (simp add: linearMultiply_r_exact adjugate_over_det_r_exact)
qed

lemma thirds_0:
  "r_mul round_double (Fin 1) (Fin 4) = Fin 4"
proof -
  have "round_double (1 * 4) = Fin 4"
    by (rule round_doubleI [where k = "2" and n = "4503599627370496"]) (simp_all add: rne_def)
  then show ?thesis
    by (simp add: r_sub_def)
qed

lemma thirds_1:
  "r_mul round_double (Fin 1) (Fin 1) = Fin 1"
proof -
  have "round_double (1 * 1) = Fin 1"
    by (rule round_doubleI [where k = "0" and n = "4503599627370496"]) (simp_all add: rne_def)
  then show ?thesis
    by (simp add: r_sub_def)
qed

lemma thirds_2:
  "r_sub round_double (Fin 4) (Fin 1) = Fin 3"
proof -
  have "round_double (4 - 1) = Fin 3"
    by (rule round_doubleI [where k = "1" and n = "6755399441055744"]) (simp_all add: rne_def)
  then show ?thesis
    by (simp add: r_sub_def)
qed

lemma thirds_3:
  "r_div round_double (Fin 4) (Fin 3) = Fin (6004799503160661 / 4503599627370496)"
proof -
  have "round_double (4 / 3) = Fin (6004799503160661 / 4503599627370496)"
    by (rule round_doubleI [where k = "0" and n = "6004799503160661"]) (simp_all add: rne_def)
  then show ?thesis
    by (simp add: r_sub_def)
qed

lemma thirds_4:
  "r_div round_double (Fin (- 1)) (Fin 3) = Fin (- (6004799503160661 / 18014398509481984))"
proof -
  have "round_double ((- 1) / 3) = Fin (- (6004799503160661 / 18014398509481984))"
    by (rule round_doubleI [where k = "- 2" and n = "- 6004799503160661"]) (simp_all add: rne_def)
  then show ?thesis
    by (simp add: r_sub_def)
qed

lemma thirds_5:
  "r_div round_double (Fin 1) (Fin 3) = Fin (6004799503160661 / 18014398509481984)"
proof -
  have "round_double (1 / 3) = Fin (6004799503160661 / 18014398509481984)"
    by (rule round_doubleI [where k = "- 2" and n = "6004799503160661"]) (simp_all add: rne_def)
  then show ?thesis
    by (simp add: r_sub_def)
qed

lemma thirds_determinant:
  "calculateDeterminant_r round_double (Mat [[num 1, num 1], [num 1, num 4]]) = ([], Returns (Fin 3))"
  by (simp add: calculateDeterminant_r_Mat thirds_0 thirds_1 thirds_2 thirds_3 thirds_4 thirds_5
      del: r_add.simps r_mul.simps r_div.simps)

lemma thirds_adjugate:
  "adjugate_over_det_r round_double 2 [[num 1, num 1], [num 1, num 4]] (Fin 3) =
     [[num (6004799503160661 / 4503599627370496), num (- (6004799503160661 / 18014398509481984))],
      [num (- (6004799503160661 / 18014398509481984)), num (6004799503160661 / 18014398509481984)]]"
  apply (simp only: adjugate_over_det_r_def upt_small list.map)
  apply (simp add: submatrix_def remove_nth_def lower_det_r_def signed_def thirds_0 thirds_1 thirds_2 thirds_3 thirds_4 thirds_5
      del: r_add.simps r_mul.simps r_div.simps)
  done

lemma thirds_unrounded:
  "calculateDeterminant_r Fin (Mat [[num 1, num 1], [num 1, num 4]]) = ([], Returns (Fin 3))"
  "adjugate_over_det_r Fin 2 [[num 1, num 1], [num 1, num 4]] (Fin 3) =
     [[num (4 / 3), num (- (1 / 3))], [num (- (1 / 3)), num (1 / 3)]]"
   apply (simp add: calculateDeterminant_r_Mat js_sub_def)
  apply (simp only: adjugate_over_det_r_def upt_small list.map)
  apply (simp add: submatrix_def remove_nth_def lower_det_def signed_def)
  done

theorem inverse_is_rounded_adjugate_and_unrounded_right_inverse_witness:
  "calculateDeterminant_r round_double (Mat [[num 1, num 1], [num 1, num 4]]) = ([], Returns (Fin 3)) \<and>
   calculateInverseMatrix_r round_double (Mat [[num 1, num 1], [num 1, num 4]]) =
     ([], Returns (Mat [[num (6004799503160661 / 4503599627370496), num (- (6004799503160661 / 18014398509481984))],
                        [num (- (6004799503160661 / 18014398509481984)), num (6004799503160661 / 18014398509481984)]])) \<and>
   calculateDeterminant_r Fin (Mat [[num 1, num 1], [num 1, num 4]]) = ([], Returns (Fin 3)) \<and>
   calculateInverseMatrix_r Fin (Mat [[num 1, num 1], [num 1, num 4]]) =
     ([], Returns (Mat [[num (4 / 3), num (- (1 / 3))], [num (- (1 / 3)), num (1 / 3)]])) \<and>
   linearMultiply_r Fin (Mat [[num 1, num 1], [num 1, num 4]])
     (Mat [[num (4 / 3), num (- (1 / 3))], [num (- (1 / 3)), num (1 / 3)]]) =
     ([], Returns (Mat [[num 1, num 0], [num 0, num 1]])) \<and>
   calculateDeterminant_r Fin
     (Mat [[num 1, num 2, num 3, num 4], [num 0, num 1, num 5, num 2],
          [num 2, num 0, num 1, num 1], [num 7, num 1, num 0, num 3]]) =
     ([], Returns (Fin (- 29))) \<and>
   (\<exists>inv. calculateInverseMatrix_r Fin
     (Mat [[num 1, num 2, num 3, num 4], [num 0, num 1, num 5, num 2],
          [num 2, num 0, num 1, num 1], [num 7, num 1, num 0, num 3]]) =
       ([], Returns (Mat inv)) \<and>
     linearMultiply_r Fin
     (Mat [[num 1, num 2, num 3, num 4], [num 0, num 1, num 5, num 2],
          [num 2, num 0, num 1, num 1], [num 7, num 1, num 0, num 3]])
     (Mat inv) =
       ([], Returns
     (Mat [[num 1, num 0, num 0, num 0], [num 0, num 1, num 0, num 0],
          [num 0, num 0, num 1, num 0], [num 0, num 0, num 0, num 1]])))"
proof -
  have sq: "square 2 [[num 1, num 1], [num 1, num 4]]"
    by (simp add: square_def)
  have two: "(2::nat) = 2 \<or> (2::nat) = 3 \<or> (2::nat) = 4" by simp
  have nz: "Fin 3 \<noteq> Fin 0" "(3::real) \<noteq> 0" by simp_all
  have d4: "calculateDeterminant_r Fin
     (Mat [[num 1, num 2, num 3, num 4], [num 0, num 1, num 5, num 2],
          [num 2, num 0, num 1, num 1], [num 7, num 1, num 0, num 3]]) =
     ([], Returns (Fin (- 29)))"
    by (simp add: calculateDeterminant_r_Mat js_sub_def minor3_def)
  have sq4: "square 4 [[num 1, num 2, num 3, num 4], [num 0, num 1, num 5, num 2],
          [num 2, num 0, num 1, num 1], [num 7, num 1, num 0, num 3]]"
    by (simp add: square_def)
  have four: "(4::nat) = 2 \<or> (4::nat) = 3 \<or> (4::nat) = 4" by simp
  have nz4: "(- 29::real) \<noteq> 0" by simp
  note small = inverse_is_rounded_adjugate_and_unrounded_right_inverse
    [OF two sq, of round_double "Fin 3" "3"]
  from small thirds_determinant nz(1)
  have rounded: "calculateInverseMatrix_r round_double (Mat [[num 1, num 1], [num 1, num 4]]) =
     ([], Returns (Mat [[num (6004799503160661 / 4503599627370496), num (- (6004799503160661 / 18014398509481984))],
                        [num (- (6004799503160661 / 18014398509481984)), num (6004799503160661 / 18014398509481984)]]))"
    unfolding thirds_adjugate by blast
  from small thirds_unrounded(1) nz(2)
  have unrounded: "calculateInverseMatrix_r Fin (Mat [[num 1, num 1], [num 1, num 4]]) =
     ([], Returns (Mat [[num (4 / 3), num (- (1 / 3))], [num (- (1 / 3)), num (1 / 3)]])) \<and>
   linearMultiply_r Fin (Mat [[num 1, num 1], [num 1, num 4]])
     (Mat [[num (4 / 3), num (- (1 / 3))], [num (- (1 / 3)), num (1 / 3)]]) =
     ([], Returns (Mat [[num 1, num 0], [num 0, num 1]]))"
    unfolding thirds_unrounded(2) by (simp add: identity_rows_small mat2_empty)
  note big = inverse_is_rounded_adjugate_and_unrounded_right_inverse
    [OF four sq4, of Fin "Fin (- 29)" "- 29"]
  from big d4 nz4
  have large: "\<exists>inv. calculateInverseMatrix_r Fin
     (Mat [[num 1, num 2, num 3, num 4], [num 0, num 1, num 5, num 2],
          [num 2, num 0, num 1, num 1], [num 7, num 1, num 0, num 3]]) =
       ([], Returns (Mat inv)) \<and>
     linearMultiply_r Fin
     (Mat [[num 1, num 2, num 3, num 4], [num 0, num 1, num 5, num 2],
          [num 2, num 0, num 1, num 1], [num 7, num 1, num 0, num 3]])
     (Mat inv) =
       ([], Returns
     (Mat [[num 1, num 0, num 0, num 0], [num 0, num 1, num 0, num 0],
          [num 0, num 0, num 1, num 0], [num 0, num 0, num 0, num 1]]))"
    by (simp add: identity_rows_small mat4_empty)
  from thirds_determinant rounded thirds_unrounded(1) unrounded d4 large show ?thesis
    by blast
qed

text \<open>
  \<^bold>\<open>C1\<close> does not extend to double precision within a tolerance. The matrix with the
  rows \<open>[1, 469876]\<close> and \<open>[754074, 354321274837]\<close> has the determinant 13, which
  \<open>calculateDeterminant\<close> computes without a rounding error. The four entries of the
  inverse are each rounded in the division by 13, and \<open>linearMultiply\<close> of the matrix
  with that inverse has the rows \<open>[1, 0]\<close> and \<open>[4, 1]\<close>: where the identity has 0 in row 1,
  column 0, the product has 4.
\<close>

theorem inverse_product_not_identity_in_doubles:
  "square 2 [[num 1, num 469876], [num 754074, num 354321274837]] \<and>
   calculateDeterminant_r round_double (Mat [[num 1, num 469876], [num 754074, num 354321274837]]) =
     ([], Returns (Fin 13)) \<and>
   calculateInverseMatrix_r round_double (Mat [[num 1, num 469876], [num 754074, num 354321274837]]) =
     ([], Returns (Mat [[num (7144861251605425 / 262144), num (- (4967635823200729 / 137438953472))],
                        [num (- (7972241646188071 / 137438953472)), num (1385722962267845 / 18014398509481984)]])) \<and>
   linearMultiply_r round_double (Mat [[num 1, num 469876], [num 754074, num 354321274837]])
     (Mat [[num (7144861251605425 / 262144), num (- (4967635823200729 / 137438953472))],
           [num (- (7972241646188071 / 137438953472)), num (1385722962267845 / 18014398509481984)]]) =
     ([], Returns (Mat [[num 1, num 0], [num 4, num 1]])) \<and>
   Mat [[num 1, num 0], [num 4, num 1]] \<noteq> mat2 []"
proof -
  have sq: "square 2 [[num 1, num 469876], [num 754074, num 354321274837]]"
    by (simp add: square_def)
  have dt: "det2_r round_double [[num 1, num 469876], [num 754074, num 354321274837]] = Some (Fin 13)"
    by (simp add: ill_conditioned_0 ill_conditioned_1 ill_conditioned_2 ill_conditioned_3 ill_conditioned_4 ill_conditioned_5 ill_conditioned_6 ill_conditioned_7 ill_conditioned_8 ill_conditioned_9 ill_conditioned_10 ill_conditioned_11 ill_conditioned_12 ill_conditioned_13 ill_conditioned_14 ill_conditioned_15 ill_conditioned_16 ill_conditioned_17 ill_conditioned_18 ill_conditioned_19 ill_conditioned_20 ill_conditioned_21 ill_conditioned_22
        del: r_add.simps r_mul.simps r_div.simps)
  have pr: "linearMultiply_r round_double (Mat [[num 1, num 469876], [num 754074, num 354321274837]])
     (Mat [[num (7144861251605425 / 262144), num (- (4967635823200729 / 137438953472))],
           [num (- (7972241646188071 / 137438953472)), num (1385722962267845 / 18014398509481984)]]) =
     ([], Returns (Mat [[num 1, num 0], [num 4, num 1]]))"
    by (simp add: linearMultiply_r_def sum_upto_r_def ill_conditioned_0 ill_conditioned_1 ill_conditioned_2 ill_conditioned_3 ill_conditioned_4 ill_conditioned_5 ill_conditioned_6 ill_conditioned_7 ill_conditioned_8 ill_conditioned_9 ill_conditioned_10 ill_conditioned_11 ill_conditioned_12 ill_conditioned_13 ill_conditioned_14 ill_conditioned_15 ill_conditioned_16 ill_conditioned_17 ill_conditioned_18 ill_conditioned_19 ill_conditioned_20 ill_conditioned_21 ill_conditioned_22
        del: r_add.simps r_mul.simps r_div.simps)
  have ne: "Mat [[num 1, num 0], [num 4, num 1]] \<noteq> mat2 []"
    by (simp add: mat2_empty)
  from sq dt ill_conditioned_inverse pr ne show ?thesis
    by (simp add: calculateDeterminant_r_def calculateInverseMatrix_r_def
        del: det2_r.simps inverse2_r.simps)
qed

text \<open>
  The determinant has to be finite as well. The matrix with the rows \<open>[Infinity, 0]\<close> and
  \<open>[0, 1]\<close> has the determinant \<open>Infinity\<close>, which is other than zero; its inverse has the
  rows \<open>[0, 0]\<close> and \<open>[0, NaN]\<close>, and the product with it is not the identity.
\<close>

lemma inverse_fails_on_infinite_determinant:
  "square 2 [[Number PInf, num 0], [num 0, num 1]] \<and>
   calculateDeterminant (Mat [[Number PInf, num 0], [num 0, num 1]]) = ([], Returns PInf) \<and>
   calculateInverseMatrix (Mat [[Number PInf, num 0], [num 0, num 1]]) =
     ([], Returns (Mat [[num 0, num 0], [num 0, Number NaN]])) \<and>
   linearMultiply (Mat [[Number PInf, num 0], [num 0, num 1]])
     (Mat [[num 0, num 0], [num 0, Number NaN]]) =
     ([], Returns (Mat [[Number NaN, Number NaN], [num 0, Number NaN]])) \<and>
   linearMultiply (Mat [[Number PInf, num 0], [num 0, num 1]])
     (Mat [[num 0, num 0], [num 0, Number NaN]]) \<noteq> ([], Returns (mat2 []))"
  by (simp add: square_def calculateDeterminant_Mat calculateInverseMatrix_Mat js_sub_def
      linearMultiply_def mat2_empty sum_upto_def inf_of_def put_def)

section \<open>Scaling\<close>

text \<open>
  \<^bold>\<open>C2\<close>. On a vector \<open>linearScale\<close> returns the vector of the components multiplied
  by \<open>s\<close>. On a tagged matrix it does not scale the entries: each row is converted to a
  number as a whole, so \<^verbatim>\<open>linearScale(2, mat2())\<close> is the untagged array
  \<^verbatim>\<open>[NaN, NaN]\<close>.
\<close>

theorem linearScale_vector_scaled_matrix_not:
  "linearScale s (Inr (Vec xs)) = ([], Returns (Vec (map (\<lambda>x. Number (js_mul s (to_num x))) xs))) \<and>
   linearScale (Fin 2) (Inr (mat2 [])) = ([], Returns (Vec [Number NaN, Number NaN]))"
  by (simp add: linearScale_def mat2_empty comp_def)

section \<open>The identity constructors\<close>

text \<open>
  \<^bold>\<open>C4\<close>. \<open>mat2\<close>, \<open>mat3\<close> and \<open>mat4\<close> without arguments return the
  tagged identity matrix of their dimension, and \<open>linearMultiply\<close> of that identity with
  a tagged matrix of the same dimension whose entries are all finite numbers returns the
  matrix unchanged.
\<close>

theorem identity_constructors_and_left_identity:
  "mat2 [] = Mat (identity_rows 2) \<and> mat3 [] = Mat (identity_rows 3) \<and>
   mat4 [] = Mat (identity_rows 4) \<and>
   (finite_matrix 2 m \<longrightarrow> linearMultiply (mat2 []) (Mat m) = ([], Returns (Mat m))) \<and>
   (finite_matrix 3 m \<longrightarrow> linearMultiply (mat3 []) (Mat m) = ([], Returns (Mat m))) \<and>
   (finite_matrix 4 m \<longrightarrow> linearMultiply (mat4 []) (Mat m) = ([], Returns (Mat m)))"
proof -
  have "linearMultiply (mat2 []) (Mat m) = ([], Returns (Mat m))" if "finite_matrix 2 m"
    using finite_matrix2 [OF that] multiply_identity2 by (elim exE) simp
  moreover have "linearMultiply (mat3 []) (Mat m) = ([], Returns (Mat m))" if "finite_matrix 3 m"
    using finite_matrix3 [OF that] multiply_identity3 by (elim exE) simp
  moreover have "linearMultiply (mat4 []) (Mat m) = ([], Returns (Mat m))" if "finite_matrix 4 m"
    using finite_matrix4 [OF that] multiply_identity4 by (elim exE) simp
  ultimately show ?thesis
    by (simp add: identity_rows_small)
qed

theorem identity_constructors_and_left_identity_witness:
  "finite_matrix 2 [[num 1, num 2], [num 3, num 4]] \<and>
   linearMultiply (mat2 []) (Mat [[num 1, num 2], [num 3, num 4]]) =
     ([], Returns (Mat [[num 1, num 2], [num 3, num 4]])) \<and>
   mat2 [] = Mat [[num 1, num 0], [num 0, num 1]] \<and>
   mat3 [] = Mat [[num 1, num 0, num 0], [num 0, num 1, num 0], [num 0, num 0, num 1]] \<and>
   mat4 [] = Mat [[num 1, num 0, num 0, num 0], [num 0, num 1, num 0, num 0],
                  [num 0, num 0, num 1, num 0], [num 0, num 0, num 0, num 1]]"
proof -
  have f: "finite_matrix 2 [[num 1, num 2], [num 3, num 4]]"
    by (simp add: finite_matrix_def square_def)
  with identity_constructors_and_left_identity [of "[[num 1, num 2], [num 3, num 4]]"]
  have "linearMultiply (mat2 []) (Mat [[num 1, num 2], [num 3, num 4]]) =
     ([], Returns (Mat [[num 1, num 2], [num 3, num 4]]))"
    by blast
  with f show ?thesis
    by (simp only: mat2_empty mat3_empty mat4_empty simp_thms)
qed

text \<open>
  \<^bold>\<open>C4\<close> does not extend to entries that are not finite. With the rows
  \<open>[Infinity, 0]\<close> and \<open>[0, 1]\<close> the product with the identity has NaN in row 1,
  column 0, from \<open>0 * Infinity\<close>.
\<close>

theorem left_identity_fails_on_infinite_entry:
  "square 2 [[Number PInf, num 0], [num 0, num 1]] \<and>
   linearMultiply (mat2 []) (Mat [[Number PInf, num 0], [num 0, num 1]]) =
     ([], Returns (Mat [[Number PInf, num 0], [Number NaN, num 1]])) \<and>
   linearMultiply (mat2 []) (Mat [[Number PInf, num 0], [num 0, num 1]]) \<noteq>
     ([], Returns (Mat [[Number PInf, num 0], [num 0, num 1]]))"
  by (simp add: square_def linearMultiply_def mat2_empty sum_upto_def inf_of_def)

section \<open>Rotation about the z axis\<close>

lemma mat4_sixteen:
  "mat4 (map Scalar [a0, a1, a2, a3, b0, b1, b2, b3, c0, c1, c2, c3, d0, d1, d2, d3]) =
     Mat [[a0, a1, a2, a3], [b0, b1, b2, b3], [c0, c1, c2, c3], [d0, d1, d2, d3]]"
  by (simp add: mat4_def objectToArray_def vec4_def)

text \<open>
  \<^bold>\<open>C8\<close>. \<open>rotateZ(0)\<close> is the identity matrix of dimension four; \<open>rotateZ(90)\<close>
  maps the vector \<open>[1, 0, 0, 1]\<close> to \<open>[0, 1, 0, 1]\<close> (exactly, in exact arithmetic), the
  counter-clockwise quarter turn of a right-handed rotation; and the entries of
  \<open>rotateZ(t)\<close> are the cosine and sine of \<open>t * pi / 180\<close>, the angle being in degrees.
\<close>

theorem rotateZ_degrees_quarter_turn:
  "rotateZ (Fin 0) = mat4 [] \<and>
   linearMultiply (rotateZ (Fin 90)) (Vec [num 1, num 0, num 0, num 1]) =
     ([], Returns (Vec [num 0, num 1, num 0, num 1])) \<and>
   rotateZ (Fin t) =
     Mat [[num (cos (t * pi / 180)), num (- sin (t * pi / 180)), num 0, num 0],
          [num (sin (t * pi / 180)), num (cos (t * pi / 180)), num 0, num 0],
          [num 0, num 0, num 1, num 0],
          [num 0, num 0, num 0, num 1]]"
  apply (simp only: rotateZ_def Let_def mat4_sixteen)
  apply (simp add: degreesToRadians_def mat4_empty linearMultiply_def sum_upto_def)
  done

section \<open>Flattening\<close>

lemma store_all_exact: "n = length xs \<Longrightarrow> store_all f n xs = map (\<lambda>x. f (to_num x)) xs"
  by (simp add: store_all_def)

lemma square_row: "square d m \<Longrightarrow> i < d \<Longrightarrow> length (m ! i) = d"
  by (simp add: square_def list_all_length)

lemma transposeMatrix_square:
  assumes "square d m"
  shows "transposeMatrix (Mat m) =
           ([], Returns (Mat (map (\<lambda>i. map (\<lambda>j. m ! j ! i) [0..<d]) [0..<d])))"
proof -
  from assms have len: "length m = d" and rows: "\<forall>r \<in> set m. length r = d"
    by (simp_all add: square_def list_all_iff)
  then have no: "\<not> list_ex (\<lambda>r. length m < length r) m"
    by (simp add: list_ex_iff)
  have "map (\<lambda>i. map (\<lambda>j. cell (m ! j) i) [0..<length (m ! i)]) [0..<length m] =
        map (\<lambda>i. map (\<lambda>j. m ! j ! i) [0..<d]) [0..<d]"
    using len square_row [OF assms] by (auto simp: cell_def)
  with no show ?thesis
    by (simp add: transposeMatrix_def)
qed

lemma transpose_square:
  assumes "square d m"
  shows "transpose m = map (\<lambda>i. map (\<lambda>j. m ! j ! i) [0..<d]) [0..<d]"
proof (cases "m = []")
  case True
  with assms show ?thesis by (simp add: square_def)
next
  case False
  from assms have "length m = d" by (simp add: square_def)
  with square_row [OF assms] False show ?thesis
    using transpose_rectangle [of m d] by simp
qed

lemma concat_nth_uniform:
  "\<forall>r \<in> set t. length r = d \<Longrightarrow> i < length t \<Longrightarrow> j < d \<Longrightarrow> concat t ! (i * d + j) = t ! i ! j"
proof (induction t arbitrary: i)
  case Nil
  then show ?case by simp
next
  case (Cons r t)
  show ?case
  proof (cases i)
    case 0
    with Cons.prems show ?thesis by (simp add: nth_append)
  next
    case (Suc k)
    with Cons.prems have "concat t ! (k * d + j) = t ! k ! j"
      by (intro Cons.IH) simp_all
    with Suc Cons.prems show ?thesis
      by (simp add: nth_append add.assoc)
  qed
qed

text \<open>
  \<^bold>\<open>C5\<close>. \<open>linearFlatten\<close> of a vector is the sequence of its components in order,
  each stored as a 32-bit float, so of the same length. \<open>linearFlatten\<close> of a tagged
  matrix of \<open>d\<close> rows and \<open>d\<close> columns has length \<open>d * d\<close> and is the transpose read row
  by row: position \<open>c * d + r\<close> holds the entry of row \<open>r\<close> and column \<open>c\<close>, which is the
  matrix in column-major order.
\<close>

theorem flatten_vector_in_order_matrix_column_major:
  "linearFlatten fround (Vec u) = Returns (map (\<lambda>x. fround (to_num x)) u) \<and>
   (square d m \<longrightarrow>
      (\<exists>fl. linearFlatten fround (Mat m) = Returns fl \<and> length fl = d * d \<and>
         fl = map (\<lambda>x. fround (to_num x)) (concat (transpose m)) \<and>
         (\<forall>r < d. \<forall>c < d. fl ! (c * d + r) = fround (to_num (m ! r ! c)))))"
proof -
  have vec: "linearFlatten fround (Vec u) = Returns (map (\<lambda>x. fround (to_num x)) u)"
    by (simp add: linearFlatten_def store_all_exact)
  have mat: "\<exists>fl. linearFlatten fround (Mat m) = Returns fl \<and> length fl = d * d \<and>
         fl = map (\<lambda>x. fround (to_num x)) (concat (transpose m)) \<and>
         (\<forall>r < d. \<forall>c < d. fl ! (c * d + r) = fround (to_num (m ! r ! c)))"
    if sq: "square d m"
  proof -
    define t where "t = map (\<lambda>i. map (\<lambda>j. m ! j ! i) [0..<d]) [0..<d]"
    have tr: "transposeMatrix (Mat m) = ([], Returns (Mat t))"
      unfolding t_def by (rule transposeMatrix_square [OF sq])
    have lt: "length t = d" and rows: "\<forall>r \<in> set t. length r = d"
      by (auto simp: t_def)
    have lc: "length (concat t) = d * d"
      by (simp add: t_def length_concat comp_def sum_list_triv)
    have t0: "length (t ! 0) = d" if "t \<noteq> []"
      using that lt rows by (cases t) auto
    have fl: "linearFlatten fround (Mat m) = Returns (map (\<lambda>x. fround (to_num x)) (concat t))"
    proof (cases "t = []")
      case True
      then show ?thesis by (simp add: linearFlatten_def tr)
    next
      case False
      with t0 lt lc show ?thesis
        by (simp add: linearFlatten_def tr store_all_exact)
    qed
    have idx: "map (\<lambda>x. fround (to_num x)) (concat t) ! (c * d + r) = fround (to_num (m ! r ! c))"
      if "r < d" "c < d" for r c
    proof -
      have "c * d + r < d * d"
      proof -
        from that have "c * d + r < c * d + d" by simp
        also have "\<dots> = (Suc c) * d" by simp
        also from that have "\<dots> \<le> d * d" by (metis Suc_leI mult_le_mono1)
        finally show ?thesis .
      qed
      moreover from that rows lt have "concat t ! (c * d + r) = t ! c ! r"
        by (intro concat_nth_uniform) simp_all
      moreover from that have "t ! c ! r = m ! r ! c"
        by (simp add: t_def)
      ultimately show ?thesis
        using lc by simp
    qed
    from fl lc idx show ?thesis
      by (simp add: transpose_square [OF sq] t_def)
  qed
  from vec mat show ?thesis by blast
qed

theorem flatten_vector_in_order_matrix_column_major_witness:
  "square 2 [[num 1, num 2], [num 3, num 4]] \<and>
   linearFlatten (\<lambda>x. x) (Vec [num 5, num 6, num 7]) = Returns [Fin 5, Fin 6, Fin 7] \<and>
   linearFlatten (\<lambda>x. x) (Mat [[num 1, num 2], [num 3, num 4]]) = Returns [Fin 1, Fin 3, Fin 2, Fin 4]"
proof -
  have sq: "square 2 [[num 1, num 2], [num 3, num 4]]"
    by (simp add: square_def)
  have tr: "transpose [[num 1, num 2], [num 3, num 4]] = [[num 1, num 3], [num 2, num 4]]"
    by (simp add: transpose.simps)
  from flatten_vector_in_order_matrix_column_major
    [of "\<lambda>x. x" "[num 5, num 6, num 7]" 2 "[[num 1, num 2], [num 3, num 4]]"] sq tr
  show ?thesis by auto
qed

section \<open>Normalising the zero vector\<close>

lemma sum_upto_Suc: "sum_upto (Suc n) f = js_add (sum_upto n f) (f n)"
  by (simp add: sum_upto_def)

lemma sum_upto_zero: "(\<And>i. i < n \<Longrightarrow> f i = Fin 0) \<Longrightarrow> sum_upto n f = Fin 0"
proof (induction n)
  case 0
  then show ?case by (simp add: sum_upto_def)
next
  case (Suc n)
  then show ?case by (simp add: sum_upto_Suc)
qed

lemma vectorLength_zero: "vectorLength (replicate n (num 0)) = ([], Fin 0)"
proof -
  have "sum_upto n (\<lambda>i. js_mul (rd (replicate n (num 0)) i) (rd (replicate n (num 0)) i)) = Fin 0"
    by (rule sum_upto_zero) (simp add: rd_def cell_def)
  then show ?thesis
    by (simp add: vectorLength_def dotProduct_def)
qed

lemma normalizeVectors_zero:
  "normalizeVectors (Some (replicate n (num 0))) False = ([], Returns (replicate n (Number NaN)))"
  by (simp add: normalizeVectors_def vectorLength_zero Let_def)

lemma rotateMatrix_zero_axis:
  "rotateMatrix angle (Axis [num 0, num 0, num 0]) =
     ([], Returns (Mat [[Number NaN, Number NaN, Number NaN, num 0],
                        [Number NaN, Number NaN, Number NaN, num 0],
                        [Number NaN, Number NaN, Number NaN, num 0],
                        [num 0, num 0, num 0, num 1]]))"
proof -
  have "replicate 3 (num 0) = [num 0, num 0, num 0]"
    by (simp add: numeral_eq_Suc)
  with normalizeVectors_zero [of 3]
  have "normalizeVectors (Some [num 0, num 0, num 0]) False =
             ([], Returns [Number NaN, Number NaN, Number NaN])"
    by (simp add: numeral_eq_Suc)
  then show ?thesis
    by (simp add: rotateMatrix_def Let_def js_sub_def mat4_def objectToArray_def vec4_def)
qed

text \<open>
  \<^bold>\<open>C10\<close>. The length of an all-zero vector is zero, which is finite, so the guard of
  \<open>normalizeVectors\<close> does not fire: no diagnostic is written, every component is divided
  by zero, and the returned vector consists of NaN only. \<open>rotateMatrix\<close> with the axis
  \<open>[0, 0, 0]\<close> then returns, again with no diagnostic and whatever the angle, a matrix
  whose entries computed from the axis (rows 0 to 2 of columns 0 to 2) are all NaN; the
  fourth column and the fourth row keep the constants 0 and 1.
\<close>

theorem zero_vector_normalises_to_NaN_silently:
  "vectorLength (replicate n (num 0)) = ([], Fin 0) \<and> isFinite (Fin 0) \<and>
   normalizeVectors (Some (replicate n (num 0))) False = ([], Returns (replicate n (Number NaN))) \<and>
   rotateMatrix angle (Axis [num 0, num 0, num 0]) =
     ([], Returns (Mat [[Number NaN, Number NaN, Number NaN, num 0],
                        [Number NaN, Number NaN, Number NaN, num 0],
                        [Number NaN, Number NaN, Number NaN, num 0],
                        [num 0, num 0, num 0, num 1]]))"
  by (simp add: vectorLength_zero normalizeVectors_zero rotateMatrix_zero_axis)

text \<open>
  \<^bold>\<open>C10\<close> does not extend to the whole matrix: the rotation with a zero axis is not a
  matrix of NaN entries only. Its fourth column is 0 in rows 0 to 2 and its fourth row is
  \<open>[0, 0, 0, 1]\<close>, as the constructor calls of \<open>rotateMatrix\<close> place them.
\<close>

theorem zero_axis_rotation_keeps_constant_entries:
  "rotateMatrix (Fin 0) (AxisComponents (num 0) (num 0) (num 0)) =
     ([], Returns (Mat [[Number NaN, Number NaN, Number NaN, num 0],
                        [Number NaN, Number NaN, Number NaN, num 0],
                        [Number NaN, Number NaN, Number NaN, num 0],
                        [num 0, num 0, num 0, num 1]])) \<and>
   rd [num 0, num 0, num 0, num 1] 3 = Fin 1 \<and> Fin 1 \<noteq> NaN"
proof -
  have "rotateMatrix (Fin 0) (AxisComponents (num 0) (num 0) (num 0)) =
        rotateMatrix (Fin 0) (Axis [num 0, num 0, num 0])"
    by (simp add: rotateMatrix_def)
  then show ?thesis
    by (simp add: rotateMatrix_zero_axis)
qed

section \<open>The matrix tag and the square shape of results\<close>

lemma length_vec2 [simp]: "length (vec2 args) = 2"
proof -
  define xs where "xs = objectToArray args"
  have "length xs = 0 \<or> length xs = 1 \<or> 2 \<le> length xs"
    by arith
  then show ?thesis
    unfolding vec2_def xs_def [symmetric] by (elim disjE) (simp_all add: Let_def)
qed

lemma length_vec3 [simp]: "length (vec3 args) = 3"
proof -
  define xs where "xs = objectToArray args"
  have "length xs = 0 \<or> length xs = 1 \<or> length xs = 2 \<or> 3 \<le> length xs"
    by arith
  then show ?thesis
    unfolding vec3_def xs_def [symmetric] by (elim disjE) (simp_all add: Let_def)
qed

lemma length_vec4 [simp]: "length (vec4 args) = 4"
proof -
  define xs where "xs = objectToArray args"
  have "length xs = 0 \<or> length xs = 1 \<or> length xs = 2 \<or> length xs = 3 \<or> 4 \<le> length xs"
    by arith
  then show ?thesis
    unfolding vec4_def xs_def [symmetric] by (elim disjE) (simp_all add: Let_def)
qed

lemma tagged_mat2: "tagged 2 (mat2 args)"
  by (simp add: mat2_def Let_def square_def)

lemma tagged_mat3: "tagged 3 (mat3 args)"
  by (simp add: mat3_def Let_def square_def)

lemma tagged_mat4: "tagged 4 (mat4 args)"
  by (simp add: mat4_def Let_def square_def)

lemma square_put_cell: "square d a \<Longrightarrow> square d (put_cell a i j v)"
proof (cases "i < length a")
  case True
  assume "square d a"
  with True show ?thesis
    by (auto simp: square_def put_cell_def list_all_length nth_list_update)
next
  case False
  assume "square d a"
  with False show ?thesis
    by (simp add: put_cell_def not_less list_update_beyond)
qed

lemma square_put: "square d a \<Longrightarrow> square d (put a i j v)"
  by (simp add: put_def square_put_cell)

lemma square_mat2: "square 2 (rows (mat2 []))"
  by (simp add: mat2_empty square_def)

lemma square_mat3: "square 3 (rows (mat3 []))"
  by (simp add: mat3_empty square_def)

lemma square_mat4: "square 4 (rows (mat4 []))"
  by (simp add: mat4_empty square_def)

lemma add_rows_square:
  "length a = length b \<Longrightarrow> map length a = map length b \<Longrightarrow>
     \<exists>r. add_rows a b = Some r \<and> map length r = map length a"
  by (induction a b rule: add_rows.induct) auto

lemma subtract_rows_square:
  "length a = length b \<Longrightarrow> map length a = map length b \<Longrightarrow>
     \<exists>r. subtract_rows a b = Some r \<and> map length r = map length a"
  by (induction a b rule: subtract_rows.induct) auto

lemma square_map_length:
  assumes "square d a"
  shows "map length a = replicate d d"
proof (rule replicate_eqI)
  show "length (map length a) = d"
    using assms by (simp add: square_def)
next
  fix y
  assume "y \<in> set (map length a)"
  with assms show "y = d"
    by (auto simp: square_def list_all_iff)
qed

lemma map_length_square:
  assumes "map length r = map length a" and "square d a"
  shows "square d r"
proof -
  from assms(1) have "length r = length a"
    by (rule map_eq_imp_length_eq)
  moreover have "length x = d" if "x \<in> set r" for x
  proof -
    from that have "length x \<in> set (map length r)" by simp
    with assms(1) have "length x \<in> set (map length a)" by simp
    with assms(2) show ?thesis
      by (auto simp: square_def list_all_iff)
  qed
  ultimately show ?thesis
    using assms(2) by (simp add: square_def list_all_iff)
qed

lemma tagged_addition:
  assumes "square d a" "square d b"
  shows "\<exists>r. linearAddition (Mat a) (Mat b) = ([], Returns r) \<and> tagged d r"
proof -
  from assms have l: "length a = length b"
    by (simp add: square_def)
  from assms have m: "map length a = map length b"
    by (simp add: square_map_length)
  from add_rows_square [OF l m] obtain r where "add_rows a b = Some r" "map length r = map length a"
    by blast
  with assms l show ?thesis
    by (simp add: linearAddition_def map_length_square)
qed

lemma tagged_subtract:
  assumes "square d a" "square d b"
  shows "\<exists>r. linearSubtract (Mat a) (Mat b) = ([], Returns r) \<and> tagged d r"
proof -
  from assms have l: "length a = length b"
    by (simp add: square_def)
  from assms have m: "map length a = map length b"
    by (simp add: square_map_length)
  from subtract_rows_square [OF l m] obtain r
    where "subtract_rows a b = Some r" "map length r = map length a"
    by blast
  with assms l show ?thesis
    by (simp add: linearSubtract_def map_length_square)
qed

lemma tagged_multiply:
  assumes "square d a" "square d b"
  shows "\<exists>r. linearMultiply (Mat a) (Mat b) = ([], Returns r) \<and> tagged d r"
proof -
  from assms have l: "length a = d" "length b = d"
    by (simp_all add: square_def)
  have "\<not> (\<exists>i \<in> set [0..<d]. length (a ! i) \<noteq> length (b ! i))"
    using square_row [OF assms(1)] square_row [OF assms(2)] by simp
  with l show ?thesis
    by (simp add: linearMultiply_def square_def list_all_iff)
qed

lemma tagged_transpose:
  assumes "square d a"
  shows "\<exists>r. transposeMatrix (Mat a) = ([], Returns r) \<and> tagged d r"
  unfolding transposeMatrix_square [OF assms]
  by (simp add: square_def list_all_iff)

lemma tagged_translate: "tagged 4 (translateMatrix p)"
  by (simp add: translateMatrix_def Let_def square_put_cell square_mat4)

lemma tagged_scaling: "tagged 4 (scalingMatrix p)"
  by (simp add: scalingMatrix_def Let_def square_put_cell square_mat4)

lemma tagged_rotateX: "tagged 4 (rotateX t)"
  by (simp add: rotateX_def Let_def tagged_mat4)

lemma tagged_rotateY: "tagged 4 (rotateY t)"
  by (simp add: rotateY_def Let_def tagged_mat4)

lemma tagged_rotateZ: "tagged 4 (rotateZ t)"
  by (simp add: rotateZ_def Let_def tagged_mat4)

lemma tagged_perspective: "tagged 4 (buildPerspectiveMatrix fovY aspect near far)"
  by (simp add: buildPerspectiveMatrix_def Let_def square_put square_mat4)

lemma tagged_orthographic:
  "buildOrthographicMatrix l r b t n f = Returns m \<Longrightarrow> tagged 4 m"
  by (auto simp: buildOrthographicMatrix_def Let_def square_put square_mat4 split: if_splits)

lemma tagged_rotateMatrix:
  "snd (rotateMatrix angle axis) = Returns m \<Longrightarrow> tagged 4 m"
  by (auto simp: rotateMatrix_def Let_def tagged_mat4 split: prod.splits outcome.splits)

lemma tagged_inverse2: "inverse2 m = Some r \<Longrightarrow> tagged 2 r"
  by (induction m rule: inverse2.induct)
     (auto simp: square_put square_mat2 bind_eq_Some_conv)

lemma tagged_inverse3: "inverse3 m = Some r \<Longrightarrow> tagged 3 r"
  by (induction m rule: inverse3.induct)
     (auto simp: Let_def square_put square_mat3 bind_eq_Some_conv simp del: det3.simps det2.simps)

lemma tagged_inverse4: "inverse4 m = Some r \<Longrightarrow> tagged 4 r"
  by (induction m rule: inverse4.induct)
     (auto simp: Let_def square_put square_mat4 bind_eq_Some_conv simp del: det4.simps det3.simps)

lemma tagged_viewMatrixAt:
  "snd (viewMatrixAt eye at_arg up) = Returns m \<Longrightarrow> tagged 4 m"
  by (auto simp: viewMatrixAt_def Let_def tagged_mat4
      split: if_splits prod.splits option.splits)

lemma tagged_calculateInverseMatrix:
  assumes "snd (calculateInverseMatrix v) = Returns r"
  shows "tagged (len v) r"
proof -
  consider "len v = 2" | "len v = 3" | "len v = 4" | "len v \<noteq> 2 \<and> len v \<noteq> 3 \<and> len v \<noteq> 4"
    by blast
  then show ?thesis
  proof cases
    case 1
    with assms obtain rs where "inverse2 rs = Some r"
      by (auto simp: calculateInverseMatrix_def Let_def bind_eq_Some_conv)
    with 1 show ?thesis by (simp add: tagged_inverse2)
  next
    case 2
    with assms obtain rs where "inverse3 rs = Some r"
      by (auto simp: calculateInverseMatrix_def Let_def bind_eq_Some_conv)
    with 2 show ?thesis by (simp add: tagged_inverse3)
  next
    case 3
    with assms obtain rs where "inverse4 rs = Some r"
      by (auto simp: calculateInverseMatrix_def Let_def bind_eq_Some_conv)
    with 3 show ?thesis by (simp add: tagged_inverse4)
  next
    case 4
    with assms show ?thesis
      by (simp add: calculateInverseMatrix_def Let_def)
  qed
qed

lemma transposeMatrix_len:
  "transposeMatrix v = (msgs, Returns t) \<Longrightarrow> len t = len v"
  by (cases v) (auto simp: transposeMatrix_def split: if_splits)

lemma tagged_normalizeMatrix:
  assumes "snd (normalizeMatrix v flag) = Returns r"
  shows "if flag then tagged 3 r else tagged (len v) r"
proof (cases flag)
  case True
  have "square 3 (foldl (\<lambda>b i. foldl (\<lambda>b j. put_cell b i j (cell (ar ! i) j)) b [0..<3])
                    (rows (mat3 [])) [0..<3])" for ar
    by (simp only: upt_small foldl.simps square_put_cell square_mat3)
  with assms True show ?thesis
    by (auto simp: normalizeMatrix_def split: prod.splits outcome.splits lin.splits if_splits)
next
  case False
  with assms obtain m1 t where t: "transposeMatrix v = (m1, Returns t)"
    and "snd (calculateInverseMatrix t) = Returns r"
    by (auto simp: normalizeMatrix_def split: prod.splits outcome.splits)
  then have "tagged (len t) r"
    by (simp add: tagged_calculateInverseMatrix)
  with transposeMatrix_len [OF t] False show ?thesis by simp
qed

text \<open>
  \<^bold>\<open>C9\<close>. Every operation that produces a matrix returns a tagged value with as many
  elements in each row as it has rows: the constructors for any arguments; the sum, the
  difference, the product and the transpose of tagged square matrices; the translation,
  scaling, rotation and perspective builders; the axis rotation, the view matrix and the
  orthographic projection whenever they return a value; the inverses whenever they
  return a value; and the normal matrix, of dimension three under its flag.
\<close>

theorem matrix_results_keep_tag_and_shape:
  "tagged 2 (mat2 args) \<and> tagged 3 (mat3 args) \<and> tagged 4 (mat4 args) \<and>
   (square d a \<and> square d b \<longrightarrow>
      (\<exists>r. linearAddition (Mat a) (Mat b) = ([], Returns r) \<and> tagged d r) \<and>
      (\<exists>r. linearSubtract (Mat a) (Mat b) = ([], Returns r) \<and> tagged d r) \<and>
      (\<exists>r. linearMultiply (Mat a) (Mat b) = ([], Returns r) \<and> tagged d r) \<and>
      (\<exists>r. transposeMatrix (Mat a) = ([], Returns r) \<and> tagged d r)) \<and>
   tagged 4 (translateMatrix p) \<and> tagged 4 (scalingMatrix q) \<and>
   tagged 4 (rotateX theta) \<and> tagged 4 (rotateY theta) \<and> tagged 4 (rotateZ theta) \<and>
   tagged 4 (buildPerspectiveMatrix fovY aspect near far) \<and>
   (\<forall>r. snd (rotateMatrix angle axis) = Returns r \<longrightarrow> tagged 4 r) \<and>
   (\<forall>r. snd (viewMatrixAt eye at_arg up) = Returns r \<longrightarrow> tagged 4 r) \<and>
   (\<forall>r. buildOrthographicMatrix left right bottom top' near far = Returns r \<longrightarrow> tagged 4 r) \<and>
   (\<forall>r. inverse2 ma = Some r \<longrightarrow> tagged 2 r) \<and>
   (\<forall>r. inverse3 mb = Some r \<longrightarrow> tagged 3 r) \<and>
   (\<forall>r. inverse4 mc = Some r \<longrightarrow> tagged 4 r) \<and>
   (\<forall>r. snd (calculateInverseMatrix v) = Returns r \<longrightarrow> tagged (len v) r) \<and>
   (\<forall>r. snd (normalizeMatrix w flag) = Returns r \<longrightarrow>
        (if flag then tagged 3 r else tagged (len w) r))"
proof -
  have ops: "(\<exists>r. linearAddition (Mat a) (Mat b) = ([], Returns r) \<and> tagged d r) \<and>
      (\<exists>r. linearSubtract (Mat a) (Mat b) = ([], Returns r) \<and> tagged d r) \<and>
      (\<exists>r. linearMultiply (Mat a) (Mat b) = ([], Returns r) \<and> tagged d r) \<and>
      (\<exists>r. transposeMatrix (Mat a) = ([], Returns r) \<and> tagged d r)"
    if "square d a" "square d b"
    using tagged_addition [OF that] tagged_subtract [OF that] tagged_multiply [OF that]
      tagged_transpose [OF that(1)] by simp
  have builders: "tagged 4 (translateMatrix p) \<and> tagged 4 (scalingMatrix q) \<and>
   tagged 4 (rotateX theta) \<and> tagged 4 (rotateY theta) \<and> tagged 4 (rotateZ theta) \<and>
   tagged 4 (buildPerspectiveMatrix fovY aspect near far)"
    by (simp add: tagged_translate tagged_scaling tagged_rotateX tagged_rotateY tagged_rotateZ
        tagged_perspective)
  have results: "(\<forall>r. snd (rotateMatrix angle axis) = Returns r \<longrightarrow> tagged 4 r) \<and>
   (\<forall>r. snd (viewMatrixAt eye at_arg up) = Returns r \<longrightarrow> tagged 4 r) \<and>
   (\<forall>r. buildOrthographicMatrix left right bottom top' near far = Returns r \<longrightarrow> tagged 4 r)"
    using tagged_rotateMatrix tagged_viewMatrixAt tagged_orthographic by blast
  have inverses: "(\<forall>r. inverse2 ma = Some r \<longrightarrow> tagged 2 r) \<and>
   (\<forall>r. inverse3 mb = Some r \<longrightarrow> tagged 3 r) \<and>
   (\<forall>r. inverse4 mc = Some r \<longrightarrow> tagged 4 r) \<and>
   (\<forall>r. snd (calculateInverseMatrix v) = Returns r \<longrightarrow> tagged (len v) r) \<and>
   (\<forall>r. snd (normalizeMatrix w flag) = Returns r \<longrightarrow>
        (if flag then tagged 3 r else tagged (len w) r))"
    using tagged_inverse2 tagged_inverse3 tagged_inverse4 tagged_calculateInverseMatrix
      tagged_normalizeMatrix by blast
  from ops builders results inverses show ?thesis
    using tagged_mat2 tagged_mat3 tagged_mat4 by blast
qed

theorem matrix_results_keep_tag_and_shape_witness:
  "tagged 2 (mat2 []) \<and> tagged 3 (mat3 []) \<and> tagged 4 (mat4 []) \<and>
   square 2 [[num 1, num 2], [num 3, num 4]] \<and>
   (\<exists>r. linearAddition (Mat [[num 1, num 2], [num 3, num 4]]) (Mat [[num 1, num 2], [num 3, num 4]]) =
          ([], Returns r) \<and> tagged 2 r) \<and>
   (\<exists>r. linearSubtract (Mat [[num 1, num 2], [num 3, num 4]]) (Mat [[num 1, num 2], [num 3, num 4]]) =
          ([], Returns r) \<and> tagged 2 r) \<and>
   (\<exists>r. linearMultiply (Mat [[num 1, num 2], [num 3, num 4]]) (Mat [[num 1, num 2], [num 3, num 4]]) =
          ([], Returns r) \<and> tagged 2 r) \<and>
   (\<exists>r. transposeMatrix (Mat [[num 1, num 2], [num 3, num 4]]) = ([], Returns r) \<and> tagged 2 r) \<and>
   tagged 4 (translateMatrix (Components (num 1) (num 2) (num 3))) \<and>
   tagged 4 (scalingMatrix (Triple (num 2) (num 3) (num 4))) \<and>
   tagged 4 (rotateX (Fin 30)) \<and> tagged 4 (rotateY (Fin 30)) \<and> tagged 4 (rotateZ (Fin 30)) \<and>
   tagged 4 (buildPerspectiveMatrix (Fin 60) (Fin 1) (Fin 1) (Fin 10)) \<and>
   (\<exists>r. snd (rotateMatrix (Fin 0) (Axis [num 0, num 0, num 1])) = Returns r \<and> tagged 4 r) \<and>
   (\<exists>r. snd (viewMatrixAt (Arr [num 0, num 0, num 1]) (Arr [num 0, num 0, num 0])
              (Arr [num 0, num 1, num 0])) = Returns r \<and> tagged 4 r) \<and>
   (\<exists>r. buildOrthographicMatrix (Fin 0) (Fin 1) (Fin 0) (Fin 1) (Fin 1) (Fin 10) = Returns r \<and>
        tagged 4 r) \<and>
   (\<exists>r. inverse2 [[num 1, num 2], [num 3, num 4]] = Some r \<and> tagged 2 r) \<and>
   (\<exists>r. inverse3 (rows (mat3 [])) = Some r \<and> tagged 3 r) \<and>
   (\<exists>r. inverse4 (rows (mat4 [])) = Some r \<and> tagged 4 r) \<and>
   (\<exists>r. snd (calculateInverseMatrix (Mat [[num 1, num 2], [num 3, num 4]])) = Returns r \<and>
        tagged 2 r) \<and>
   (\<exists>r. snd (normalizeMatrix (mat4 []) True) = Returns r \<and> tagged 3 r)"
proof -
  note inst = matrix_results_keep_tag_and_shape
    [where args = "[]" and d = 2 and a = "[[num 1, num 2], [num 3, num 4]]"
       and b = "[[num 1, num 2], [num 3, num 4]]"
       and p = "Components (num 1) (num 2) (num 3)" and q = "Triple (num 2) (num 3) (num 4)"
       and theta = "Fin 30" and fovY = "Fin 60" and aspect = "Fin 1" and near = "Fin 1"
       and far = "Fin 10" and angle = "Fin 0" and axis = "Axis [num 0, num 0, num 1]"
       and eye = "Arr [num 0, num 0, num 1]" and at_arg = "Arr [num 0, num 0, num 0]"
       and up = "Arr [num 0, num 1, num 0]"
       and left = "Fin 0" and right = "Fin 1" and bottom = "Fin 0" and top' = "Fin 1"
       and ma = "[[num 1, num 2], [num 3, num 4]]" and mb = "rows (mat3 [])"
       and mc = "rows (mat4 [])" and v = "Mat [[num 1, num 2], [num 3, num 4]]"
       and w = "mat4 []" and flag = True]
  have sq: "square 2 [[num 1, num 2], [num 3, num 4]]"
    by (simp add: square_def)
  have rot: "\<exists>r. snd (rotateMatrix (Fin 0) (Axis [num 0, num 0, num 1])) = Returns r"
    by (simp add: rotateMatrix_def normalizeVectors_def vectorLength_def dotProduct_def
        sum_upto_def Let_def)
  have view: "\<exists>r. snd (viewMatrixAt (Arr [num 0, num 0, num 1]) (Arr [num 0, num 0, num 0])
              (Arr [num 0, num 1, num 0])) = Returns r"
    by (simp add: viewMatrixAt_def linearEquivalence_def linearSubtract_def crossProduct_def
        normalizeVectors_def vectorLength_def dotProduct_def negateElements_def
        sum_upto_def Let_def js_sub_def)
  have ortho: "\<exists>r. buildOrthographicMatrix (Fin 0) (Fin 1) (Fin 0) (Fin 1) (Fin 1) (Fin 10) = Returns r"
    by (simp add: buildOrthographicMatrix_def Let_def)
  have i2: "\<exists>r. inverse2 [[num 1, num 2], [num 3, num 4]] = Some r"
    by (simp add: js_sub_def)
  have i3: "\<exists>r. inverse3 (rows (mat3 [])) = Some r"
    by (simp add: mat3_empty js_sub_def minor2_def)
  have i4: "\<exists>r. inverse4 (rows (mat4 [])) = Some r"
    by (simp add: mat4_empty js_sub_def minor3_def)
  have ci: "\<exists>r. snd (calculateInverseMatrix (Mat [[num 1, num 2], [num 3, num 4]])) = Returns r"
    by (simp add: calculateInverseMatrix_Mat js_sub_def)
  have tr: "transposeMatrix (mat4 []) = ([], Returns (mat4 []))"
    by (simp add: mat4_empty transposeMatrix_def upt_small)
  have inv: "calculateInverseMatrix (mat4 []) = ([], Returns (mat4 []))"
    by (simp add: mat4_empty calculateInverseMatrix_Mat js_sub_def minor3_def put_def)
  have "snd (normalizeMatrix (mat4 []) True) = Returns (mat3 [])"
    by (simp add: normalizeMatrix_def tr [unfolded mat4_empty] inv [unfolded mat4_empty]
        mat4_empty mat3_empty upt_small)
  then have nm: "\<exists>r. snd (normalizeMatrix (mat4 []) True) = Returns r"
    by simp
  have l: "len (Mat [[num 1, num 2], [num 3, num 4]]) = 2"
    by simp
  from inst sq rot view ortho i2 i3 i4 ci nm show ?thesis
    unfolding l by (simp only: simp_thms if_True) blast
qed

end
